(* ===== verification/Prelude.thy ===== *)
theory Prelude
  imports Main
begin

text \<open>
  Shared vocabulary of the RPP registry development: the names of the model's basic
  types, the Python string helpers that several components use (\<open>str.startswith\<close>,
  \<open>str.endswith\<close>, \<open>str.split\<close>, \<open>str.lower\<close>, \<open>str.removeprefix\<close>), the integer
  parsers of Python's \<open>int()\<close> and of PostgreSQL's integer input, and the generic
  lemmas on lists that the component proofs share. The lemma collection
  \<open>registry_simps\<close> gathers the evaluation rules the component proofs hand to
  \<open>simp\<close>; \<open>preserves_intros\<close> gathers the rules that take an invariant through
  a computation one step at a time.
\<close>

named_theorems registry_simps "evaluation rules shared by the component proofs"
named_theorems preserves_intros "decomposition rules for invariants of computations"

type_synonym registrar_id = int
type_synonym domain_name = string
type_synonym contact_handle = int
type_synonym timestamp = nat

section \<open>Exceptions\<close>

text \<open>Errors reported by the database driver (\<open>psycopg2.errors\<close>): a unique-key
  violation, a serialization failure, a value that does not cast to the column's type,
  any statement sent while the transaction is aborted, and the refused connection of
  \<open>psycopg2.connect\<close>.\<close>

datatype sqlerr = UniqueViolation | SerializationFailure | InvalidTextRepresentation
  | InFailedSqlTransaction | OperationalError

text \<open>The exceptions a request handler of \<open>registry.py\<close> can raise: the module's own
  classes (lines 23--37), the driver's errors, the JSON and schema errors, and the
  built-in errors that escape a handler (\<open>KeyError\<close>, \<open>TypeError\<close>,
  \<open>ValueError\<close>, \<open>NameError\<close> and the bare \<open>Exception\<close> of line 494), and
  the \<open>OSError\<close> of a file that cannot be opened, with its path.\<close>

datatype exn = AlreadyExists | DoesNotExist | Immutable | TooManyDomains | TooManyContacts
  | Conflict | NoValidationForThisMethod string | DbError sqlerr | JSONDecodeError
  | ValidationError | KeyError | TypeError | ValueError | NameError | PyException string
  | OSError string

section \<open>Python string helpers\<close>

definition startswith :: "string \<Rightarrow> string \<Rightarrow> bool" where
  "startswith s p \<longleftrightarrow> take (length p) s = p"

definition endswith :: "string \<Rightarrow> string \<Rightarrow> bool" where
  "endswith s p \<longleftrightarrow> length p \<le> length s \<and> drop (length s - length p) s = p"

definition removeprefix :: "string \<Rightarrow> string \<Rightarrow> string" where
  "removeprefix s p = (if startswith s p then drop (length p) s else s)"

text \<open>\<open>str.split(sep)\<close> with a one-character separator: the pieces between
  separators, empty pieces kept, so that \<open>k\<close> separators give \<open>k + 1\<close> pieces.\<close>

fun split_on :: "char \<Rightarrow> string \<Rightarrow> string list" where
  "split_on c [] = [[]]"
| "split_on c (x # xs) =
     (if x = c then [] # split_on c xs
      else (case split_on c xs of p # ps \<Rightarrow> (x # p) # ps | [] \<Rightarrow> [[x]]))"

text \<open>\<open>str.split(sep, maxsplit=1)\<close>: the piece before the first separator and the rest;
  \<open>None\<close> when there is no separator (the unpacking into two names then raises).\<close>

fun split_first :: "char \<Rightarrow> string \<Rightarrow> (string \<times> string) option" where
  "split_first c [] = None"
| "split_first c (x # xs) =
     (if x = c then Some ([], xs)
      else map_option (\<lambda>(a, b). (x # a, b)) (split_first c xs))"

text \<open>\<open>str.lower()\<close> on the characters a WSGI path can hold (PEP 3333 decodes it as
  Latin-1): the ASCII capitals and the Latin-1 capitals \<open>0xC0\<close>--\<open>0xDE\<close> except the
  multiplication sign \<open>0xD7\<close> are shifted by 32.\<close>

definition lower_char :: "char \<Rightarrow> char" where
  "lower_char ch =
     (let n = (of_char ch :: nat) in
      if (65 \<le> n \<and> n \<le> 90) \<or> (192 \<le> n \<and> n \<le> 222 \<and> n \<noteq> 215) then char_of (n + 32) else ch)"

definition lower :: "string \<Rightarrow> string" where
  "lower s = map lower_char s"

section \<open>Tables as lists of rows\<close>

text \<open>A database table is a list of rows in storage order; \<open>keyed key rs\<close> reads it as
  the map from a key column to the first row with that key, the view the specification's
  Registry Store contract (find, insert, update, delete by key) is stated in.\<close>

definition keyed :: "('r \<Rightarrow> 'k) \<Rightarrow> 'r list \<Rightarrow> 'k \<rightharpoonup> 'r" where
  "keyed key rs = map_of (map (\<lambda>r. (key r, r)) rs)"

section \<open>Integer parsing\<close>

definition is_digit :: "char \<Rightarrow> bool" where
  "is_digit ch \<longleftrightarrow> (48::nat) \<le> of_char ch \<and> of_char ch \<le> (57::nat)"

definition digit_val :: "char \<Rightarrow> nat" where
  "digit_val ch = of_char ch - (48::nat)"

fun digits_val :: "nat \<Rightarrow> string \<Rightarrow> nat" where
  "digits_val acc [] = acc"
| "digits_val acc (d # ds) = digits_val (10 * acc + digit_val d) ds"

definition is_space :: "char \<Rightarrow> bool" where
  "is_space ch \<longleftrightarrow> ch \<in> {CHR '' '', CHR 0x09, CHR 0x0A, CHR 0x0B, CHR 0x0C, CHR 0x0D}"

definition strip :: "string \<Rightarrow> string" where
  "strip s = rev (dropWhile is_space (rev (dropWhile is_space s)))"

definition signed :: "string \<Rightarrow> (bool \<times> string)" where
  "signed s = (case s of
      c # r \<Rightarrow> (if c = CHR ''-'' then (True, r) else if c = CHR ''+'' then (False, r) else (False, s))
    | [] \<Rightarrow> (False, []))"

text \<open>PostgreSQL's integer input: optional blanks, an optional sign, one or more
  decimal digits, optional blanks. Anything else is the error \<open>invalid input
  syntax for type integer\<close>, here \<open>None\<close>.\<close>

definition pg_int :: "string \<Rightarrow> int option" where
  "pg_int s =
     (let (neg, ds) = signed (strip s)
      in if ds \<noteq> [] \<and> list_all is_digit ds
         then Some ((if neg then -1 else 1) * int (digits_val 0 ds)) else None)"

text \<open>Python's \<open>int(str)\<close>: as above, and underscores are allowed between digits.\<close>

fun py_digit_groups :: "string \<Rightarrow> bool" where
  "py_digit_groups [] = False"
| "py_digit_groups [d] = is_digit d"
| "py_digit_groups (d # e # r) =
     (is_digit d \<and> (if e = CHR ''_'' then r \<noteq> [] \<and> hd r \<noteq> CHR ''_'' \<and> py_digit_groups r
                    else py_digit_groups (e # r)))"

text \<open>Python's \<open>str.isspace\<close> on Latin-1 characters: the blanks above and the
  separators \<open>0x1C\<close>--\<open>0x1F\<close>, \<open>0x85\<close> and \<open>0xA0\<close>, which \<open>int()\<close> also strips.\<close>

definition py_space :: "char \<Rightarrow> bool" where
  "py_space ch \<longleftrightarrow> is_space ch \<or> of_char ch \<in> {28, 29, 30, 31, 133, 160 :: nat}"

definition py_strip :: "string \<Rightarrow> string" where
  "py_strip s = rev (dropWhile py_space (rev (dropWhile py_space s)))"

definition py_int :: "string \<Rightarrow> int option" where
  "py_int s =
     (let (neg, ds) = signed (py_strip s)
      in if py_digit_groups ds
         then Some ((if neg then -1 else 1) * int (digits_val 0 (filter is_digit ds))) else None)"

section \<open>Lemmas on keyed tables\<close>

lemma find_keyed [registry_simps]: "find (\<lambda>r. key r = k) rs = keyed key rs k"
  by (induction rs) (auto simp: keyed_def)

lemma keyed_filter_key: "keyed key (filter (\<lambda>r. key r \<noteq> k) rs) = (keyed key rs)(k := None)"
  by (induction rs) (auto simp: keyed_def)

lemma keyed_map_update:
  assumes "\<And>r. key (f r) = key r"
  shows "keyed key (map (\<lambda>r. if key r = k then f r else r) rs) = (keyed key rs)(k := map_option f (keyed key rs k))"
  using assms by (induction rs) (auto simp: keyed_def)

lemma keyed_append: "keyed key (rs @ [r]) k' = (case keyed key rs k' of None \<Rightarrow> if k' = key r then Some r else None | Some x \<Rightarrow> Some x)"
  by (simp add: keyed_def map_add_def split: option.splits)

lemma keyed_append_new: "key r \<notin> dom (keyed key rs) \<Longrightarrow> keyed key (rs @ [r]) = (keyed key rs)(key r \<mapsto> r)"
  by (auto simp: keyed_append fun_eq_iff split: option.splits)

lemma dom_keyed: "dom (keyed key rs) = key ` set rs"
  by (simp add: keyed_def dom_map_of_conv_image_fst image_image)

lemma count_key_distinct:
  "distinct (map key rs) \<Longrightarrow> length (filter (\<lambda>r. key r = k) rs) = (if k \<in> dom (keyed key rs) then 1 else 0)"
  by (induction rs) (auto simp: dom_keyed filter_empty_conv)


section \<open>Lemmas on separators\<close>

lemma split_first_Some:
  "split_first c s = Some (a, b) \<longleftrightarrow> s = a @ c # b \<and> c \<notin> set a"
proof (induction s arbitrary: a)
  case Nil
  then show ?case by simp
next
  case (Cons x xs)
  then show ?case by (cases a) auto
qed

lemma split_first_None: "split_first c s = None \<longleftrightarrow> c \<notin> set s"
  by (induction s) auto

lemma append_sep_unique:
  "a @ c # b = l @ c # r \<Longrightarrow> c \<notin> set a \<Longrightarrow> c \<notin> set l \<Longrightarrow> a = l \<and> b = r"
proof (induction a arbitrary: l)
  case Nil
  then show ?case by (cases l) auto
next
  case (Cons x xs)
  then show ?case by (cases l) auto
qed

end
