(* ===== verification/Json.thy ===== *)
theory Json
  imports Prelude
begin

text \<open>
  Request bodies. \<open>json.loads\<close> turns the body into a JSON value (\<open>None\<close> when it
  raises \<open>JSONDecodeError\<close>); \<open>validate_json\<close> (\<open>registry.py\<close> lines 200--217) checks
  it against one of three schemas. The schema documents are files the server reads at
  start-up and that are not part of the repository, so the three predicates below are
  written from the request bodies that the specification describes (its section 6).
  Lookups follow Python's \<open>dict\<close>: a key given twice in an object keeps its last value.
\<close>

datatype json = JNull | JBool bool | JNum int | JStr string | JArr "json list"
  | JObj "(string \<times> json) list"

fun jget :: "string \<Rightarrow> json \<Rightarrow> json option" where
  "jget k (JObj kvs) = map_of (rev kvs) k"
| "jget k _ = None"

definition jhas :: "string \<Rightarrow> json \<Rightarrow> bool" where
  "jhas k j \<longleftrightarrow> jget k j \<noteq> None"

text \<open>\<open>d[k]\<close>: the value, or the \<open>KeyError\<close> (\<open>TypeError\<close> on a non-object) it raises.\<close>

fun jindex :: "json \<Rightarrow> string \<Rightarrow> exn + json" where
  "jindex (JObj kvs) k = (case map_of (rev kvs) k of Some v \<Rightarrow> Inr v | None \<Rightarrow> Inl KeyError)"
| "jindex _ k = Inl TypeError"

text \<open>Python's truth value of a decoded JSON value.\<close>

fun py_truthy :: "json \<Rightarrow> bool" where
  "py_truthy JNull = False"
| "py_truthy (JBool b) = b"
| "py_truthy (JNum n) = (n \<noteq> 0)"
| "py_truthy (JStr s) = (s \<noteq> [])"
| "py_truthy (JArr xs) = (xs \<noteq> [])"
| "py_truthy (JObj kvs) = (kvs \<noteq> [])"

fun is_jstr :: "json \<Rightarrow> bool" where
  "is_jstr (JStr _) = True"
| "is_jstr _ = False"

fun is_jobj :: "json \<Rightarrow> bool" where
  "is_jobj (JObj _) = True"
| "is_jobj _ = False"

definition str_field :: "string \<Rightarrow> json \<Rightarrow> bool" where
  "str_field k j \<longleftrightarrow> (case jget k j of Some v \<Rightarrow> is_jstr v | None \<Rightarrow> False)"

definition opt_str_field :: "string \<Rightarrow> json \<Rightarrow> bool" where
  "opt_str_field k j \<longleftrightarrow> (case jget k j of Some v \<Rightarrow> is_jstr v | None \<Rightarrow> True)"

section \<open>The schemas\<close>

text \<open>\<open>domain-schema.json\<close>: \<open>{holder, tech, admin}\<close>, three contact handles, all required.\<close>

definition domain_schema :: "json \<Rightarrow> bool" where
  "domain_schema j \<longleftrightarrow> is_jobj j \<and> str_field ''holder'' j \<and> str_field ''tech'' j \<and> str_field ''admin'' j"

text \<open>\<open>patch-domain-schema.json\<close>: \<open>{change: {tech?, admin?}}\<close>.\<close>

definition patch_domain_schema :: "json \<Rightarrow> bool" where
  "patch_domain_schema j \<longleftrightarrow> is_jobj j \<and>
     (case jget ''change'' j of
        Some c \<Rightarrow> is_jobj c \<and> opt_str_field ''tech'' c \<and> opt_str_field ''admin'' c
      | None \<Rightarrow> False)"

text \<open>\<open>entity-schema.json\<close>: \<open>{name: {components: [{kind, value}, ...]}}\<close> with
  \<open>kind\<close> one of \<open>given\<close>, \<open>surname\<close>.\<close>

definition name_component :: "json \<Rightarrow> bool" where
  "name_component c \<longleftrightarrow> is_jobj c \<and> str_field ''value'' c \<and>
     (jget ''kind'' c = Some (JStr ''given'') \<or> jget ''kind'' c = Some (JStr ''surname''))"

definition entity_schema :: "json \<Rightarrow> bool" where
  "entity_schema j \<longleftrightarrow> is_jobj j \<and>
     (case jget ''name'' j of
        Some n \<Rightarrow> is_jobj n \<and>
          (case jget ''components'' n of Some (JArr cs) \<Rightarrow> list_all name_component cs | _ \<Rightarrow> False)
      | None \<Rightarrow> False)"

section \<open>validate_json\<close>

text \<open>\<open>validate_json(input, klass, method)\<close>: decode, then check against the schema that
  the class and method select. The unknown-class branch raises a class the module never
  defines, which Python reports as \<open>NameError\<close>.\<close>

definition validate_json :: "json option \<Rightarrow> string \<Rightarrow> string \<Rightarrow> exn + json" where
  "validate_json input klass method =
     (case input of
        None \<Rightarrow> Inl JSONDecodeError
      | Some ojson \<Rightarrow>
          (if klass = ''domain'' then
             (if method = ''put'' then (if domain_schema ojson then Inr ojson else Inl ValidationError)
              else if method = ''patch'' then
                (if patch_domain_schema ojson then Inr ojson else Inl ValidationError)
              else Inl (NoValidationForThisMethod method))
           else if klass = ''contact'' then
             (if method = ''put'' then (if entity_schema ojson then Inr ojson else Inl ValidationError)
              else Inl (NoValidationForThisMethod method))
           else Inl NameError))"


section \<open>Lemmas\<close>

lemma jindex_Inr: "jindex j k = Inr v \<longleftrightarrow> jget k j = Some v"
  by (cases j) (auto split: option.splits)

lemma jindex_jget [registry_simps]: "jget k j = Some v \<Longrightarrow> jindex j k = Inr v"
  by (simp add: jindex_Inr)

end
