(* ===== verification/Store.thy ===== *)
theory Store
  imports Prelude
begin

text \<open>
  The Registry Store: the four tables of the PostgreSQL database \<open>registry\<close> and the
  one connection that \<open>registry.py\<close> opens at start-up (lines 613--616, autocommit off,
  isolation read committed). Every handler runs its statements on that connection, so
  the state is the connection: the committed tables, the tables as the open transaction
  sees them (its own writes included), whether the transaction is aborted, and the two
  sequences (\<open>serial\<close> columns), which PostgreSQL never rolls back.
  A statement sent while the transaction is aborted fails with
  \<open>InFailedSqlTransaction\<close>; a statement that fails aborts the transaction;
  \<open>commit\<close> publishes the work tables and \<open>rollback\<close> drops them.
  The Python functions of lines 65--187 that wrap single statements are defined here, in
  an error-and-state monad \<open>'a py\<close>: a computation takes the connection and returns the
  raised exception (\<open>Inl\<close>) or the result (\<open>Inr\<close>), with the new connection.
  The table layout (the SQL schema) is not in the repository; the columns are those the
  statements name, and the only constraint assumed is the uniqueness of domain names that
  the code relies on when it catches \<open>UniqueViolation\<close>.
\<close>

section \<open>Tables and connection\<close>

record domain_row =
  dname :: domain_name
  holder :: string
  tech :: string
  admin :: string
  registrar :: registrar_id
  dcreated :: timestamp

record contact_row =
  handle :: contact_handle
  cname :: string
  ccreated :: timestamp

record registrar_row =
  rhandle :: registrar_id
  password :: string

record transfer_row =
  tid :: nat
  tdomain :: domain_name
  winner :: registrar_id
  tcreated :: timestamp
  completed :: bool

record tables =
  domains :: "domain_row list"
  contacts :: "contact_row list"
  registrars :: "registrar_row list"
  transfers :: "transfer_row list"

record conn =
  committed :: tables
  work :: tables
  aborted :: bool
  contact_seq :: contact_handle
  transfer_seq :: nat
  now :: timestamp

definition TLD :: string where "TLD = ''example''"
definition MAX_DOMAINS :: nat where "MAX_DOMAINS = 5000"
definition MAX_CONTACTS :: nat where "MAX_CONTACTS = 5000"

section \<open>The error-and-state monad\<close>

type_synonym 'a py = "conn \<Rightarrow> (exn + 'a) \<times> conn"

definition retE :: "'a \<Rightarrow> 'a py" where
  "retE a c = (Inr a, c)"

definition raiseE :: "exn \<Rightarrow> 'a py" where
  "raiseE e c = (Inl e, c)"

definition bindE :: "'a py \<Rightarrow> ('a \<Rightarrow> 'b py) \<Rightarrow> 'b py" where
  "bindE m f c = (case m c of (Inl e, c') \<Rightarrow> (Inl e, c') | (Inr a, c') \<Rightarrow> f a c')"

text \<open>\<open>try: m except: h\<close>; the handler re-raises what it does not catch.\<close>

definition catchE :: "'a py \<Rightarrow> (exn \<Rightarrow> 'a py) \<Rightarrow> 'a py" where
  "catchE m h c = (case m c of (Inl e, c') \<Rightarrow> h e c' | (Inr a, c') \<Rightarrow> (Inr a, c'))"

text \<open>A value of the sum type as a computation: \<open>Inl\<close> raises.\<close>

definition liftE :: "exn + 'a \<Rightarrow> 'a py" where
  "liftE r = (case r of Inl e \<Rightarrow> raiseE e | Inr a \<Rightarrow> retE a)"

text \<open>Evaluation helpers: the rest of a computation runs once the result of its first
  step is known. Their congruence rules below keep the simplifier from rewriting the rest
  before that.\<close>

fun bind_res :: "(exn + 'a) \<times> conn \<Rightarrow> ('a \<Rightarrow> 'b py) \<Rightarrow> (exn + 'b) \<times> conn" where
  "bind_res (Inl e, c) f = (Inl e, c)"
| "bind_res (Inr a, c) f = f a c"

fun catch_res :: "(exn + 'a) \<times> conn \<Rightarrow> (exn \<Rightarrow> 'a py) \<Rightarrow> (exn + 'a) \<times> conn" where
  "catch_res (Inl e, c) h = h e c"
| "catch_res (Inr a, c) h = (Inr a, c)"

section \<open>Statements\<close>

type_synonym 'a stmt = "conn \<Rightarrow> sqlerr + ('a \<times> conn)"

text \<open>\<open>cursor.execute\<close>: refused on an aborted transaction; a failing statement
  leaves the tables as they were and aborts the transaction.\<close>

definition execute :: "'a stmt \<Rightarrow> 'a py" where
  "execute q c =
     (if aborted c then (Inl (DbError InFailedSqlTransaction), c)
      else (case q c of
              Inl e \<Rightarrow> (Inl (DbError e), c\<lparr>aborted := True\<rparr>)
            | Inr (a, c') \<Rightarrow> (Inr a, c')))"

definition commit :: "unit py" where
  "commit c = (Inr (),
     if aborted c then c\<lparr>work := committed c, aborted := False\<rparr> else c\<lparr>committed := work c\<rparr>)"

definition rollback :: "unit py" where
  "rollback c = (Inr (), c\<lparr>work := committed c, aborted := False\<rparr>)"

definition query :: "(tables \<Rightarrow> 'a) \<Rightarrow> 'a stmt" where
  "query f c = Inr (f (work c), c)"

text \<open>\<open>WHERE handle = %s\<close> with a Python string: PostgreSQL casts the literal to
  the integer column, and a string that is no integer is an error.\<close>

definition handle_cast :: "string \<Rightarrow> sqlerr + contact_handle" where
  "handle_cast h = (case pg_int h of Some n \<Rightarrow> Inr n | None \<Rightarrow> Inl InvalidTextRepresentation)"

definition sel_domain :: "domain_name \<Rightarrow> domain_row option stmt" where
  "sel_domain d = query (\<lambda>t. find (\<lambda>r. dname r = d) (domains t))"

definition sel_domain_names :: "domain_name list stmt" where
  "sel_domain_names = query (\<lambda>t. map dname (domains t))"

definition count_domains :: "nat stmt" where
  "count_domains = query (\<lambda>t. length (domains t))"

definition count_contacts :: "nat stmt" where
  "count_contacts = query (\<lambda>t. length (contacts t))"

definition sel_contact :: "string \<Rightarrow> contact_row option stmt" where
  "sel_contact h c =
     (case handle_cast h of
        Inl e \<Rightarrow> Inl e
      | Inr n \<Rightarrow> Inr (find (\<lambda>r. handle r = n) (contacts (work c)), c))"

text \<open>\<open>WHERE handle = NULL\<close> (Python \<open>None\<close>) selects nothing.\<close>

definition sel_registrar :: "registrar_id option \<Rightarrow> registrar_row option stmt" where
  "sel_registrar u = query (\<lambda>t. case u of
      None \<Rightarrow> None
    | Some n \<Rightarrow> find (\<lambda>r. rhandle r = n) (registrars t))"

definition pending :: "domain_name \<Rightarrow> transfer_row \<Rightarrow> bool" where
  "pending d r \<longleftrightarrow> \<not> completed r \<and> tdomain r = d"

definition sel_pending :: "domain_name \<Rightarrow> transfer_row option stmt" where
  "sel_pending d = query (\<lambda>t. find (pending d) (transfers t))"

text \<open>\<open>UPDATE\<close> and \<open>DELETE\<close> return \<open>cursor.rowcount\<close>, the number of rows the
  \<open>WHERE\<close> clause matched.\<close>

definition update_rows :: "('r \<Rightarrow> bool) \<Rightarrow> ('r \<Rightarrow> 'r) \<Rightarrow> 'r list \<Rightarrow> nat \<times> 'r list" where
  "update_rows p f rs = (length (filter p rs), map (\<lambda>r. if p r then f r else r) rs)"

definition delete_rows :: "('r \<Rightarrow> bool) \<Rightarrow> 'r list \<Rightarrow> nat \<times> 'r list" where
  "delete_rows p rs = (length (filter p rs), filter (\<lambda>r. \<not> p r) rs)"

definition upd_domain :: "domain_name \<Rightarrow> (domain_row \<Rightarrow> domain_row) \<Rightarrow> nat stmt" where
  "upd_domain d f c =
     (let (n, rs) = update_rows (\<lambda>r. dname r = d) f (domains (work c))
      in Inr (n, c\<lparr>work := (work c)\<lparr>domains := rs\<rparr>\<rparr>))"

definition del_domain :: "domain_name \<Rightarrow> nat stmt" where
  "del_domain d c =
     (let (n, rs) = delete_rows (\<lambda>r. dname r = d) (domains (work c))
      in Inr (n, c\<lparr>work := (work c)\<lparr>domains := rs\<rparr>\<rparr>))"

definition del_contact :: "string \<Rightarrow> nat stmt" where
  "del_contact h c =
     (case handle_cast h of
        Inl e \<Rightarrow> Inl e
      | Inr k \<Rightarrow>
          (let (n, rs) = delete_rows (\<lambda>r. handle r = k) (contacts (work c))
           in Inr (n, c\<lparr>work := (work c)\<lparr>contacts := rs\<rparr>\<rparr>)))"

definition upd_pending :: "domain_name \<Rightarrow> (transfer_row \<Rightarrow> transfer_row) \<Rightarrow> nat stmt" where
  "upd_pending d f c =
     (let (n, rs) = update_rows (pending d) f (transfers (work c))
      in Inr (n, c\<lparr>work := (work c)\<lparr>transfers := rs\<rparr>\<rparr>))"

definition del_pending :: "domain_name \<Rightarrow> nat stmt" where
  "del_pending d c =
     (let (n, rs) = delete_rows (pending d) (transfers (work c))
      in Inr (n, c\<lparr>work := (work c)\<lparr>transfers := rs\<rparr>\<rparr>))"

text \<open>\<open>INSERT INTO domains\<close>: the name is the table's unique key; \<open>created\<close> takes
  the column default, the transaction's \<open>now()\<close>.\<close>

definition ins_domain :: "domain_name \<Rightarrow> string \<Rightarrow> string \<Rightarrow> string \<Rightarrow> registrar_id \<Rightarrow> unit stmt" where
  "ins_domain d h t a u c =
     (if list_ex (\<lambda>r. dname r = d) (domains (work c)) then Inl UniqueViolation
      else Inr ((), c\<lparr>work := (work c)\<lparr>domains := domains (work c) @
             [\<lparr>dname = d, holder = h, tech = t, admin = a, registrar = u, dcreated = now c\<rparr>]\<rparr>\<rparr>))"

text \<open>\<open>INSERT INTO contacts (name)\<close>: the handle is the next value of the serial.\<close>

definition ins_contact :: "string \<Rightarrow> unit stmt" where
  "ins_contact n c =
     Inr ((), c\<lparr>work := (work c)\<lparr>contacts := contacts (work c) @
             [\<lparr>handle = contact_seq c, cname = n, ccreated = now c\<rparr>]\<rparr>,
           contact_seq := contact_seq c + 1\<rparr>)"

definition ins_transfer :: "domain_name \<Rightarrow> registrar_id \<Rightarrow> unit stmt" where
  "ins_transfer d w c =
     Inr ((), c\<lparr>work := (work c)\<lparr>transfers := transfers (work c) @
             [\<lparr>tid = transfer_seq c, tdomain = d, winner = w, tcreated = now c, completed = False\<rparr>]\<rparr>,
           transfer_seq := Suc (transfer_seq c)\<rparr>)"

section \<open>Store functions of registry.py\<close>

definition head_domain :: "domain_name \<Rightarrow> domain_name option py" where
  "head_domain d = bindE (execute (sel_domain d)) (\<lambda>r. retE (map_option dname r))"

definition head_contact :: "string \<Rightarrow> string option py" where
  "head_contact h = bindE (execute (sel_contact h)) (\<lambda>r. retE (map_option cname r))"

definition info_domain :: "domain_name \<Rightarrow> domain_row option py" where
  "info_domain d = execute (sel_domain d)"

definition info_contact :: "string \<Rightarrow> contact_row option py" where
  "info_contact h = execute (sel_contact h)"

definition list_domains :: "domain_name list py" where
  "list_domains = execute sel_domain_names"

definition store_domain ::
  "domain_name \<Rightarrow> string \<Rightarrow> string \<Rightarrow> string \<Rightarrow> registrar_id \<Rightarrow> unit py" where
  "store_domain d h t a u =
     bindE (execute count_domains) (\<lambda>num.
       if num \<ge> MAX_DOMAINS then raiseE TooManyDomains
       else catchE (bindE (execute (ins_domain d h t a u)) (\<lambda>_. commit))
         (\<lambda>e. if e = DbError UniqueViolation then bindE rollback (\<lambda>_. raiseE AlreadyExists)
              else if e = DbError SerializationFailure then bindE rollback (\<lambda>_. raiseE Conflict)
              else raiseE e))"

definition store_contact :: "string \<Rightarrow> unit py" where
  "store_contact n =
     bindE (execute count_contacts) (\<lambda>num.
       if num \<ge> MAX_CONTACTS then raiseE TooManyContacts
       else catchE (bindE (execute (ins_contact n)) (\<lambda>_. commit))
         (\<lambda>e. if e = DbError SerializationFailure then bindE rollback (\<lambda>_. raiseE Conflict)
              else raiseE e))"

definition delete_domain :: "domain_name \<Rightarrow> unit py" where
  "delete_domain d =
     (if d = ''nic.'' @ TLD then raiseE Immutable
      else bindE (execute (del_domain d)) (\<lambda>n.
        if n = 0 then bindE rollback (\<lambda>_. raiseE DoesNotExist) else commit))"

text \<open>Python's \<open>==\<close> between a \<open>str\<close> and an \<open>int\<close> is \<open>False\<close>, whatever the
  string holds.\<close>

definition str_eq_int :: "string \<Rightarrow> int \<Rightarrow> bool" where
  "str_eq_int s i = False"

definition delete_contact :: "string \<Rightarrow> unit py" where
  "delete_contact h =
     (if str_eq_int h 1 then raiseE Immutable
      else bindE (execute (del_contact h)) (\<lambda>n.
        if n = 0 then bindE rollback (\<lambda>_. raiseE DoesNotExist) else commit))"

definition auth_registrar :: "registrar_id option \<Rightarrow> string option \<Rightarrow> bool py" where
  "auth_registrar u pw =
     bindE (execute (sel_registrar u)) (\<lambda>r.
       retE (case r of Some row \<Rightarrow> Some (password row) = pw | None \<Rightarrow> False))"


section \<open>Invariants of the connection\<close>

text \<open>\<open>preserves I m\<close>: running \<open>m\<close> from a connection that satisfies \<open>I\<close>
  ends in one that does, whatever it returns or raises. Table invariants must hold of
  the committed tables and of the transaction's view (\<open>tinv\<close>). \<open>stmt_keeps Q q\<close>:
  the statement \<open>q\<close> leaves the committed tables alone and keeps \<open>Q\<close> of the work
  tables. The \<open>only_*\<close> predicates say which table a statement may change, so that an
  invariant about the other tables holds across it for free.\<close>

definition preserves :: "(conn \<Rightarrow> bool) \<Rightarrow> 'a py \<Rightarrow> bool" where
  "preserves I m \<longleftrightarrow> (\<forall>c. I c \<longrightarrow> I (snd (m c)))"

definition tinv :: "(tables \<Rightarrow> bool) \<Rightarrow> conn \<Rightarrow> bool" where
  "tinv Q c \<longleftrightarrow> Q (work c) \<and> Q (committed c)"

definition stmt_keeps :: "(tables \<Rightarrow> bool) \<Rightarrow> 'a stmt \<Rightarrow> bool" where
  "stmt_keeps Q q \<longleftrightarrow>
     (\<forall>c a c'. q c = Inr (a, c') \<longrightarrow> committed c' = committed c \<and> (Q (work c) \<longrightarrow> Q (work c')))"

definition readonly :: "'a stmt \<Rightarrow> bool" where
  "readonly q \<longleftrightarrow> (\<forall>c a c'. q c = Inr (a, c') \<longrightarrow> committed c' = committed c \<and> work c' = work c)"

definition only_domains :: "'a stmt \<Rightarrow> bool" where
  "only_domains q \<longleftrightarrow> (\<forall>c a c'. q c = Inr (a, c') \<longrightarrow>
     committed c' = committed c \<and> work c' = (work c)\<lparr>domains := domains (work c')\<rparr>)"

definition only_contacts :: "'a stmt \<Rightarrow> bool" where
  "only_contacts q \<longleftrightarrow> (\<forall>c a c'. q c = Inr (a, c') \<longrightarrow>
     committed c' = committed c \<and> work c' = (work c)\<lparr>contacts := contacts (work c')\<rparr>)"

definition only_transfers :: "'a stmt \<Rightarrow> bool" where
  "only_transfers q \<longleftrightarrow> (\<forall>c a c'. q c = Inr (a, c') \<longrightarrow>
     committed c' = committed c \<and> work c' = (work c)\<lparr>transfers := transfers (work c')\<rparr>)"

text \<open>Invariants of one table.\<close>

definition on_domains :: "(domain_row list \<Rightarrow> bool) \<Rightarrow> tables \<Rightarrow> bool" where
  "on_domains P t \<longleftrightarrow> P (domains t)"

definition on_transfers :: "(transfer_row list \<Rightarrow> bool) \<Rightarrow> tables \<Rightarrow> bool" where
  "on_transfers P t \<longleftrightarrow> P (transfers t)"

definition on_registrars :: "(registrar_row list \<Rightarrow> bool) \<Rightarrow> tables \<Rightarrow> bool" where
  "on_registrars P t \<longleftrightarrow> P (registrars t)"

text \<open>A small registry for the worked examples: registrars 5 and 6 with secrets
  \<open>p5\<close> and \<open>p6\<close>, the domain \<open>ex.example\<close> sponsored by 5, no transfer.\<close>

definition example_tables :: tables where
  "example_tables =
     \<lparr>domains = [\<lparr>dname = ''ex.example'', holder = ''H1'', tech = ''H1'', admin = ''H1'', registrar = 5, dcreated = 1\<rparr>],
      contacts = [\<lparr>handle = 1, cname = ''Registry operator'', ccreated = 0\<rparr>],
      registrars = [\<lparr>rhandle = 5, password = ''p5''\<rparr>, \<lparr>rhandle = 6, password = ''p6''\<rparr>],
      transfers = []\<rparr>"

definition example_conn :: conn where
  "example_conn = \<lparr>committed = example_tables, work = example_tables, aborted = False,
                    contact_seq = 2, transfer_seq = 1, now = 10\<rparr>"

definition dnames_ok :: "domain_row list \<Rightarrow> bool" where
  "dnames_ok ds \<longleftrightarrow> distinct (map dname ds)"

text \<open>The row \<open>INSERT INTO domains\<close> adds, and the authentication predicate of the
  specification (section 4.2): a registrar with this id exists and its stored secret is the
  one presented.\<close>

definition new_domain_row :: "conn \<Rightarrow> domain_name \<Rightarrow> string \<Rightarrow> string \<Rightarrow> string \<Rightarrow> registrar_id \<Rightarrow> domain_row" where
  "new_domain_row c d h t a u = \<lparr>dname = d, holder = h, tech = t, admin = a, registrar = u, dcreated = now c\<rparr>"

definition authentic :: "tables \<Rightarrow> registrar_id option \<Rightarrow> string option \<Rightarrow> bool" where
  "authentic t u pw \<longleftrightarrow>
     (case u of None \<Rightarrow> False
      | Some n \<Rightarrow> (case keyed rhandle (registrars t) n of None \<Rightarrow> False | Some r \<Rightarrow> pw = Some (password r)))"

text \<open>\<open>frozen m\<close>: started on an aborted transaction, \<open>m\<close> ends with the connection exactly as it was; \<open>blocked m\<close>: it moreover raises the driver's \<open>InFailedSqlTransaction\<close> at once. Every store function begins with a statement and is blocked.\<close>

definition frozen :: "'a py \<Rightarrow> bool" where
  "frozen m \<longleftrightarrow> (\<forall>c. aborted c \<longrightarrow> snd (m c) = c)"

definition blocked :: "'a py \<Rightarrow> bool" where
  "blocked m \<longleftrightarrow> (\<forall>c. aborted c \<longrightarrow> m c = (Inl (DbError InFailedSqlTransaction), c))"

text \<open>\<open>returns P m\<close>: whatever \<open>m\<close> returns (when it does not raise) satisfies \<open>P\<close>; the postcondition on the value of a handler.\<close>

definition returns :: "('a \<Rightarrow> bool) \<Rightarrow> 'a py \<Rightarrow> bool" where
  "returns P m \<longleftrightarrow> (\<forall>c a c'. m c = (Inr a, c') \<longrightarrow> P a)"

section \<open>Lemmas\<close>

subsection \<open>The monad\<close>

lemma bindE_retE [simp]: "bindE (retE a) f = f a"
  by (simp add: bindE_def retE_def fun_eq_iff)

lemma bindE_raiseE [simp]: "bindE (raiseE e) f = raiseE e"
  by (simp add: bindE_def raiseE_def fun_eq_iff)

lemma catchE_retE [simp]: "catchE (retE a) h = retE a"
  by (simp add: catchE_def retE_def fun_eq_iff)

lemma catchE_raiseE [simp]: "catchE (raiseE e) h = h e"
  by (simp add: catchE_def raiseE_def fun_eq_iff)

lemma bindE_assoc: "bindE (bindE m f) g = bindE m (\<lambda>a. bindE (f a) g)"
  by (simp add: bindE_def fun_eq_iff split: prod.splits sum.splits)

lemma bind_res_cong [cong]: "r = r' \<Longrightarrow> bind_res r f = bind_res r' f"
  by simp

lemma catch_res_cong [cong]: "r = r' \<Longrightarrow> catch_res r h = catch_res r' h"
  by simp

lemma bindE_apply: "bindE m f c = bind_res (m c) f"
  by (cases "m c" rule: prod.exhaust) (auto simp: bindE_def split: sum.splits)

lemma catchE_apply: "catchE m h c = catch_res (m c) h"
  by (cases "m c" rule: prod.exhaust) (auto simp: catchE_def split: sum.splits)

lemma liftE_simps [simp]: "liftE (Inl e) = raiseE e" "liftE (Inr a) = retE a"
  by (simp_all add: liftE_def)

lemmas py_apply [registry_simps] = retE_def raiseE_def bindE_apply catchE_apply

subsection \<open>Statements on a live and on an aborted transaction\<close>

lemma execute_aborted [registry_simps]:
  "aborted c \<Longrightarrow> execute q c = (Inl (DbError InFailedSqlTransaction), c)"
  by (simp add: execute_def)

lemma execute_query [registry_simps]:
  "\<not> aborted c \<Longrightarrow> execute (query f) c = (Inr (f (work c)), c)"
  by (simp add: execute_def query_def)

lemma execute_stmt:
  "\<not> aborted c \<Longrightarrow> q c = Inr (a, c') \<Longrightarrow> execute q c = (Inr a, c')"
  by (simp add: execute_def)

lemma commit_live [registry_simps]: "\<not> aborted c \<Longrightarrow> commit c = (Inr (), c\<lparr>committed := work c\<rparr>)"
  by (simp add: commit_def)

lemma rollback_apply [registry_simps]: "rollback c = (Inr (), c\<lparr>work := committed c, aborted := False\<rparr>)"
  by (simp add: rollback_def)

lemma list_ex_keyed: "list_ex (\<lambda>r. key r = k) rs \<longleftrightarrow> k \<in> dom (keyed key rs)"
  by (auto simp: dom_keyed list_ex_iff)

lemmas stmt_defs [registry_simps] = sel_domain_def sel_domain_names_def count_domains_def count_contacts_def
  sel_registrar_def sel_pending_def

subsection \<open>Store functions\<close>

lemma info_domain_live [registry_simps]:
  "\<not> aborted c \<Longrightarrow> info_domain d c = (Inr (keyed dname (domains (work c)) d), c)"
  by (simp add: info_domain_def registry_simps)

lemma head_domain_live [registry_simps]:
  "\<not> aborted c \<Longrightarrow> head_domain d c = (Inr (map_option dname (keyed dname (domains (work c)) d)), c)"
  by (simp add: head_domain_def registry_simps)

lemma auth_registrar_live [registry_simps]:
  "\<not> aborted c \<Longrightarrow> auth_registrar u pw c = (Inr (authentic (work c) u pw), c)"
  by (auto simp: auth_registrar_def authentic_def registry_simps split: option.splits)

lemma execute_ins_domain_dup:
  "\<not> aborted c \<Longrightarrow> d \<in> dom (keyed dname (domains (work c))) \<Longrightarrow>
   execute (ins_domain d h t a u) c = (Inl (DbError UniqueViolation), c\<lparr>aborted := True\<rparr>)"
  by (simp add: execute_def ins_domain_def list_ex_keyed)

lemma execute_ins_domain_new:
  "\<not> aborted c \<Longrightarrow> d \<notin> dom (keyed dname (domains (work c))) \<Longrightarrow>
   execute (ins_domain d h t a u) c =
     (Inr (), c\<lparr>work := (work c)\<lparr>domains := domains (work c) @ [new_domain_row c d h t a u]\<rparr>\<rparr>)"
  by (simp add: execute_def ins_domain_def list_ex_keyed new_domain_row_def)

lemma execute_del_domain [registry_simps]:
  "\<not> aborted c \<Longrightarrow> execute (del_domain d) c =
     (Inr (length (filter (\<lambda>r. dname r = d) (domains (work c)))),
      c\<lparr>work := (work c)\<lparr>domains := filter (\<lambda>r. dname r \<noteq> d) (domains (work c))\<rparr>\<rparr>)"
  by (simp add: execute_def del_domain_def delete_rows_def)

lemma execute_ins_transfer [registry_simps]:
  "\<not> aborted c \<Longrightarrow> execute (ins_transfer d w) c =
     (Inr (), c\<lparr>work := (work c)\<lparr>transfers := transfers (work c) @
        [\<lparr>tid = transfer_seq c, tdomain = d, winner = w, tcreated = now c, completed = False\<rparr>]\<rparr>,
        transfer_seq := Suc (transfer_seq c)\<rparr>)"
  by (simp add: execute_def ins_transfer_def)

lemma execute_upd_pending [registry_simps]:
  "\<not> aborted c \<Longrightarrow> execute (upd_pending d f) c =
     (Inr (length (filter (pending d) (transfers (work c)))),
      c\<lparr>work := (work c)\<lparr>transfers := map (\<lambda>r. if pending d r then f r else r) (transfers (work c))\<rparr>\<rparr>)"
  by (simp add: execute_def upd_pending_def update_rows_def)

lemma execute_del_pending [registry_simps]:
  "\<not> aborted c \<Longrightarrow> execute (del_pending d) c =
     (Inr (length (filter (pending d) (transfers (work c)))),
      c\<lparr>work := (work c)\<lparr>transfers := filter (\<lambda>r. \<not> pending d r) (transfers (work c))\<rparr>\<rparr>)"
  by (simp add: execute_def del_pending_def delete_rows_def)

lemma execute_upd_domain [registry_simps]:
  "\<not> aborted c \<Longrightarrow> execute (upd_domain d f) c =
     (Inr (length (filter (\<lambda>r. dname r = d) (domains (work c)))),
      c\<lparr>work := (work c)\<lparr>domains := map (\<lambda>r. if dname r = d then f r else r) (domains (work c))\<rparr>\<rparr>)"
  by (simp add: execute_def upd_domain_def update_rows_def)

lemma execute_ins_contact [registry_simps]:
  "\<not> aborted c \<Longrightarrow> execute (ins_contact n) c =
     (Inr (), c\<lparr>work := (work c)\<lparr>contacts := contacts (work c) @
        [\<lparr>handle = contact_seq c, cname = n, ccreated = now c\<rparr>]\<rparr>,
        contact_seq := contact_seq c + 1\<rparr>)"
  by (simp add: execute_def ins_contact_def)

lemma store_domain_full:
  "\<not> aborted c \<Longrightarrow> MAX_DOMAINS \<le> length (domains (work c)) \<Longrightarrow>
   store_domain d h t a u c = (Inl TooManyDomains, c)"
  by (simp add: store_domain_def registry_simps)

lemma store_domain_exists:
  "\<not> aborted c \<Longrightarrow> length (domains (work c)) < MAX_DOMAINS \<Longrightarrow> d \<in> dom (keyed dname (domains (work c))) \<Longrightarrow>
   store_domain d h t a u c = (Inl AlreadyExists, c\<lparr>work := committed c, aborted := False\<rparr>)"
  by (simp add: store_domain_def registry_simps execute_ins_domain_dup)

lemma store_domain_new:
  "\<not> aborted c \<Longrightarrow> length (domains (work c)) < MAX_DOMAINS \<Longrightarrow> d \<notin> dom (keyed dname (domains (work c))) \<Longrightarrow>
   store_domain d h t a u c =
     (Inr (), c\<lparr>work := (work c)\<lparr>domains := domains (work c) @ [new_domain_row c d h t a u]\<rparr>,
                committed := (work c)\<lparr>domains := domains (work c) @ [new_domain_row c d h t a u]\<rparr>\<rparr>)"
  by (simp add: store_domain_def registry_simps execute_ins_domain_new)

lemma delete_domain_immutable: "delete_domain (''nic.'' @ TLD) c = (Inl Immutable, c)"
  by (simp add: delete_domain_def raiseE_def)

lemma delete_domain_live:
  "\<not> aborted c \<Longrightarrow> d \<noteq> ''nic.'' @ TLD \<Longrightarrow>
   delete_domain d c =
     (if d \<notin> dom (keyed dname (domains (work c))) then (Inl DoesNotExist, c\<lparr>work := committed c, aborted := False\<rparr>)
      else (let rs = filter (\<lambda>r. dname r \<noteq> d) (domains (work c))
            in (Inr (), c\<lparr>work := (work c)\<lparr>domains := rs\<rparr>, committed := (work c)\<lparr>domains := rs\<rparr>\<rparr>)))"
  by (auto simp: delete_domain_def registry_simps dom_keyed filter_empty_conv Let_def)

lemma handle_cast_pg [registry_simps]:
  "pg_int h = Some k \<Longrightarrow> handle_cast h = Inr k" "pg_int h = None \<Longrightarrow> handle_cast h = Inl InvalidTextRepresentation"
  by (simp_all add: handle_cast_def)

lemma execute_sel_contact [registry_simps]:
  "\<not> aborted c \<Longrightarrow> pg_int h = Some k \<Longrightarrow>
   execute (sel_contact h) c = (Inr (keyed handle (contacts (work c)) k), c)"
  "\<not> aborted c \<Longrightarrow> pg_int h = None \<Longrightarrow>
   execute (sel_contact h) c = (Inl (DbError InvalidTextRepresentation), c\<lparr>aborted := True\<rparr>)"
  by (simp_all add: execute_def sel_contact_def registry_simps)

lemma execute_del_contact [registry_simps]:
  "\<not> aborted c \<Longrightarrow> pg_int h = Some k \<Longrightarrow>
   execute (del_contact h) c =
     (Inr (length (filter (\<lambda>r. handle r = k) (contacts (work c)))),
      c\<lparr>work := (work c)\<lparr>contacts := filter (\<lambda>r. handle r \<noteq> k) (contacts (work c))\<rparr>\<rparr>)"
  by (simp add: execute_def del_contact_def delete_rows_def registry_simps)

lemma store_contact_new:
  "\<not> aborted c \<Longrightarrow> length (contacts (work c)) < MAX_CONTACTS \<Longrightarrow>
   store_contact n c =
     (Inr (), c\<lparr>work := (work c)\<lparr>contacts := contacts (work c) @ [\<lparr>handle = contact_seq c, cname = n, ccreated = now c\<rparr>]\<rparr>,
                committed := (work c)\<lparr>contacts := contacts (work c) @ [\<lparr>handle = contact_seq c, cname = n, ccreated = now c\<rparr>]\<rparr>,
                contact_seq := contact_seq c + 1\<rparr>)"
  by (simp add: store_contact_def registry_simps stmt_defs)

lemma store_contact_full:
  "\<not> aborted c \<Longrightarrow> MAX_CONTACTS \<le> length (contacts (work c)) \<Longrightarrow> store_contact n c = (Inl TooManyContacts, c)"
  by (simp add: store_contact_def registry_simps)

lemma delete_contact_live:
  "\<not> aborted c \<Longrightarrow> pg_int h = Some k \<Longrightarrow>
   delete_contact h c =
     (if k \<notin> dom (keyed handle (contacts (work c))) then (Inl DoesNotExist, c\<lparr>work := committed c, aborted := False\<rparr>)
      else (let rs = filter (\<lambda>r. handle r \<noteq> k) (contacts (work c))
            in (Inr (), c\<lparr>work := (work c)\<lparr>contacts := rs\<rparr>, committed := (work c)\<lparr>contacts := rs\<rparr>\<rparr>)))"
  by (auto simp: delete_contact_def str_eq_int_def registry_simps dom_keyed filter_empty_conv Let_def)

subsection \<open>Invariants\<close>

lemma preserves_retE [preserves_intros]: "preserves I (retE a)"
  by (simp add: preserves_def retE_def)

lemma preserves_raiseE [preserves_intros]: "preserves I (raiseE e)"
  by (simp add: preserves_def raiseE_def)

lemma preserves_bindE [preserves_intros]:
  "preserves I m \<Longrightarrow> (\<And>a. preserves I (f a)) \<Longrightarrow> preserves I (bindE m f)"
  by (fastforce simp: preserves_def bindE_def split: prod.splits sum.splits)

lemma preserves_catchE [preserves_intros]:
  "preserves I m \<Longrightarrow> (\<And>e. preserves I (h e)) \<Longrightarrow> preserves I (catchE m h)"
  by (fastforce simp: preserves_def catchE_def split: prod.splits sum.splits)

lemma preserves_if [preserves_intros]:
  "preserves I m1 \<Longrightarrow> preserves I m2 \<Longrightarrow> preserves I (if b then m1 else m2)"
  by simp

lemma preserves_case_option [preserves_intros]:
  "preserves I m1 \<Longrightarrow> (\<And>x. preserves I (m2 x)) \<Longrightarrow> preserves I (case_option m1 m2 v)"
  by (simp split: option.split)

lemma preserves_case_sum [preserves_intros]:
  "(\<And>e. preserves I (f e)) \<Longrightarrow> (\<And>a. preserves I (g a)) \<Longrightarrow> preserves I (case_sum f g v)"
  by (simp split: sum.split)

lemma preserves_case_prod [preserves_intros]:
  "(\<And>a b. preserves I (f a b)) \<Longrightarrow> preserves I (case_prod f v)"
  by (simp split: prod.split)

lemma preserves_Let [preserves_intros]: "(\<And>x. preserves I (f x)) \<Longrightarrow> preserves I (Let v f)"
  by simp

lemma preserves_commit [preserves_intros]: "preserves (tinv Q) commit"
  by (simp add: preserves_def tinv_def commit_def)

lemma preserves_rollback [preserves_intros]: "preserves (tinv Q) rollback"
  by (simp add: preserves_def tinv_def rollback_def)

lemma preserves_execute [preserves_intros]: "stmt_keeps Q q \<Longrightarrow> preserves (tinv Q) (execute q)"
  by (fastforce simp: preserves_def tinv_def execute_def stmt_keeps_def split: sum.splits)

lemma preserves_conj: "preserves I m \<Longrightarrow> preserves J m \<Longrightarrow> preserves (\<lambda>c. I c \<and> J c) m"
  by (simp add: preserves_def)


lemma preserves_liftE [preserves_intros]: "preserves I (liftE r)"
  by (simp add: liftE_def preserves_intros split: sum.split)

lemma readonly_keeps: "readonly q \<Longrightarrow> stmt_keeps Q q"
  by (simp add: readonly_def stmt_keeps_def)

lemma only_domains_transfers: "only_domains q \<Longrightarrow> stmt_keeps (on_transfers P) q"
  unfolding only_domains_def stmt_keeps_def on_transfers_def by (metis tables.select_convs(4) tables.surjective tables.update_convs(1))

lemma only_domains_registrars: "only_domains q \<Longrightarrow> stmt_keeps (on_registrars P) q"
  unfolding only_domains_def stmt_keeps_def on_registrars_def by (metis tables.select_convs(3) tables.surjective tables.update_convs(1))

lemma only_contacts_domains: "only_contacts q \<Longrightarrow> stmt_keeps (on_domains P) q"
  unfolding only_contacts_def stmt_keeps_def on_domains_def by (metis tables.select_convs(1) tables.surjective tables.update_convs(2))

lemma only_contacts_transfers: "only_contacts q \<Longrightarrow> stmt_keeps (on_transfers P) q"
  unfolding only_contacts_def stmt_keeps_def on_transfers_def by (metis tables.select_convs(4) tables.surjective tables.update_convs(2))

lemma only_contacts_registrars: "only_contacts q \<Longrightarrow> stmt_keeps (on_registrars P) q"
  unfolding only_contacts_def stmt_keeps_def on_registrars_def by (metis tables.select_convs(3) tables.surjective tables.update_convs(2))

lemma only_transfers_domains: "only_transfers q \<Longrightarrow> stmt_keeps (on_domains P) q"
  unfolding only_transfers_def stmt_keeps_def on_domains_def by (metis tables.select_convs(1) tables.surjective tables.update_convs(4))

lemma only_transfers_registrars: "only_transfers q \<Longrightarrow> stmt_keeps (on_registrars P) q"
  unfolding only_transfers_def stmt_keeps_def on_registrars_def by (metis tables.select_convs(3) tables.surjective tables.update_convs(4))

lemma readonly_query: "readonly (query f)"
  by (simp add: readonly_def query_def)

lemma readonly_sel:
  "readonly (sel_domain d)" "readonly sel_domain_names" "readonly count_domains" "readonly count_contacts"
  "readonly (sel_registrar u)" "readonly (sel_pending d)" "readonly (sel_contact h)"
  by (auto simp: readonly_def query_def sel_domain_def sel_domain_names_def count_domains_def
      count_contacts_def sel_registrar_def sel_pending_def sel_contact_def split: sum.splits)

lemma only_domains_stmts:
  "only_domains (upd_domain d f)" "only_domains (del_domain d)" "only_domains (ins_domain d h t a u)"
  by (auto simp: only_domains_def upd_domain_def del_domain_def ins_domain_def split: prod.splits if_splits)

lemma only_contacts_stmts:
  "only_contacts (del_contact h)" "only_contacts (ins_contact n)"
  by (auto simp: only_contacts_def del_contact_def ins_contact_def split: prod.splits sum.splits)

lemma only_transfers_stmts:
  "only_transfers (upd_pending d f)" "only_transfers (del_pending d)" "only_transfers (ins_transfer d w)"
  by (auto simp: only_transfers_def upd_pending_def del_pending_def ins_transfer_def split: prod.splits)

lemmas keeps_readonly [preserves_intros] = readonly_sel [THEN readonly_keeps]
lemmas keeps_domains_stmts [preserves_intros] =
  only_domains_stmts [THEN only_domains_transfers] only_domains_stmts [THEN only_domains_registrars]
lemmas keeps_contacts_stmts [preserves_intros] =
  only_contacts_stmts [THEN only_contacts_domains] only_contacts_stmts [THEN only_contacts_transfers]
  only_contacts_stmts [THEN only_contacts_registrars]
lemmas keeps_transfers_stmts [preserves_intros] =
  only_transfers_stmts [THEN only_transfers_domains] only_transfers_stmts [THEN only_transfers_registrars]

lemma dnames_ok_ins_domain [preserves_intros]: "stmt_keeps (on_domains dnames_ok) (ins_domain d h t a u)"
  by (auto simp: stmt_keeps_def on_domains_def dnames_ok_def ins_domain_def list_ex_keyed dom_keyed split: if_splits)

lemma map_dname_update:
  "(\<And>r. dname (f r) = dname r) \<Longrightarrow> map dname (map (\<lambda>r. if dname r = d then f r else r) ds) = map dname ds"
  by (induction ds) simp_all

lemma dnames_ok_upd_domain [preserves_intros]:
  "(\<And>r. dname (f r) = dname r) \<Longrightarrow> stmt_keeps (on_domains dnames_ok) (upd_domain d f)"
  by (simp add: stmt_keeps_def on_domains_def dnames_ok_def upd_domain_def update_rows_def map_dname_update del: map_map)

lemma dnames_ok_del_domain [preserves_intros]: "stmt_keeps (on_domains dnames_ok) (del_domain d)"
  by (auto simp: stmt_keeps_def on_domains_def dnames_ok_def del_domain_def delete_rows_def distinct_map_filter)


subsection \<open>Computations on an aborted transaction\<close>

lemma frozen_retE: "frozen (retE a)"
  by (simp add: frozen_def retE_def)

lemma frozen_raiseE: "frozen (raiseE e)"
  by (simp add: frozen_def raiseE_def)

lemma frozen_liftE: "frozen (liftE r)"
  by (cases r) (simp_all add: frozen_retE frozen_raiseE)

lemma frozen_bindE: "frozen m \<Longrightarrow> (\<And>a. frozen (f a)) \<Longrightarrow> frozen (bindE m f)"
  by (auto simp: frozen_def bindE_def split: prod.splits sum.splits)

lemma frozen_catchE: "frozen m \<Longrightarrow> (\<And>e. frozen (h e)) \<Longrightarrow> frozen (catchE m h)"
  by (auto simp: frozen_def catchE_def split: prod.splits sum.splits)

lemma frozen_if: "frozen m1 \<Longrightarrow> frozen m2 \<Longrightarrow> frozen (if b then m1 else m2)"
  by simp

lemma frozen_case_option: "frozen m1 \<Longrightarrow> (\<And>x. frozen (m2 x)) \<Longrightarrow> frozen (case_option m1 m2 v)"
  by (simp split: option.split)

lemma frozen_case_sum: "(\<And>e. frozen (f e)) \<Longrightarrow> (\<And>a. frozen (g a)) \<Longrightarrow> frozen (case_sum f g v)"
  by (simp split: sum.split)

lemma frozen_case_prod: "(\<And>a b. frozen (f a b)) \<Longrightarrow> frozen (case_prod f v)"
  by (simp split: prod.split)

lemma blocked_execute: "blocked (execute q)"
  by (simp add: blocked_def execute_def)

lemma blocked_bindE: "blocked m \<Longrightarrow> blocked (bindE m f)"
  by (simp add: blocked_def bindE_def)

lemma frozen_bind_blocked: "blocked m \<Longrightarrow> frozen (bindE m f)"
  by (simp add: blocked_def frozen_def bindE_def)

lemma blocked_store:
  "blocked (auth_registrar u pw)" "blocked (info_domain d)" "blocked (head_domain d)" "blocked list_domains"
  "blocked (head_contact h)" "blocked (info_contact h)" "blocked (store_domain d ht t a r)" "blocked (store_contact n)"
  "blocked (delete_contact h)"
  by (simp_all add: auth_registrar_def info_domain_def head_domain_def list_domains_def head_contact_def
      info_contact_def store_domain_def store_contact_def delete_contact_def str_eq_int_def blocked_execute blocked_bindE)

lemmas frozen_binds = blocked_store [THEN frozen_bind_blocked] blocked_execute [THEN frozen_bind_blocked]

lemmas frozen_steps = frozen_retE frozen_raiseE frozen_liftE frozen_if frozen_case_option frozen_case_sum
  frozen_case_prod frozen_bindE frozen_catchE

lemma preserves_list_domains: "preserves (tinv Q) list_domains"
  by (simp add: list_domains_def preserves_intros)


subsection \<open>Postconditions on returned values\<close>

lemma returns_retE: "P a \<Longrightarrow> returns P (retE a)"
  by (simp add: returns_def retE_def)

lemma returns_raiseE: "returns P (raiseE e)"
  by (simp add: returns_def raiseE_def)

lemma returns_bindE: "(\<And>a. returns P (f a)) \<Longrightarrow> returns P (bindE m f)"
  by (auto simp: returns_def bindE_def split: prod.splits sum.splits)

lemma returns_bindE_post:
  assumes m: "returns Q m" and f: "\<And>a. Q a \<Longrightarrow> returns P (f a)"
  shows "returns P (bindE m f)"
  unfolding returns_def
proof (intro allI impI)
  fix c b c'
  assume r: "bindE m f c = (Inr b, c')"
  then obtain a c1 where "m c = (Inr a, c1)" and "f a c1 = (Inr b, c')"
    by (auto simp: bindE_def split: prod.splits sum.splits)
  then show "P b" using m f unfolding returns_def by blast
qed

lemma returns_catchE: "returns P m \<Longrightarrow> (\<And>e. returns P (h e)) \<Longrightarrow> returns P (catchE m h)"
  by (auto simp: returns_def catchE_def split: prod.splits sum.splits)

lemma returns_if: "returns P m1 \<Longrightarrow> returns P m2 \<Longrightarrow> returns P (if b then m1 else m2)"
  by simp

lemma returns_case_option: "returns P m1 \<Longrightarrow> (\<And>x. returns P (m2 x)) \<Longrightarrow> returns P (case_option m1 m2 v)"
  by (simp split: option.split)

lemma returns_case_sum: "(\<And>e. returns P (f e)) \<Longrightarrow> (\<And>a. returns P (g a)) \<Longrightarrow> returns P (case_sum f g v)"
  by (simp split: sum.split)

lemma returns_case_prod: "(\<And>a b. returns P (f a b)) \<Longrightarrow> returns P (case_prod f v)"
  by (simp split: prod.split)

lemma returns_True: "returns (\<lambda>_. True) m"
  by (simp add: returns_def)

lemmas returns_steps = returns_retE returns_raiseE returns_bindE returns_catchE returns_if returns_case_option
  returns_case_sum returns_case_prod

end
