(* ===== verification/Protocol.thy ===== *)
theory Protocol
  imports Json Store
begin

text \<open>
  What a handler of \<open>registry.py\<close> returns: a status (the dictionary with members
  \<open>code\<close> and \<open>message\<close>) and an output dictionary. Status codes and messages are kept
  as the code writes them. The output's \<open>result\<close> member is a human-readable sentence
  formatted from a few values (\<open>"Domain %s NOT found" % domain\<close>); it is modelled by
  one constructor of \<open>result\<close> per format string, carrying the formatted values, so the
  information the client receives is kept and the formatting itself is left out.
\<close>

record status =
  code :: nat
  message :: string

definition st :: "nat \<Rightarrow> string \<Rightarrow> status" where
  "st c m = \<lparr>code = c, message = m\<rparr>"

definition st_ok :: status where
  "st_ok = st 200 ''OK''"

definition method_not_supported :: "string \<Rightarrow> status" where
  "method_not_supported m = st 405 (''Method '' @ m @ '' not supported'')"

datatype result =
    R_DomainNotFound domain_name
  | R_DomainNotFoundInfo domain_name "string option"
  | R_DomainAlreadyExists domain_name
  | R_DomainExists domain_name
  | R_UpdateTechFailed
  | R_UpdateAdminFailed
  | R_UpdateDone
  | R_UnknownOperation string domain_name
  | R_MustAuthCreate
  | R_MustAuthProperly
  | R_MustAuthRegistrar domain_name
  | R_NoBodyCreate domain_name
  | R_NoBodyPatch domain_name
  | R_Created domain_name
  | R_Exists domain_name
  | R_TooManyDomains
  | R_InternalConflict
  | R_InvalidJsonBody domain_name
  | R_InvalidJson domain_name
  | R_DoesNotExist string
  | R_NotRegistrarOf registrar_id domain_name registrar_id
  | R_Deleted string
  | R_CannotDelete string
  | R_NoPending domain_name
  | R_PendingTo domain_name registrar_id timestamp
  | R_AlreadyRegistrar registrar_id domain_name
  | R_AlreadyPending domain_name registrar_id timestamp
  | R_TransferStarted domain_name registrar_id
  | R_NoPendingToActOn domain_name
  | R_NotYourTransfer
  | R_Cancelled domain_name
  | R_NotYourDomain
  | R_UpdateTransferFailed
  | R_UpdateDomainFailed domain_name
  | R_Approved domain_name
  | R_Rejected domain_name
  | R_UnknownExtra string
  | R_ContactNotFound string
  | R_ContactExists string
  | R_NoBodyContact
  | R_ContactCreated "contact_handle option" json
  | R_TooManyContacts
  | R_InvalidJsonBodyContact
  | R_InvalidPathSyntax string

text \<open>The output dictionaries: empty, a lone \<open>result\<close>, the domain and contact
  descriptions of \<open>GET\<close>, the list of names, and the raw row of \<open>info_domain\<close>.\<close>

datatype reply_out =
    OEmpty
  | OResult result
  | ODomainInfo domain_name string string string registrar_id timestamp
  | OContactInfo string string timestamp
  | OList "domain_name list"
  | ODomainRow domain_row

type_synonym reply = "status \<times> reply_out"


text \<open>The status codes the specification lists (section 6), and the replies whose code is one of them.\<close>

definition spec_codes :: "nat set" where
  "spec_codes = {200, 201, 202, 204, 400, 401, 403, 404, 405, 412, 423, 500}"

abbreviation code_ok :: "reply \<Rightarrow> bool" where
  "code_ok r \<equiv> code (fst r) \<in> spec_codes"

text \<open>The three "no JSON body" answers of the handlers (Empty, 400).\<close>

abbreviation body_missing :: "reply_out \<Rightarrow> bool" where
  "body_missing out \<equiv> (\<exists>d. out = OResult (R_NoBodyCreate d) \<or> out = OResult (R_NoBodyPatch d)) \<or> out = OResult R_NoBodyContact"

lemmas codes_simps = spec_codes_def st_def st_ok_def method_not_supported_def

end
