(* ===== verification/Domain_Transfer.thy ===== *)
theory Domain_Transfer
  imports Protocol
begin

text \<open>
  The Transfer State Machine: \<open>transfer_domain\<close> (\<open>registry.py\<close> lines 243--316),
  reached through \<open>/domains/<name>/transfer[/<action>]\<close>. A transfer row is pending
  while \<open>completed\<close> is false. \<open>GET\<close> reports the pending transfer; \<open>POST\<close> without
  an action starts one unless the caller already sponsors the domain or one is pending;
  the actions \<open>cancelation\<close> (by the winner), \<open>approval\<close> and \<open>rejection\<close> (by the
  current registrar) complete or delete it, approval also moving the domain to the
  winner. The section after the definitions relates every call to an abstract machine
  over two views of the tables: the sponsor of each domain and the winner of its pending
  transfer.
\<close>

definition transfer_domain ::
  "domain_name \<Rightarrow> string \<Rightarrow> string option \<Rightarrow> registrar_id option \<Rightarrow> string option \<Rightarrow> reply py" where
  "transfer_domain domain method extra client pw =
     bindE (auth_registrar client pw) (\<lambda>authenticated.
     if \<not> authenticated then retE (st 401 ''Wrong password'', OResult R_MustAuthProperly)
     else case client of
       None \<Rightarrow> raiseE TypeError
     | Some u \<Rightarrow>
     bindE (info_domain domain) (\<lambda>output.
     case output of
       None \<Rightarrow> retE (st 404 ''Not found'', OResult (R_DomainNotFound domain))
     | Some orow \<Rightarrow>
     if method = ''GET'' then
       bindE (execute (sel_pending domain)) (\<lambda>data.
         case data of
           None \<Rightarrow> retE (st_ok, OResult (R_NoPending domain))
         | Some tr \<Rightarrow> retE (st_ok, OResult (R_PendingTo domain (winner tr) (tcreated tr))))
     else if method = ''POST'' then
       (case extra of
          None \<Rightarrow>
            bindE (info_domain domain) (\<lambda>data.
            case data of
              None \<Rightarrow> raiseE TypeError
            | Some row \<Rightarrow>
            if registrar row = u then retE (st_ok, OResult (R_AlreadyRegistrar u domain))
            else bindE (execute (sel_pending domain)) (\<lambda>data.
              case data of
                Some tr \<Rightarrow> retE (st_ok, OResult (R_AlreadyPending domain (winner tr) (tcreated tr)))
              | None \<Rightarrow>
                  bindE (execute (ins_transfer domain u)) (\<lambda>_.
                  bindE commit (\<lambda>_.
                  retE (st_ok, OResult (R_TransferStarted domain u))))))
        | Some x \<Rightarrow>
            bindE (execute (sel_pending domain)) (\<lambda>data.
            case data of
              None \<Rightarrow> retE (st 404 ''No transfer'', OResult (R_NoPendingToActOn domain))
            | Some tr \<Rightarrow>
            let w = winner tr in
            if x = ''cancelation'' then
              (if w \<noteq> u then retE (st 403 ''Not yours'', OResult R_NotYourTransfer)
               else bindE (execute (del_pending domain)) (\<lambda>_.
                    bindE commit (\<lambda>_. retE (st_ok, OResult (R_Cancelled domain)))))
            else if x = ''approval'' then
              bindE (info_domain domain) (\<lambda>data.
              case data of
                None \<Rightarrow> raiseE TypeError
              | Some row \<Rightarrow>
              if registrar row \<noteq> u then retE (st 403 ''Not yours'', OResult R_NotYourDomain)
              else bindE (execute (upd_pending domain (\<lambda>r. r\<lparr>completed := True\<rparr>))) (\<lambda>n.
                if n \<noteq> 1 then retE (st 500 ''Internal error'', OResult R_UpdateTransferFailed)
                else bindE (execute (upd_domain domain (\<lambda>r. r\<lparr>registrar := w\<rparr>))) (\<lambda>n.
                  if n \<noteq> 1 then retE (st 500 ''Internal error'', OResult (R_UpdateDomainFailed domain))
                  else bindE commit (\<lambda>_. retE (st_ok, OResult (R_Approved domain))))))
            else if x = ''rejection'' then
              bindE (info_domain domain) (\<lambda>data.
              case data of
                None \<Rightarrow> raiseE TypeError
              | Some row \<Rightarrow>
              if registrar row \<noteq> u then retE (st 403 ''Not yours'', OResult R_NotYourDomain)
              else bindE (execute (del_pending domain)) (\<lambda>_.
                   bindE commit (\<lambda>_. retE (st_ok, OResult (R_Rejected domain)))))
            else retE (st 400 ''Unknown transfer extra command'', OResult (R_UnknownExtra x))))
     else retE (method_not_supported method, ODomainRow orow)))"

section \<open>Views and invariant\<close>

text \<open>At most one pending transfer per domain (specification, section 3).\<close>

definition pend_ok :: "transfer_row list \<Rightarrow> bool" where
  "pend_ok ts \<longleftrightarrow> (\<forall>d. length (filter (pending d) ts) \<le> 1)"

text \<open>The situation of a transfer call that passed authentication: the transaction is
  live, the caller \<open>u\<close> presented its secret, and the domain exists.\<close>

definition live :: "conn \<Rightarrow> registrar_id \<Rightarrow> string option \<Rightarrow> domain_name \<Rightarrow> domain_row \<Rightarrow> bool" where
  "live c u pw d row \<longleftrightarrow>
     \<not> aborted c \<and> authentic (work c) (Some u) pw \<and> keyed dname (domains (work c)) d = Some row"

section \<open>The abstract transfer machine\<close>

text \<open>What the specification (section 4.5) promises, over two maps: the sponsoring
  registrar of each domain and the winner of its pending transfer, if any. A registrar
  that does not sponsor the domain may request it when nothing is pending; the sponsor
  approves (the domain moves to the winner) or rejects; the winner cancels. The concrete
  tables are read through \<open>view\<close>; a clean connection has no open work.\<close>

record xfer_view =
  sponsor :: "domain_name \<rightharpoonup> registrar_id"
  pend :: "domain_name \<rightharpoonup> registrar_id"

definition view :: "tables \<Rightarrow> xfer_view" where
  "view t = \<lparr>sponsor = (\<lambda>d. map_option registrar (keyed dname (domains t) d)),
             pend = (\<lambda>d. map_option winner (find (pending d) (transfers t)))\<rparr>"

text \<open>The abstract actions, and the action a request names: a \<open>POST\<close> without extra
  requests a transfer, the extras \<open>approval\<close>, \<open>rejection\<close> and \<open>cancelation\<close> name
  the three decisions, anything else names none.\<close>

datatype xact = XRequest | XApprove | XReject | XCancel

fun req_action :: "string \<Rightarrow> string option \<Rightarrow> xact option" where
  "req_action m None = (if m = ''POST'' then Some XRequest else None)"
| "req_action m (Some a) =
     (if m \<noteq> ''POST'' then None
      else if a = ''approval'' then Some XApprove else if a = ''rejection'' then Some XReject
      else if a = ''cancelation'' then Some XCancel else None)"

inductive xfer_step :: "xact \<Rightarrow> registrar_id \<Rightarrow> domain_name \<Rightarrow> xfer_view \<Rightarrow> xfer_view \<Rightarrow> bool" where
  request: "sponsor v d = Some s \<Longrightarrow> s \<noteq> u \<Longrightarrow> pend v d = None \<Longrightarrow>
    xfer_step XRequest u d v (v\<lparr>pend := (pend v)(d \<mapsto> u)\<rparr>)"
| approve: "sponsor v d = Some u \<Longrightarrow> pend v d = Some w \<Longrightarrow>
    xfer_step XApprove u d v (v\<lparr>sponsor := (sponsor v)(d \<mapsto> w), pend := (pend v)(d := None)\<rparr>)"
| reject: "sponsor v d = Some u \<Longrightarrow> pend v d = Some w \<Longrightarrow>
    xfer_step XReject u d v (v\<lparr>pend := (pend v)(d := None)\<rparr>)"
| cancel: "pend v d = Some u \<Longrightarrow> xfer_step XCancel u d v (v\<lparr>pend := (pend v)(d := None)\<rparr>)"

definition clean :: "conn \<Rightarrow> bool" where
  "clean c \<longleftrightarrow> \<not> aborted c \<and> work c = committed c"

text \<open>A concrete call refines the abstract machine when it leaves the connection clean and
  either leaves the view alone or performs the abstract step of the action it names.\<close>

definition refines_step :: "xact option \<Rightarrow> registrar_id \<Rightarrow> domain_name \<Rightarrow> conn \<Rightarrow> conn \<Rightarrow> bool" where
  "refines_step act u d c c' \<longleftrightarrow> clean c' \<and>
     (view (committed c') = view (committed c) \<or>
      (\<exists>a. act = Some a \<and> xfer_step a u d (view (committed c)) (view (committed c'))))"

text \<open>The example registry with a pending transfer of \<open>ex.example\<close> to registrar 6.\<close>

definition example_transfer :: transfer_row where
  "example_transfer = \<lparr>tid = 1, tdomain = ''ex.example'', winner = 6, tcreated = 10, completed = False\<rparr>"

definition example_pending :: conn where
  "example_pending =
     (let t = example_tables\<lparr>transfers := [example_transfer]\<rparr>
      in example_conn\<lparr>committed := t, work := t, transfer_seq := 2\<rparr>)"

definition example_row :: domain_row where
  "example_row = \<lparr>dname = ''ex.example'', holder = ''H1'', tech = ''H1'', admin = ''H1'', registrar = 5, dcreated = 1\<rparr>"

text \<open>A registry in which two pending transfers of \<open>ex.example\<close> exist, as two servers running the read-then-insert of a request concurrently can leave it.\<close>

definition double_pending :: conn where
  "double_pending =
     (let t = example_tables\<lparr>transfers := [example_transfer, example_transfer\<lparr>tid := 2\<rparr>]\<rparr>
      in example_conn\<lparr>committed := t, work := t, transfer_seq := 3\<rparr>)"

section \<open>Lemmas\<close>

subsection \<open>The pending-transfer invariant\<close>

lemma find_pending_None_count: "find (pending d) ts = None \<Longrightarrow> length (filter (pending d) ts) = 0"
  by (simp add: find_None_iff filter_empty_conv)

lemma filter_pending_complete:
  "filter (pending d') (map (\<lambda>r. if pending d r then r\<lparr>completed := True\<rparr> else r) ts) =
   (if d' = d then [] else filter (pending d') ts)"
  by (induction ts) (auto simp: pending_def [abs_def])

lemma length_filter_filter_le: "length (filter p (filter q xs)) \<le> length (filter p xs)"
  by (induction xs) auto

lemma pend_ok_ins:
  assumes ok: "pend_ok ts" and none: "find (pending d) ts = None"
  shows "pend_ok (ts @ [\<lparr>tid = i, tdomain = d, winner = w, tcreated = n, completed = False\<rparr>])"
  unfolding pend_ok_def
proof
  fix d'
  show "length (filter (pending d') (ts @ [\<lparr>tid = i, tdomain = d, winner = w, tcreated = n, completed = False\<rparr>])) \<le> 1"
  proof (cases "d' = d")
    case True
    with none show ?thesis by (simp add: find_pending_None_count pending_def)
  next
    case False
    with ok show ?thesis by (simp add: pend_ok_def pending_def)
  qed
qed

lemma pend_ok_filter: "pend_ok ts \<Longrightarrow> pend_ok (filter P ts)"
  unfolding pend_ok_def by (meson length_filter_filter_le le_trans)

lemma pend_ok_complete [preserves_intros]:
  "stmt_keeps (on_transfers pend_ok) (upd_pending d (\<lambda>r. r\<lparr>completed := True\<rparr>))"
  by (simp add: stmt_keeps_def on_transfers_def upd_pending_def update_rows_def pend_ok_def
      filter_pending_complete)

lemma pend_ok_del [preserves_intros]: "stmt_keeps (on_transfers pend_ok) (del_pending d)"
  by (simp add: stmt_keeps_def on_transfers_def del_pending_def delete_rows_def pend_ok_filter)

lemma preserves_check_insert:
  assumes K: "\<And>tr. preserves (tinv (on_transfers pend_ok)) (K tr)"
    and F: "preserves (tinv (on_transfers pend_ok)) F"
  shows "preserves (tinv (on_transfers pend_ok))
           (bindE (execute (sel_pending d)) (case_option (bindE (execute (ins_transfer d u)) (\<lambda>_. F)) K))"
  unfolding preserves_def
proof (intro allI impI)
  fix c
  assume inv: "tinv (on_transfers pend_ok) c"
  show "tinv (on_transfers pend_ok) (snd (bindE (execute (sel_pending d))
          (case_option (bindE (execute (ins_transfer d u)) (\<lambda>_. F)) K) c))"
  proof (cases "aborted c")
    case True
    with inv show ?thesis by (simp add: registry_simps)
  next
    case False
    show ?thesis
    proof (cases "find (pending d) (transfers (work c))")
      case None
      let ?c' = "c\<lparr>work := (work c)\<lparr>transfers := transfers (work c) @
                 [\<lparr>tid = transfer_seq c, tdomain = d, winner = u, tcreated = now c, completed = False\<rparr>]\<rparr>,
                 transfer_seq := Suc (transfer_seq c)\<rparr>"
      from inv None have "tinv (on_transfers pend_ok) ?c'"
        by (simp add: tinv_def on_transfers_def pend_ok_ins)
      with F None False show ?thesis
        by (simp add: registry_simps preserves_def)
    next
      case (Some tr)
      with inv K False show ?thesis by (simp add: registry_simps preserves_def)
    qed
  qed
qed

text \<open>C2. Invariant: a transfer call keeps at most one pending transfer per domain, in
  the committed tables and in the open transaction.\<close>

theorem transfer_domain_pend_ok:
  "preserves (tinv (on_transfers pend_ok)) (transfer_domain d m x u pw)"
  unfolding transfer_domain_def auth_registrar_def info_domain_def
  by (intro preserves_check_insert preserves_intros)

theorem transfer_domain_pend_ok_witness:
  "tinv (on_transfers pend_ok) example_conn \<and>
   tinv (on_transfers pend_ok) (snd (transfer_domain ''ex.example'' ''POST'' None (Some 6) (Some ''p6'') example_conn))"
proof -
  have h: "tinv (on_transfers pend_ok) example_conn"
    by (simp add: tinv_def on_transfers_def pend_ok_def example_conn_def example_tables_def)
  show ?thesis
    using h transfer_domain_pend_ok [of "''ex.example''" "''POST''" None "Some 6" "Some ''p6''"]
    by (simp add: preserves_def)
qed

lemma transfer_domain_dnames_ok:
  "preserves (tinv (on_domains dnames_ok)) (transfer_domain d m x u pw)"
  unfolding transfer_domain_def auth_registrar_def info_domain_def
  by (intro preserves_intros) simp

lemma transfer_domain_registrars:
  "preserves (tinv (on_registrars P)) (transfer_domain d m x u pw)"
  unfolding transfer_domain_def auth_registrar_def info_domain_def
  by (intro preserves_intros)

subsection \<open>Behaviour of each branch\<close>

lemmas transfer_eval = registry_simps live_def Let_def

lemma transfer_aborted:
  "aborted c \<Longrightarrow> transfer_domain d m x u pw c = (Inl (DbError InFailedSqlTransaction), c)"
  unfolding transfer_domain_def by (simp add: auth_registrar_def registry_simps split del: if_split)

lemma transfer_wrong_password:
  "\<not> aborted c \<Longrightarrow> \<not> authentic (work c) u pw \<Longrightarrow>
   transfer_domain d m x u pw c = (Inr (st 401 ''Wrong password'', OResult R_MustAuthProperly), c)"
  unfolding transfer_domain_def by (simp add: registry_simps split del: if_split)

lemma transfer_no_domain:
  "\<not> aborted c \<Longrightarrow> authentic (work c) (Some u) pw \<Longrightarrow> d \<notin> dom (keyed dname (domains (work c))) \<Longrightarrow>
   transfer_domain d m x (Some u) pw c = (Inr (st 404 ''Not found'', OResult (R_DomainNotFound d)), c)"
  unfolding transfer_domain_def by (simp add: registry_simps domIff split del: if_split)

lemma transfer_query:
  "live c u pw d row \<Longrightarrow> transfer_domain d ''GET'' x (Some u) pw c =
     (case find (pending d) (transfers (work c)) of
        None \<Rightarrow> (Inr (st_ok, OResult (R_NoPending d)), c)
      | Some tr \<Rightarrow> (Inr (st_ok, OResult (R_PendingTo d (winner tr) (tcreated tr))), c))"
  unfolding transfer_domain_def
  by (cases "find (pending d) (transfers (work c))") (simp_all add: transfer_eval split del: if_split)

lemma transfer_request_owner:
  "live c u pw d row \<Longrightarrow> registrar row = u \<Longrightarrow>
   transfer_domain d ''POST'' None (Some u) pw c = (Inr (st_ok, OResult (R_AlreadyRegistrar u d)), c)"
  unfolding transfer_domain_def by (simp add: transfer_eval split del: if_split)

lemma transfer_request_pending:
  "live c u pw d row \<Longrightarrow> registrar row \<noteq> u \<Longrightarrow> find (pending d) (transfers (work c)) = Some tr \<Longrightarrow>
   transfer_domain d ''POST'' None (Some u) pw c =
     (Inr (st_ok, OResult (R_AlreadyPending d (winner tr) (tcreated tr))), c)"
  unfolding transfer_domain_def by (simp add: transfer_eval split del: if_split)

lemma transfer_request_new:
  "live c u pw d row \<Longrightarrow> registrar row \<noteq> u \<Longrightarrow> find (pending d) (transfers (work c)) = None \<Longrightarrow>
   transfer_domain d ''POST'' None (Some u) pw c =
     (let w = (work c)\<lparr>transfers := transfers (work c) @
                 [\<lparr>tid = transfer_seq c, tdomain = d, winner = u, tcreated = now c, completed = False\<rparr>]\<rparr>
      in (Inr (st_ok, OResult (R_TransferStarted d u)),
          c\<lparr>work := w, committed := w, transfer_seq := Suc (transfer_seq c)\<rparr>))"
  unfolding transfer_domain_def by (simp add: transfer_eval split del: if_split)

lemma transfer_act_no_pending:
  "live c u pw d row \<Longrightarrow> find (pending d) (transfers (work c)) = None \<Longrightarrow>
   transfer_domain d ''POST'' (Some a) (Some u) pw c =
     (Inr (st 404 ''No transfer'', OResult (R_NoPendingToActOn d)), c)"
  unfolding transfer_domain_def by (simp add: transfer_eval split del: if_split)

lemma pending_count_one:
  "pend_ok ts \<Longrightarrow> find (pending d) ts = Some tr \<Longrightarrow> length (filter (pending d) ts) = 1"
  unfolding pend_ok_def
  by (metis find_Some_iff filter_empty_conv le_neq_implies_less less_one length_0_conv nth_mem)

lemma name_count_one:
  "dnames_ok ds \<Longrightarrow> keyed dname ds d = Some row \<Longrightarrow> length (filter (\<lambda>r. dname r = d) ds) = 1"
  by (simp add: dnames_ok_def count_key_distinct domIff)

lemma transfer_cancel:
  "live c u pw d row \<Longrightarrow> find (pending d) (transfers (work c)) = Some tr \<Longrightarrow> winner tr = u \<Longrightarrow>
   transfer_domain d ''POST'' (Some ''cancelation'') (Some u) pw c =
     (let w = (work c)\<lparr>transfers := filter (\<lambda>r. \<not> pending d r) (transfers (work c))\<rparr>
      in (Inr (st_ok, OResult (R_Cancelled d)), c\<lparr>work := w, committed := w\<rparr>))"
  unfolding transfer_domain_def by (simp add: transfer_eval split del: if_split)

lemma transfer_cancel_not_winner:
  "live c u pw d row \<Longrightarrow> find (pending d) (transfers (work c)) = Some tr \<Longrightarrow> winner tr \<noteq> u \<Longrightarrow>
   transfer_domain d ''POST'' (Some ''cancelation'') (Some u) pw c =
     (Inr (st 403 ''Not yours'', OResult R_NotYourTransfer), c)"
  unfolding transfer_domain_def by (simp add: transfer_eval split del: if_split)

lemma transfer_approve:
  "live c u pw d row \<Longrightarrow> registrar row = u \<Longrightarrow> find (pending d) (transfers (work c)) = Some tr \<Longrightarrow>
   dnames_ok (domains (work c)) \<Longrightarrow> pend_ok (transfers (work c)) \<Longrightarrow>
   transfer_domain d ''POST'' (Some ''approval'') (Some u) pw c =
     (let w = (work c)\<lparr>transfers := map (\<lambda>r. if pending d r then r\<lparr>completed := True\<rparr> else r) (transfers (work c)),
                       domains := map (\<lambda>r. if dname r = d then r\<lparr>registrar := winner tr\<rparr> else r) (domains (work c))\<rparr>
      in (Inr (st_ok, OResult (R_Approved d)), c\<lparr>work := w, committed := w\<rparr>))"
  unfolding transfer_domain_def by (simp add: transfer_eval pending_count_one name_count_one split del: if_split)

lemma transfer_approve_not_registrar:
  "live c u pw d row \<Longrightarrow> registrar row \<noteq> u \<Longrightarrow> find (pending d) (transfers (work c)) = Some tr \<Longrightarrow>
   transfer_domain d ''POST'' (Some ''approval'') (Some u) pw c =
     (Inr (st 403 ''Not yours'', OResult R_NotYourDomain), c)"
  unfolding transfer_domain_def by (simp add: transfer_eval split del: if_split)

lemma transfer_reject:
  "live c u pw d row \<Longrightarrow> registrar row = u \<Longrightarrow> find (pending d) (transfers (work c)) = Some tr \<Longrightarrow>
   transfer_domain d ''POST'' (Some ''rejection'') (Some u) pw c =
     (let w = (work c)\<lparr>transfers := filter (\<lambda>r. \<not> pending d r) (transfers (work c))\<rparr>
      in (Inr (st_ok, OResult (R_Rejected d)), c\<lparr>work := w, committed := w\<rparr>))"
  unfolding transfer_domain_def by (simp add: transfer_eval split del: if_split)

lemma transfer_reject_not_registrar:
  "live c u pw d row \<Longrightarrow> registrar row \<noteq> u \<Longrightarrow> find (pending d) (transfers (work c)) = Some tr \<Longrightarrow>
   transfer_domain d ''POST'' (Some ''rejection'') (Some u) pw c =
     (Inr (st 403 ''Not yours'', OResult R_NotYourDomain), c)"
  unfolding transfer_domain_def by (simp add: transfer_eval split del: if_split)

lemma transfer_unknown_action:
  "live c u pw d row \<Longrightarrow> find (pending d) (transfers (work c)) = Some tr \<Longrightarrow>
   a \<notin> {''cancelation'', ''approval'', ''rejection''} \<Longrightarrow>
   transfer_domain d ''POST'' (Some a) (Some u) pw c =
     (Inr (st 400 ''Unknown transfer extra command'', OResult (R_UnknownExtra a)), c)"
  unfolding transfer_domain_def by (simp add: transfer_eval split del: if_split)

lemma transfer_other_method:
  "live c u pw d row \<Longrightarrow> m \<noteq> ''GET'' \<Longrightarrow> m \<noteq> ''POST'' \<Longrightarrow>
   transfer_domain d m x (Some u) pw c = (Inr (method_not_supported m, ODomainRow row), c)"
  unfolding transfer_domain_def by (simp add: transfer_eval split del: if_split)

subsection \<open>Refinement of the abstract machine\<close>

lemma find_pending_append_new:
  "find (pending d) ts = None \<Longrightarrow>
   find (pending d') (ts @ [\<lparr>tid = i, tdomain = d, winner = w, tcreated = n, completed = False\<rparr>]) =
   (if d' = d then Some \<lparr>tid = i, tdomain = d, winner = w, tcreated = n, completed = False\<rparr> else find (pending d') ts)"
  by (induction ts) (auto simp: pending_def [abs_def])

lemma find_pending_drop:
  "find (pending d') (filter (\<lambda>r. \<not> pending d r) ts) = (if d' = d then None else find (pending d') ts)"
  by (induction ts) (auto simp: pending_def [abs_def])

lemma find_pending_complete:
  "find (pending d') (map (\<lambda>r. if pending d r then r\<lparr>completed := True\<rparr> else r) ts) =
   (if d' = d then None else find (pending d') ts)"
  by (induction ts) (auto simp: pending_def [abs_def])

lemma view_request:
  "find (pending d) (transfers t) = None \<Longrightarrow>
   view (t\<lparr>transfers := transfers t @ [\<lparr>tid = i, tdomain = d, winner = w, tcreated = n, completed = False\<rparr>]\<rparr>) =
   (view t)\<lparr>pend := (pend (view t))(d \<mapsto> w)\<rparr>"
  by (simp add: view_def find_pending_append_new fun_eq_iff)

lemma view_drop:
  "view (t\<lparr>transfers := filter (\<lambda>r. \<not> pending d r) (transfers t)\<rparr>) = (view t)\<lparr>pend := (pend (view t))(d := None)\<rparr>"
  by (simp add: view_def find_pending_drop fun_eq_iff)

lemma view_approve:
  "view (t\<lparr>transfers := map (\<lambda>r. if pending d r then r\<lparr>completed := True\<rparr> else r) (transfers t),
           domains := map (\<lambda>r. if dname r = d then r\<lparr>registrar := w\<rparr> else r) (domains t)\<rparr>) =
   (view t)\<lparr>sponsor := (sponsor (view t))(d := map_option (\<lambda>_. w) (sponsor (view t) d)), pend := (pend (view t))(d := None)\<rparr>"
  by (simp add: view_def find_pending_complete keyed_map_update fun_eq_iff option.map_comp comp_def)

lemma refines_step_same: "clean c \<Longrightarrow> refines_step act u d c c"
  by (simp add: refines_step_def)

lemma sponsor_live: "live c u pw d row \<Longrightarrow> sponsor (view (work c)) d = Some (registrar row)"
  by (simp add: live_def view_def)

lemma pend_live: "find (pending d) (transfers t) = Some tr \<Longrightarrow> pend (view t) d = Some (winner tr)"
  by (simp add: view_def)

lemma refines_post_request:
  assumes lv: "live c u pw d row" and cl: "clean c"
  shows "refines_step (Some XRequest) u d c (snd (transfer_domain d ''POST'' None (Some u) pw c))"
proof -
  from cl have na: "\<not> aborted c" and wc: "work c = committed c" by (auto simp: clean_def)
  have sp: "sponsor (view (committed c)) d = Some (registrar row)" using sponsor_live [OF lv] wc by simp
  show ?thesis
  proof (cases "find (pending d) (transfers (work c))")
    case None
    then have np: "pend (view (committed c)) d = None" using wc by (simp add: view_def)
    show ?thesis
    proof (cases "registrar row = u")
      case True
      with lv cl None show ?thesis by (simp add: transfer_request_owner refines_step_same)
    next
      case False
      with lv na wc None sp np show ?thesis
        by (auto simp: transfer_request_new Let_def refines_step_def clean_def view_request intro: xfer_step.request)
    qed
  next
    case (Some tr)
    with lv cl show ?thesis
      by (cases "registrar row = u") (simp_all add: transfer_request_owner transfer_request_pending refines_step_same)
  qed
qed

lemma refines_post_action:
  assumes lv: "live c u pw d row" and cl: "clean c"
    and dn: "dnames_ok (domains (work c))" and po: "pend_ok (transfers (work c))"
  shows "refines_step (req_action ''POST'' (Some a)) u d c (snd (transfer_domain d ''POST'' (Some a) (Some u) pw c))"
proof -
  from cl have na: "\<not> aborted c" and wc: "work c = committed c" by (auto simp: clean_def)
  have sp: "sponsor (view (committed c)) d = Some (registrar row)" using sponsor_live [OF lv] wc by simp
  show ?thesis
  proof (cases "find (pending d) (transfers (work c))")
    case None
    with lv cl show ?thesis by (simp add: transfer_act_no_pending refines_step_same)
  next
    case (Some tr)
    have pw: "pend (view (committed c)) d = Some (winner tr)" using pend_live [OF Some] wc by simp
    consider "a = ''cancelation''" | "a = ''approval''" | "a = ''rejection''"
      | "a \<notin> {''cancelation'', ''approval'', ''rejection''}" by blast
    then show ?thesis
    proof cases
      case 1
      with lv na wc Some pw show ?thesis
        by (cases "winner tr = u")
           (auto simp: transfer_cancel transfer_cancel_not_winner Let_def refines_step_def clean_def view_drop
                 intro: xfer_step.cancel)
    next
      case 2
      with lv na wc dn po Some pw sp show ?thesis
        by (cases "registrar row = u")
           (auto simp: transfer_approve transfer_approve_not_registrar Let_def refines_step_def clean_def
                 view_approve intro: xfer_step.approve)
    next
      case 3
      with lv na wc Some pw sp show ?thesis
        by (cases "registrar row = u")
           (auto simp: transfer_reject transfer_reject_not_registrar Let_def refines_step_def clean_def
                 view_drop intro: xfer_step.reject)
    next
      case 4
      with lv cl Some show ?thesis by (simp add: transfer_unknown_action refines_step_same)
    qed
  qed
qed

text \<open>C1. Refinement: every transfer call by an authenticated registrar on a clean
  connection whose tables satisfy the invariants either leaves the abstract state (sponsor
  and pending winner of every domain) unchanged or performs exactly one step of the
  abstract transfer machine for that registrar and domain, the step of the action the
  request names (a request, an approval that moves the domain to the winner, a rejection,
  a cancellation), and leaves the connection clean.\<close>

theorem transfer_refines:
  assumes cl: "clean c" and dn: "dnames_ok (domains (work c))" and po: "pend_ok (transfers (work c))"
  shows "refines_step (req_action m x) u d c (snd (transfer_domain d m x (Some u) pw c))"
proof -
  from cl have na: "\<not> aborted c" by (simp add: clean_def)
  show ?thesis
  proof (cases "authentic (work c) (Some u) pw \<and> d \<in> dom (keyed dname (domains (work c)))")
    case False
    with na cl show ?thesis
      by (cases "authentic (work c) (Some u) pw")
         (simp_all add: transfer_wrong_password transfer_no_domain refines_step_same)
  next
    case True
    then obtain row where lv: "live c u pw d row" by (auto simp: live_def na)
    consider "m = ''GET''" | "m \<noteq> ''GET''" "m \<noteq> ''POST''" | "m = ''POST''" "x = None"
      | a where "m = ''POST''" "x = Some a" by (cases x) auto
    then show ?thesis
    proof cases
      case 1
      with lv cl show ?thesis
        by (cases "find (pending d) (transfers (work c))") (auto simp: transfer_query refines_step_same)
    next
      case 2
      with lv cl show ?thesis by (simp add: transfer_other_method refines_step_same)
    next
      case 3
      with lv cl show ?thesis by (simp add: refines_post_request)
    next
      case 4
      then show ?thesis using refines_post_action [OF lv cl dn po, of a] by (simp only:)
    qed
  qed
qed

theorem transfer_refines_witness:
  "clean example_conn \<and> dnames_ok (domains (work example_conn)) \<and> pend_ok (transfers (work example_conn)) \<and>
   refines_step (Some XRequest) 6 ''ex.example'' example_conn
     (snd (transfer_domain ''ex.example'' ''POST'' None (Some 6) (Some ''p6'') example_conn))"
proof -
  have h: "clean example_conn" "dnames_ok (domains (work example_conn))" "pend_ok (transfers (work example_conn))"
    by (simp_all add: clean_def dnames_ok_def pend_ok_def example_conn_def example_tables_def)
  show ?thesis using h transfer_refines [OF h, of "''POST''" None 6 "''ex.example''" "Some ''p6''"] by simp
qed

subsection \<open>Transfer outcomes\<close>

lemma live_example_pending: "live example_pending 5 (Some ''p5'') ''ex.example'' example_row"
  by (simp add: live_def authentic_def keyed_def example_pending_def example_conn_def example_tables_def example_row_def Let_def)

lemma live_example_pending_6: "live example_pending 6 (Some ''p6'') ''ex.example'' example_row"
  by (simp add: live_def authentic_def keyed_def example_pending_def example_conn_def example_tables_def example_row_def Let_def)

lemma example_pending_find:
  "find (pending ''ex.example'') (transfers (work example_pending)) = Some example_transfer"
  by (simp add: example_pending_def example_transfer_def pending_def Let_def)

lemma example_pending_invs:
  "dnames_ok (domains (work example_pending))" "pend_ok (transfers (work example_pending))"
  by (simp_all add: dnames_ok_def pend_ok_def pending_def example_pending_def example_conn_def
      example_tables_def example_transfer_def Let_def)

text \<open>C3. Approval: when the sponsoring registrar approves the pending transfer, the call
  answers 200, the committed sponsor of the domain becomes the transfer's winner, no
  transfer of the domain remains pending, and nothing is left uncommitted.\<close>

theorem transfer_approval_moves_domain:
  assumes "live c u pw d row" "registrar row = u" "find (pending d) (transfers (work c)) = Some tr"
    "dnames_ok (domains (work c))" "pend_ok (transfers (work c))"
  shows "fst (transfer_domain d ''POST'' (Some ''approval'') (Some u) pw c) = Inr (st_ok, OResult (R_Approved d)) \<and>
         (let c' = snd (transfer_domain d ''POST'' (Some ''approval'') (Some u) pw c)
          in sponsor (view (committed c')) d = Some (winner tr) \<and> pend (view (committed c')) d = None \<and>
             work c' = committed c')"
proof -
  let ?w = "(work c)\<lparr>transfers := map (\<lambda>r. if pending d r then r\<lparr>completed := True\<rparr> else r) (transfers (work c)),
                     domains := map (\<lambda>r. if dname r = d then r\<lparr>registrar := winner tr\<rparr> else r) (domains (work c))\<rparr>"
  have run: "transfer_domain d ''POST'' (Some ''approval'') (Some u) pw c =
               (Inr (st_ok, OResult (R_Approved d)), c\<lparr>work := ?w, committed := ?w\<rparr>)"
    using assms by (simp add: transfer_approve Let_def)
  have "sponsor (view (work c)) d = Some u" using sponsor_live [OF assms(1)] assms(2) by simp
  then show ?thesis using run view_approve [where t = "work c" and d = d and w = "winner tr"] by (simp add: Let_def)
qed

theorem transfer_approval_moves_domain_witness:
  "live example_pending 5 (Some ''p5'') ''ex.example'' example_row \<and> registrar example_row = 5 \<and>
   find (pending ''ex.example'') (transfers (work example_pending)) = Some example_transfer \<and>
   dnames_ok (domains (work example_pending)) \<and> pend_ok (transfers (work example_pending)) \<and>
   fst (transfer_domain ''ex.example'' ''POST'' (Some ''approval'') (Some 5) (Some ''p5'') example_pending) =
     Inr (st_ok, OResult (R_Approved ''ex.example''))"
  using transfer_approval_moves_domain [OF live_example_pending _ example_pending_find example_pending_invs]
    live_example_pending example_pending_find example_pending_invs
  by (simp add: example_row_def Let_def)

lemma live_example_conn: "live example_conn 5 (Some ''p5'') ''ex.example'' example_row"
  by (simp add: live_def authentic_def keyed_def example_conn_def example_tables_def example_row_def)

text \<open>C4. A transfer request that has nothing to start changes nothing: by the domain's
  current sponsor it answers that the caller already sponsors the domain, and while a
  transfer is pending it reports that transfer (its winner and start time); in neither case
  is a pending transfer created.\<close>

theorem transfer_repeat_request_unchanged:
  assumes "live c u pw d row"
  shows "(registrar row = u \<longrightarrow>
           transfer_domain d ''POST'' None (Some u) pw c = (Inr (st_ok, OResult (R_AlreadyRegistrar u d)), c)) \<and>
         (registrar row \<noteq> u \<longrightarrow> find (pending d) (transfers (work c)) = Some tr \<longrightarrow>
           transfer_domain d ''POST'' None (Some u) pw c =
             (Inr (st_ok, OResult (R_AlreadyPending d (winner tr) (tcreated tr))), c))"
  using assms by (simp add: transfer_request_owner transfer_request_pending)

theorem transfer_repeat_request_unchanged_witness:
  "snd (transfer_domain ''ex.example'' ''POST'' None (Some 5) (Some ''p5'') example_conn) = example_conn \<and>
   snd (transfer_domain ''ex.example'' ''POST'' None (Some 6) (Some ''p6'') example_pending) = example_pending"
proof -
  have "registrar example_row = 5" "registrar example_row \<noteq> 6" by (simp_all add: example_row_def)
  then show ?thesis
    using transfer_repeat_request_unchanged [OF live_example_conn]
      transfer_repeat_request_unchanged [OF live_example_pending_6, of example_transfer] example_pending_find
    by simp
qed

text \<open>C5. A pending transfer withdrawn by either side (rejection by the sponsor,
  cancellation by the winner) answers 200, removes the pending transfer and leaves the
  sponsor as it was, all committed; rejection also leaves the domains table alone.\<close>

theorem transfer_withdrawal_keeps_sponsor:
  assumes "live c u pw d row" "find (pending d) (transfers (work c)) = Some tr"
  shows "(registrar row = u \<longrightarrow>
           fst (transfer_domain d ''POST'' (Some ''rejection'') (Some u) pw c) = Inr (st_ok, OResult (R_Rejected d)) \<and>
           (let c' = snd (transfer_domain d ''POST'' (Some ''rejection'') (Some u) pw c)
            in sponsor (view (committed c')) d = Some u \<and> pend (view (committed c')) d = None \<and>
               domains (committed c') = domains (work c) \<and> work c' = committed c')) \<and>
         (winner tr = u \<longrightarrow>
           fst (transfer_domain d ''POST'' (Some ''cancelation'') (Some u) pw c) = Inr (st_ok, OResult (R_Cancelled d)) \<and>
           (let c' = snd (transfer_domain d ''POST'' (Some ''cancelation'') (Some u) pw c)
            in sponsor (view (committed c')) d = Some (registrar row) \<and> pend (view (committed c')) d = None \<and>
               work c' = committed c'))"
  using assms sponsor_live [OF assms(1)] view_drop [where t = "work c" and d = d]
  by (simp add: transfer_reject transfer_cancel Let_def)

theorem transfer_withdrawal_keeps_sponsor_witness:
  "fst (transfer_domain ''ex.example'' ''POST'' (Some ''rejection'') (Some 5) (Some ''p5'') example_pending) =
     Inr (st_ok, OResult (R_Rejected ''ex.example'')) \<and>
   fst (transfer_domain ''ex.example'' ''POST'' (Some ''cancelation'') (Some 6) (Some ''p6'') example_pending) =
     Inr (st_ok, OResult (R_Cancelled ''ex.example''))"
proof -
  have "registrar example_row = 5" "winner example_transfer = 6"
    by (simp_all add: example_row_def example_transfer_def)
  then show ?thesis
    using transfer_withdrawal_keeps_sponsor [OF live_example_pending example_pending_find]
      transfer_withdrawal_keeps_sponsor [OF live_example_pending_6 example_pending_find]
    by simp
qed

text \<open>C6. Approval and rejection by a registrar that does not sponsor the domain are
  refused with 403 and change nothing.\<close>

theorem transfer_decision_forbidden:
  assumes "live c u pw d row" "registrar row \<noteq> u" "find (pending d) (transfers (work c)) = Some tr"
    "a \<in> {''approval'', ''rejection''}"
  shows "transfer_domain d ''POST'' (Some a) (Some u) pw c = (Inr (st 403 ''Not yours'', OResult R_NotYourDomain), c)"
  using assms by (auto simp: transfer_approve_not_registrar transfer_reject_not_registrar)

theorem transfer_decision_forbidden_witness:
  "live example_pending 6 (Some ''p6'') ''ex.example'' example_row \<and> registrar example_row \<noteq> 6 \<and>
   find (pending ''ex.example'') (transfers (work example_pending)) = Some example_transfer \<and>
   ''approval'' \<in> {''approval'', ''rejection''} \<and>
   transfer_domain ''ex.example'' ''POST'' (Some ''approval'') (Some 6) (Some ''p6'') example_pending =
     (Inr (st 403 ''Not yours'', OResult R_NotYourDomain), example_pending)"
  using transfer_decision_forbidden [OF live_example_pending_6 _ example_pending_find]
    live_example_pending_6 example_pending_find
  by (simp add: example_row_def)


text \<open>C33. The error exits of a decision. When the UPDATE that completes the pending
  transfer does not match exactly one row, approval answers 500 and returns without
  rollback: the completed rows stay in the open transaction, uncommitted, and the next
  commit of any later request publishes them. An action other than cancelation, approval
  and rejection is answered 404 'No transfer' when the domain has no pending transfer, and
  400 'Unknown transfer extra command' only when one is pending (the specification answers
  400 for every unknown action), without changing the connection.\<close>

theorem transfer_decision_error_exits:
  assumes "live c u pw d row"
  shows "(registrar row = u \<longrightarrow> find (pending d) (transfers (work c)) = Some tr \<longrightarrow>
           length (filter (pending d) (transfers (work c))) \<noteq> 1 \<longrightarrow>
           transfer_domain d ''POST'' (Some ''approval'') (Some u) pw c =
             (Inr (st 500 ''Internal error'', OResult R_UpdateTransferFailed),
              c\<lparr>work := (work c)\<lparr>transfers := map (\<lambda>r. if pending d r then r\<lparr>completed := True\<rparr> else r) (transfers (work c))\<rparr>\<rparr>)) \<and>
         (a \<notin> {''cancelation'', ''approval'', ''rejection''} \<longrightarrow>
           transfer_domain d ''POST'' (Some a) (Some u) pw c =
             (Inr (case find (pending d) (transfers (work c)) of
                     None \<Rightarrow> (st 404 ''No transfer'', OResult (R_NoPendingToActOn d))
                   | Some _ \<Rightarrow> (st 400 ''Unknown transfer extra command'', OResult (R_UnknownExtra a))), c))"
proof (intro conjI impI)
  assume "registrar row = u" "find (pending d) (transfers (work c)) = Some tr"
    "length (filter (pending d) (transfers (work c))) \<noteq> 1"
  with assms show "transfer_domain d ''POST'' (Some ''approval'') (Some u) pw c =
    (Inr (st 500 ''Internal error'', OResult R_UpdateTransferFailed),
     c\<lparr>work := (work c)\<lparr>transfers := map (\<lambda>r. if pending d r then r\<lparr>completed := True\<rparr> else r) (transfers (work c))\<rparr>\<rparr>)"
    unfolding transfer_domain_def by (simp add: transfer_eval split del: if_split)
next
  assume "a \<notin> {''cancelation'', ''approval'', ''rejection''}"
  with assms show "transfer_domain d ''POST'' (Some a) (Some u) pw c =
    (Inr (case find (pending d) (transfers (work c)) of
            None \<Rightarrow> (st 404 ''No transfer'', OResult (R_NoPendingToActOn d))
          | Some _ \<Rightarrow> (st 400 ''Unknown transfer extra command'', OResult (R_UnknownExtra a))), c)"
    by (cases "find (pending d) (transfers (work c))") (simp_all add: transfer_act_no_pending transfer_unknown_action)
qed

theorem transfer_decision_error_exits_witness:
  "transfer_domain ''ex.example'' ''POST'' (Some ''approval'') (Some 5) (Some ''p5'') double_pending =
    (Inr (st 500 ''Internal error'', OResult R_UpdateTransferFailed),
     double_pending\<lparr>work := (work double_pending)\<lparr>transfers :=
       [example_transfer\<lparr>completed := True\<rparr>, example_transfer\<lparr>tid := 2, completed := True\<rparr>]\<rparr>\<rparr>) \<and>
   transfer_domain ''ex.example'' ''POST'' (Some ''frobnicate'') (Some 5) (Some ''p5'') example_conn =
     (Inr (st 404 ''No transfer'', OResult (R_NoPendingToActOn ''ex.example'')), example_conn)"
proof -
  have live: "live double_pending 5 (Some ''p5'') ''ex.example'' example_row"
    by (simp add: live_def authentic_def keyed_def double_pending_def example_conn_def example_tables_def example_row_def Let_def)
  have f: "find (pending ''ex.example'') (transfers (work double_pending)) = Some example_transfer"
    by (simp add: double_pending_def example_conn_def example_tables_def example_transfer_def pending_def Let_def)
  show ?thesis
    using transfer_decision_error_exits [OF live, of example_transfer "''frobnicate''"] f
      transfer_decision_error_exits [OF live_example_conn, of example_transfer "''frobnicate''"]
    by (simp add: double_pending_def example_row_def example_tables_def example_transfer_def example_conn_def pending_def Let_def)
qed

end
