(* ===== verification/Domain.thy ===== *)
theory Domain
  imports Domain_Transfer
begin

text \<open>
  The Domain Lifecycle Engine of \<open>registry.py\<close>: the registration rule
  \<open>registerable\<close> (lines 190--198), the availability check (lines 219--241), the
  patch of the contacts (lines 110--129) and the handler \<open>handle_domain\<close>
  (lines 318--456) that routes a request on \<open>/domains/<name>[/<operation>[/<extra>]]\<close>.
  The request body arrives as the result of \<open>json.loads\<close> on the bytes read: the
  handler's \<open>body\<close> is \<open>None\<close> when Python's argument is \<open>None\<close>, and
  \<open>Some None\<close> when the bytes do not decode.
\<close>

text \<open>\<open>registerable\<close>: \<open>(True,)\<close> is \<open>(True, None)\<close>, \<open>(False, why)\<close> is
  \<open>(False, Some why)\<close>; a name without a dot cannot be unpacked into two labels.\<close>

definition registerable :: "domain_name \<Rightarrow> exn + (bool \<times> string option)" where
  "registerable domain =
     (case split_first CHR ''.'' domain of
        None \<Rightarrow> Inl ValueError
      | Some (flabel, rest) \<Rightarrow>
          if length flabel < 2 then Inr (False, Some ''Domains must be at least two characters'')
          else if hd flabel = CHR ''0'' then Inr (False, Some ''Domains must not start with a zero'')
          else Inr (True, None))"

definition availability_domain :: "domain_name \<Rightarrow> string \<Rightarrow> reply py" where
  "availability_domain domain method =
     bindE (head_domain domain) (\<lambda>data.
     if method = ''HEAD'' then
       (case data of
          None \<Rightarrow> retE (st 404 ''Not found'', OResult (R_DomainNotFound domain))
        | Some _ \<Rightarrow> retE (st 200 ''Found'', OResult (R_DomainAlreadyExists domain)))
     else if method = ''GET'' then
       (case data of
          None \<Rightarrow>
            (case registerable domain of
               Inl e \<Rightarrow> raiseE e
             | Inr (ok, why) \<Rightarrow>
                 retE (st 404 ''Not found'', OResult (R_DomainNotFoundInfo domain (if ok then None else why))))
        | Some _ \<Rightarrow> retE (st 200 ''Found'', OResult (R_DomainAlreadyExists domain)))
     else retE (method_not_supported method, OEmpty))"

text \<open>A contact handle taken from a validated body; the schemas admit only strings
  there.\<close>

fun jstr_value :: "json \<Rightarrow> exn + string" where
  "jstr_value (JStr s) = Inr s"
| "jstr_value _ = Inl TypeError"

definition body_str :: "json \<Rightarrow> string \<Rightarrow> exn + string" where
  "body_str j k = (case jindex j k of Inl e \<Rightarrow> Inl e | Inr v \<Rightarrow> jstr_value v)"

definition patch_domain :: "domain_name \<Rightarrow> json \<Rightarrow> reply py" where
  "patch_domain domain data0 =
     bindE (info_domain domain) (\<lambda>output.
     case output of
       None \<Rightarrow> retE (st 404 ''Not found'', OResult (R_DomainNotFound domain))
     | Some _ \<Rightarrow>
     bindE (liftE (jindex data0 ''change'')) (\<lambda>data.
     let done = bindE commit (\<lambda>_. retE (st 204 ''Updated'', OResult R_UpdateDone));
         upd_admin =
           (if jhas ''admin'' data then
              bindE (liftE (body_str data ''admin'')) (\<lambda>v.
              bindE (execute (upd_domain domain (\<lambda>r. r\<lparr>admin := v\<rparr>))) (\<lambda>n.
              if n \<noteq> 1 then bindE rollback (\<lambda>_. retE (st 500 ''Internal error'', OResult R_UpdateAdminFailed))
              else done))
            else done)
     in if jhas ''tech'' data then
          bindE (liftE (body_str data ''tech'')) (\<lambda>v.
          bindE (execute (upd_domain domain (\<lambda>r. r\<lparr>tech := v\<rparr>))) (\<lambda>n.
          if n \<noteq> 1 then bindE rollback (\<lambda>_. retE (st 500 ''Internal error'', OResult R_UpdateTechFailed))
          else upd_admin))
        else upd_admin))"

text \<open>The \<open>except\<close> clauses around \<open>validate_json\<close>: a schema violation and an
  undecodable body are answered with 400, anything else propagates.\<close>

definition invalid_body :: "domain_name \<Rightarrow> exn \<Rightarrow> reply py" where
  "invalid_body domain e =
     (if e = ValidationError then retE (st 400 ''Invalid JSON'', OResult (R_InvalidJsonBody domain))
      else if e = JSONDecodeError then retE (st 400 ''Invalid'', OResult (R_InvalidJson domain))
      else raiseE e)"

definition create_domain :: "domain_name \<Rightarrow> json \<Rightarrow> registrar_id \<Rightarrow> reply py" where
  "create_domain domain data u =
     bindE (liftE (body_str data ''holder'')) (\<lambda>h.
     bindE (liftE (body_str data ''tech'')) (\<lambda>t.
     bindE (liftE (body_str data ''admin'')) (\<lambda>a.
     catchE (bindE (store_domain domain h t a u) (\<lambda>_. retE (st 201 ''Created'', OResult (R_Created domain))))
       (\<lambda>e. if e = AlreadyExists then retE (st 412 ''Exists'', OResult (R_Exists domain))
            else if e = TooManyDomains then retE (st 400 ''Too many'', OResult R_TooManyDomains)
            else if e = Conflict then retE (st 500 ''Conflict'', OResult R_InternalConflict)
            else raiseE e))))"

definition handle_domain ::
  "domain_name \<Rightarrow> string \<Rightarrow> string option \<Rightarrow> string option \<Rightarrow> json option option \<Rightarrow>
   registrar_id option \<Rightarrow> string option \<Rightarrow> reply py" where
  "handle_domain domain0 method operation extra body user pw =
     (let domain = lower domain0 in
      if \<not> endswith domain (''.'' @ TLD) then retE (st 400 (''Domain name must be under .'' @ TLD), OEmpty)
      else if operation = Some ''transfer'' then transfer_domain domain method extra user pw
      else if operation = Some ''availability'' then availability_domain domain method
      else if operation \<noteq> None then
        retE (st 400 ''Unknown operation'', OResult (R_UnknownOperation (the operation) domain))
      else if method = ''HEAD'' then
        bindE (head_domain domain) (\<lambda>output.
          case output of
            None \<Rightarrow> retE (st 404 ''Not found'', OEmpty)
          | Some _ \<Rightarrow> retE (st_ok, OEmpty))
      else if method = ''GET'' then
        bindE (info_domain domain) (\<lambda>output.
          case output of
            None \<Rightarrow> retE (st 404 ''Not found'', OResult (R_DomainNotFound domain))
          | Some r \<Rightarrow> retE (st_ok, ODomainInfo domain (holder r) (tech r) (admin r) (registrar r) (dcreated r)))
      else if method = ''PUT'' then
        (case user of
           None \<Rightarrow> retE (st 401 ''Unauthenticated'', OResult R_MustAuthCreate)
         | Some u \<Rightarrow>
           bindE (auth_registrar user pw) (\<lambda>authenticated.
           if \<not> authenticated then retE (st 401 ''Wrong password'', OResult R_MustAuthProperly)
           else case body of
             None \<Rightarrow> retE (st 400 ''Empty'', OResult (R_NoBodyCreate domain))
           | Some input \<Rightarrow>
               (case validate_json input ''domain'' ''put'' of
                  Inl e \<Rightarrow> invalid_body domain e
                | Inr data \<Rightarrow> create_domain domain data u)))
      else if method = ''PATCH'' then
        (case user of
           None \<Rightarrow> retE (st 401 ''Unauthenticated'', OResult (R_MustAuthRegistrar domain))
         | Some u \<Rightarrow>
           bindE (auth_registrar user pw) (\<lambda>authenticated.
           if \<not> authenticated then retE (st 401 ''Wrong password'', OResult R_MustAuthProperly)
           else case body of
             None \<Rightarrow> retE (st 400 ''Empty'', OResult (R_NoBodyPatch domain))
           | Some input \<Rightarrow>
               (case validate_json input ''domain'' ''patch'' of
                  Inl e \<Rightarrow> invalid_body domain e
                | Inr data \<Rightarrow>
                    catchE (patch_domain domain data)
                      (\<lambda>e. if e = Conflict then retE (st 500 ''Conflict'', OResult R_InternalConflict)
                           else raiseE e))))
      else if method = ''DELETE'' then
        (case user of
           None \<Rightarrow> retE (st 401 ''Unauthenticated'', OResult (R_MustAuthRegistrar domain))
         | Some u \<Rightarrow>
           bindE (info_domain domain) (\<lambda>info.
           case info of
             None \<Rightarrow> retE (st 404 ''Not found'', OResult (R_DoesNotExist domain))
           | Some r \<Rightarrow>
           if u \<noteq> registrar r then
             retE (st 403 ''Forbidden'', OResult (R_NotRegistrarOf u domain (registrar r)))
           else bindE (auth_registrar user pw) (\<lambda>authenticated.
           if \<not> authenticated then
             retE (st 401 ''Wrong password'', OResult (R_MustAuthRegistrar domain))
           else catchE (bindE (delete_domain domain) (\<lambda>_. retE (st 202 ''Accepted'', OResult (R_Deleted domain))))
             (\<lambda>e. if e = DoesNotExist then retE (st 404 ''Not found'', OResult (R_DoesNotExist domain))
                  else if e = Immutable then retE (st 423 ''Immutable'', OResult (R_CannotDelete domain))
                  else raiseE e))))
      else retE (method_not_supported method, OEmpty))"


text \<open>A name the handler accepts as it is: already lower-case, under the TLD (the test of line 323).\<close>

definition in_tld :: "domain_name \<Rightarrow> bool" where
  "in_tld d \<longleftrightarrow> lower d = d \<and> endswith d (''.'' @ TLD)"

text \<open>The registry's own name \<open>nic.example\<close> stays registered: the predicate that a name has a row.\<close>

definition has_domain :: "domain_name \<Rightarrow> domain_row list \<Rightarrow> bool" where
  "has_domain n ds \<longleftrightarrow> n \<in> set (map dname ds)"

text \<open>Worked-example inputs: a creation body with three contact handles, the example registry with \<open>nic.example\<close> added (sponsored by 5), and a registry at its quota of domains.\<close>

definition example_body :: json where
  "example_body = JObj [(''holder'', JStr ''H2''), (''tech'', JStr ''H2''), (''admin'', JStr ''H2'')]"

definition nic_conn :: conn where
  "nic_conn = (let t = example_tables\<lparr>domains := \<lparr>dname = ''nic.example'', holder = ''H1'', tech = ''H1'',
       admin = ''H1'', registrar = 5, dcreated = 0\<rparr> # domains example_tables\<rparr>
     in example_conn\<lparr>committed := t, work := t\<rparr>)"

definition full_conn :: conn where
  "full_conn = (let t = example_tables\<lparr>domains := replicate MAX_DOMAINS (hd (domains example_tables))\<rparr>
     in example_conn\<lparr>committed := t, work := t\<rparr>)"

section \<open>Lemmas\<close>

subsection \<open>Evaluation of each branch of handle_domain\<close>

lemma body_str_jstr [registry_simps]: "jindex j k = Inr (JStr s) \<Longrightarrow> body_str j k = Inr s"
  by (simp add: body_str_def)

lemmas domain_eval = registry_simps Let_def in_tld_def validate_json_def

lemma authentic_domains [simp]: "authentic (t\<lparr>domains := ds\<rparr>) u pw = authentic t u pw"
  by (simp add: authentic_def cong: option.case_cong)

lemma clean_conn [simp]: "\<not> aborted c \<Longrightarrow> c\<lparr>aborted := False\<rparr> = c"
  by simp

lemma count_dname_one:
  "dnames_ok ds \<Longrightarrow> d \<in> dom (keyed dname ds) \<Longrightarrow> length (filter (\<lambda>r. dname r = d) ds) = 1"
  by (simp add: dnames_ok_def count_key_distinct)

lemma handle_domain_not_tld:
  "\<not> endswith (lower d) (''.'' @ TLD) \<Longrightarrow>
   handle_domain d m op x b u pw c = (Inr (st 400 (''Domain name must be under .'' @ TLD), OEmpty), c)"
  unfolding handle_domain_def by (simp add: registry_simps)

lemma handle_domain_transfer:
  "in_tld d \<Longrightarrow> handle_domain d m (Some ''transfer'') x b u pw = transfer_domain d m x u pw"
  unfolding handle_domain_def by (simp add: in_tld_def)

lemma handle_domain_availability:
  "in_tld d \<Longrightarrow> handle_domain d m (Some ''availability'') x b u pw = availability_domain d m"
  unfolding handle_domain_def by (simp add: in_tld_def)

lemma handle_domain_get:
  "in_tld d \<Longrightarrow> \<not> aborted c \<Longrightarrow>
   handle_domain d ''GET'' None x b u pw c =
     (Inr (case keyed dname (domains (work c)) d of
             None \<Rightarrow> (st 404 ''Not found'', OResult (R_DomainNotFound d))
           | Some r \<Rightarrow> (st_ok, ODomainInfo d (holder r) (tech r) (admin r) (registrar r) (dcreated r))), c)"
  unfolding handle_domain_def by (simp add: domain_eval split: option.split)

lemma handle_domain_put_created:
  assumes "in_tld d" "\<not> aborted c" "authentic (work c) (Some u) pw" "domain_schema j"
    "jindex j ''holder'' = Inr (JStr h)" "jindex j ''tech'' = Inr (JStr t)" "jindex j ''admin'' = Inr (JStr a)"
    "length (domains (work c)) < MAX_DOMAINS" "d \<notin> dom (keyed dname (domains (work c)))"
  shows "handle_domain d ''PUT'' None x (Some (Some j)) (Some u) pw c =
     (Inr (st 201 ''Created'', OResult (R_Created d)),
      c\<lparr>work := (work c)\<lparr>domains := domains (work c) @ [new_domain_row c d h t a u]\<rparr>,
        committed := (work c)\<lparr>domains := domains (work c) @ [new_domain_row c d h t a u]\<rparr>\<rparr>)"
  using assms unfolding handle_domain_def create_domain_def
  by (simp add: domain_eval store_domain_new split del: if_split)

lemma handle_domain_put_exists:
  assumes "in_tld d" "\<not> aborted c" "authentic (work c) (Some u) pw" "domain_schema j"
    "jindex j ''holder'' = Inr (JStr h)" "jindex j ''tech'' = Inr (JStr t)" "jindex j ''admin'' = Inr (JStr a)"
    "length (domains (work c)) < MAX_DOMAINS" "d \<in> dom (keyed dname (domains (work c)))"
  shows "handle_domain d ''PUT'' None x (Some (Some j)) (Some u) pw c =
     (Inr (st 412 ''Exists'', OResult (R_Exists d)), c\<lparr>work := committed c, aborted := False\<rparr>)"
  using assms unfolding handle_domain_def create_domain_def
  by (simp add: domain_eval store_domain_exists split del: if_split)

lemma handle_domain_put_unauth:
  "in_tld d \<Longrightarrow> \<not> aborted c \<Longrightarrow> \<not> authentic (work c) u pw \<Longrightarrow>
   handle_domain d ''PUT'' None x b u pw c =
     (Inr (if u = None then (st 401 ''Unauthenticated'', OResult R_MustAuthCreate)
           else (st 401 ''Wrong password'', OResult R_MustAuthProperly)), c)"
  unfolding handle_domain_def by (cases u) (simp_all add: domain_eval)

lemma handle_domain_delete_ok:
  "in_tld d \<Longrightarrow> \<not> aborted c \<Longrightarrow> keyed dname (domains (work c)) d = Some r \<Longrightarrow>
   authentic (work c) (Some (registrar r)) pw \<Longrightarrow> d \<noteq> ''nic.'' @ TLD \<Longrightarrow>
   handle_domain d ''DELETE'' None x b (Some (registrar r)) pw c =
     (Inr (st 202 ''Accepted'', OResult (R_Deleted d)),
      c\<lparr>work := (work c)\<lparr>domains := filter (\<lambda>r. dname r \<noteq> d) (domains (work c))\<rparr>,
        committed := (work c)\<lparr>domains := filter (\<lambda>r. dname r \<noteq> d) (domains (work c))\<rparr>\<rparr>)"
  unfolding handle_domain_def by (simp add: domain_eval delete_domain_live domIff)

lemma handle_domain_patch_tech:
  assumes "in_tld d" "\<not> aborted c" "authentic (work c) (Some u) pw" "dnames_ok (domains (work c))"
    "d \<in> dom (keyed dname (domains (work c)))" "patch_domain_schema j"
    "jindex j ''change'' = Inr ch" "jget ''tech'' ch = Some (JStr t)" "jget ''admin'' ch = None"
  shows "handle_domain d ''PATCH'' None x (Some (Some j)) (Some u) pw c =
     (Inr (st 204 ''Updated'', OResult R_UpdateDone),
      c\<lparr>work := (work c)\<lparr>domains := map (\<lambda>r. if dname r = d then r\<lparr>tech := t\<rparr> else r) (domains (work c))\<rparr>,
        committed := (work c)\<lparr>domains := map (\<lambda>r. if dname r = d then r\<lparr>tech := t\<rparr> else r) (domains (work c))\<rparr>\<rparr>)"
proof -
  obtain r where r: "keyed dname (domains (work c)) d = Some r" using assms(5) by auto
  show ?thesis
    using assms r unfolding handle_domain_def patch_domain_def
    by (simp add: domain_eval jhas_def count_dname_one [OF assms(4,5)] split del: if_split)
qed

subsection \<open>Invariant rules\<close>

lemma has_domain_ins [preserves_intros]: "stmt_keeps (on_domains (has_domain n)) (ins_domain d h t a u)"
  by (auto simp: stmt_keeps_def on_domains_def has_domain_def ins_domain_def split: if_splits)

lemma has_domain_upd [preserves_intros]:
  "(\<And>r. dname (f r) = dname r) \<Longrightarrow> stmt_keeps (on_domains (has_domain n)) (upd_domain d f)"
  by (simp add: stmt_keeps_def on_domains_def has_domain_def upd_domain_def update_rows_def map_dname_update del: map_map set_map)

lemma has_domain_del: "d \<noteq> n \<Longrightarrow> stmt_keeps (on_domains (has_domain n)) (del_domain d)"
  by (auto simp: stmt_keeps_def on_domains_def has_domain_def del_domain_def delete_rows_def)

lemma nic_delete_domain [preserves_intros]:
  "preserves (tinv (on_domains (has_domain (''nic.'' @ TLD)))) (delete_domain d)"
  unfolding delete_domain_def
  by (cases "d = ''nic.'' @ TLD") (simp_all add: has_domain_del preserves_intros)

lemmas handle_domain_defs = handle_domain_def create_domain_def patch_domain_def store_domain_def
  transfer_domain_def availability_domain_def head_domain_def info_domain_def auth_registrar_def
  invalid_body_def Let_def

lemma preserves_tinv_conj:
  "preserves (tinv P) m \<Longrightarrow> preserves (tinv Q) m \<Longrightarrow> preserves (tinv (\<lambda>t. P t \<and> Q t)) m"
  by (auto simp: preserves_def tinv_def)

subsection \<open>The handler as a whole\<close>

lemma handle_domain_keeps:
  "preserves (tinv (on_domains dnames_ok)) (handle_domain d m op x b u pw)"
  "preserves (tinv (on_transfers pend_ok)) (handle_domain d m op x b u pw)"
  "preserves (tinv (on_domains (has_domain (''nic.'' @ TLD)))) (handle_domain d m op x b u pw)"
  "preserves (tinv (on_registrars P)) (handle_domain d m op x b u pw)"
proof -
  show "preserves (tinv (on_domains dnames_ok)) (handle_domain d m op x b u pw)"
    unfolding handle_domain_defs delete_domain_def by (intro preserves_intros) simp_all
  show "preserves (tinv (on_transfers pend_ok)) (handle_domain d m op x b u pw)"
    unfolding handle_domain_defs delete_domain_def by (intro preserves_check_insert preserves_intros)
  show "preserves (tinv (on_domains (has_domain (''nic.'' @ TLD)))) (handle_domain d m op x b u pw)"
    unfolding handle_domain_defs by (intro preserves_intros) simp_all
  show "preserves (tinv (on_registrars P)) (handle_domain d m op x b u pw)"
    unfolding handle_domain_defs delete_domain_def by (intro preserves_intros)
qed

lemma frozen_handle_domain: "frozen (handle_domain d m op x b u pw)"
  unfolding handle_domain_def create_domain_def patch_domain_def transfer_domain_def availability_domain_def
    invalid_body_def Let_def by (intro frozen_binds frozen_steps)

lemma handle_domain_codes: "returns code_ok (handle_domain d m op x b u pw)"
  unfolding handle_domain_def create_domain_def patch_domain_def transfer_domain_def availability_domain_def
    invalid_body_def Let_def
  by (intro returns_steps) (simp_all add: codes_simps)

text \<open>With a body present (the only case \<open>dispatch\<close> produces) no branch answers that the body is missing.\<close>

lemma handle_domain_body: "returns (\<lambda>r. \<not> body_missing (snd r)) (handle_domain d m op x (Some b) u pw)"
  unfolding handle_domain_def create_domain_def patch_domain_def transfer_domain_def availability_domain_def
    invalid_body_def Let_def option.case
  by (intro returns_steps) simp_all

subsection \<open>Claims\<close>

lemma example_in_tld: "in_tld ''a.example''" "in_tld ''ex.example''" "in_tld ''nic.example''"
  by (simp_all add: in_tld_def lower_def lower_char_def endswith_def TLD_def)

lemmas example_facts = example_in_tld example_body_def example_conn_def example_tables_def nic_conn_def
  authentic_def keyed_def domain_schema_def str_field_def MAX_DOMAINS_def Let_def

text \<open>C7. A PUT by an authenticated registrar with a valid body on a free name under the TLD, below the quota, answers 201 Created, and a GET on the resulting connection (by anyone) returns the stored holder, contacts, the creating registrar as sponsor and the transaction time.\<close>

theorem domain_create_then_get:
  assumes "in_tld d" "\<not> aborted c" "authentic (work c) (Some u) pw" "domain_schema j"
    "jindex j ''holder'' = Inr (JStr h)" "jindex j ''tech'' = Inr (JStr t)" "jindex j ''admin'' = Inr (JStr a)"
    "length (domains (work c)) < MAX_DOMAINS" "d \<notin> dom (keyed dname (domains (work c)))"
  shows "fst (handle_domain d ''PUT'' None x (Some (Some j)) (Some u) pw c) = Inr (st 201 ''Created'', OResult (R_Created d)) \<and>
    fst (handle_domain d ''GET'' None x' b' u' pw' (snd (handle_domain d ''PUT'' None x (Some (Some j)) (Some u) pw c))) =
      Inr (st_ok, ODomainInfo d h t a u (now c))"
  using assms by (simp add: handle_domain_put_created handle_domain_get keyed_append_new new_domain_row_def)

theorem domain_create_then_get_witness:
  "fst (handle_domain ''a.example'' ''PUT'' None None (Some (Some example_body)) (Some 6) (Some ''p6'') example_conn) =
     Inr (st 201 ''Created'', OResult (R_Created ''a.example'')) \<and>
   fst (handle_domain ''a.example'' ''GET'' None None None None None
     (snd (handle_domain ''a.example'' ''PUT'' None None (Some (Some example_body)) (Some 6) (Some ''p6'') example_conn))) =
     Inr (st_ok, ODomainInfo ''a.example'' ''H2'' ''H2'' ''H2'' 6 10)"
  using domain_create_then_get [of "''a.example''" example_conn 6 "Some ''p6''" example_body "''H2''" "''H2''" "''H2''"]
  by (simp add: example_facts)

text \<open>C8. Creating a name that the previous request just created answers 412 Exists and leaves the connection as it was, whichever registrar asks.\<close>

theorem domain_create_twice:
  assumes "in_tld d" "\<not> aborted c" "authentic (work c) (Some u) pw" "domain_schema j"
    "jindex j ''holder'' = Inr (JStr h)" "jindex j ''tech'' = Inr (JStr t)" "jindex j ''admin'' = Inr (JStr a)"
    "Suc (length (domains (work c))) < MAX_DOMAINS" "d \<notin> dom (keyed dname (domains (work c)))"
    "authentic (work c) (Some u') pw'" "domain_schema j'"
    "jindex j' ''holder'' = Inr (JStr h')" "jindex j' ''tech'' = Inr (JStr t')" "jindex j' ''admin'' = Inr (JStr a')"
  shows "handle_domain d ''PUT'' None x' (Some (Some j')) (Some u') pw'
           (snd (handle_domain d ''PUT'' None x (Some (Some j)) (Some u) pw c)) =
         (Inr (st 412 ''Exists'', OResult (R_Exists d)),
          snd (handle_domain d ''PUT'' None x (Some (Some j)) (Some u) pw c))"
  using assms by (simp add: handle_domain_put_created handle_domain_put_exists dom_keyed new_domain_row_def)

theorem domain_create_twice_witness:
  "handle_domain ''a.example'' ''PUT'' None None (Some (Some example_body)) (Some 5) (Some ''p5'')
     (snd (handle_domain ''a.example'' ''PUT'' None None (Some (Some example_body)) (Some 6) (Some ''p6'') example_conn)) =
   (Inr (st 412 ''Exists'', OResult (R_Exists ''a.example'')),
    snd (handle_domain ''a.example'' ''PUT'' None None (Some (Some example_body)) (Some 6) (Some ''p6'') example_conn))"
  using domain_create_twice [of "''a.example''" example_conn 6 "Some ''p6''" example_body "''H2''" "''H2''" "''H2''"
      5 "Some ''p5''" example_body "''H2''" "''H2''" "''H2''"]
  by (simp add: example_facts)

text \<open>C9. When the domains table holds MAX_DOMAINS rows, an authenticated, valid PUT answers 400 Too many and changes nothing, whatever the name.\<close>

theorem domain_create_quota:
  assumes "in_tld d" "\<not> aborted c" "authentic (work c) (Some u) pw" "domain_schema j"
    "jindex j ''holder'' = Inr (JStr h)" "jindex j ''tech'' = Inr (JStr t)" "jindex j ''admin'' = Inr (JStr a)"
    "MAX_DOMAINS \<le> length (domains (work c))"
  shows "handle_domain d ''PUT'' None x (Some (Some j)) (Some u) pw c =
     (Inr (st 400 ''Too many'', OResult R_TooManyDomains), c)"
  using assms unfolding handle_domain_def create_domain_def
  by (simp add: domain_eval store_domain_full split del: if_split)

theorem domain_create_quota_witness:
  "handle_domain ''a.example'' ''PUT'' None None (Some (Some example_body)) (Some 6) (Some ''p6'') full_conn =
     (Inr (st 400 ''Too many'', OResult R_TooManyDomains), full_conn)"
  using domain_create_quota [of "''a.example''" full_conn 6 "Some ''p6''" example_body "''H2''" "''H2''" "''H2''" None]
  by (simp add: example_facts full_conn_def)

text \<open>C10. No request on /domains, of any method, operation or body, removes the registry's own domain nic.example: if its row is in the committed and working tables before, it is in both after.\<close>

theorem handle_domain_keeps_nic:
  "preserves (tinv (on_domains (has_domain (''nic.'' @ TLD)))) (handle_domain d m op x b u pw)"
  by (rule handle_domain_keeps(3))

theorem handle_domain_keeps_nic_witness:
  "tinv (on_domains (has_domain (''nic.'' @ TLD))) nic_conn \<and>
   tinv (on_domains (has_domain (''nic.'' @ TLD)))
     (snd (handle_domain ''nic.example'' ''DELETE'' None None None (Some 5) (Some ''p5'') nic_conn))"
proof -
  have h: "tinv (on_domains (has_domain (''nic.'' @ TLD))) nic_conn"
    by (simp add: tinv_def on_domains_def has_domain_def nic_conn_def example_conn_def example_tables_def TLD_def Let_def)
  show ?thesis
    using h handle_domain_keeps_nic [of "''nic.example''" "''DELETE''" None None None "Some 5" "Some ''p5''"]
    by (simp add: preserves_def)
qed

text \<open>C11. Every request on /domains keeps domain names unique and at most one pending transfer per domain, in the committed and in the working tables.\<close>

theorem handle_domain_invariant:
  "preserves (tinv (\<lambda>t. on_domains dnames_ok t \<and> on_transfers pend_ok t)) (handle_domain d m op x b u pw)"
  by (intro preserves_tinv_conj handle_domain_keeps(1,2))

theorem handle_domain_invariant_witness:
  "tinv (\<lambda>t. on_domains dnames_ok t \<and> on_transfers pend_ok t) example_conn \<and>
   tinv (\<lambda>t. on_domains dnames_ok t \<and> on_transfers pend_ok t)
     (snd (handle_domain ''a.example'' ''PUT'' None None (Some (Some example_body)) (Some 6) (Some ''p6'') example_conn))"
proof -
  have h: "tinv (\<lambda>t. on_domains dnames_ok t \<and> on_transfers pend_ok t) example_conn"
    by (simp add: tinv_def on_domains_def on_transfers_def dnames_ok_def pend_ok_def example_conn_def example_tables_def)
  show ?thesis
    using h handle_domain_invariant [of "''a.example''" "''PUT''" None None "Some (Some example_body)" "Some 6" "Some ''p6''"]
    by (simp add: preserves_def)
qed

text \<open>C12. A DELETE by the sponsoring registrar, with its secret, of an existing name other than nic.example answers 202 Accepted, and a GET afterwards answers 404 and changes nothing.\<close>

theorem domain_delete_then_get:
  assumes "in_tld d" "\<not> aborted c" "keyed dname (domains (work c)) d = Some r"
    "authentic (work c) (Some (registrar r)) pw" "d \<noteq> ''nic.'' @ TLD"
  shows "fst (handle_domain d ''DELETE'' None x b (Some (registrar r)) pw c) = Inr (st 202 ''Accepted'', OResult (R_Deleted d)) \<and>
    handle_domain d ''GET'' None x' b' u' pw' (snd (handle_domain d ''DELETE'' None x b (Some (registrar r)) pw c)) =
      (Inr (st 404 ''Not found'', OResult (R_DomainNotFound d)),
       snd (handle_domain d ''DELETE'' None x b (Some (registrar r)) pw c))"
  using assms by (simp add: handle_domain_delete_ok handle_domain_get keyed_filter_key)

theorem domain_delete_then_get_witness:
  "fst (handle_domain ''ex.example'' ''DELETE'' None None None (Some 5) (Some ''p5'') example_conn) =
     Inr (st 202 ''Accepted'', OResult (R_Deleted ''ex.example'')) \<and>
   handle_domain ''ex.example'' ''GET'' None None None None None
     (snd (handle_domain ''ex.example'' ''DELETE'' None None None (Some 5) (Some ''p5'') example_conn)) =
     (Inr (st 404 ''Not found'', OResult (R_DomainNotFound ''ex.example'')),
      snd (handle_domain ''ex.example'' ''DELETE'' None None None (Some 5) (Some ''p5'') example_conn))"
  using domain_delete_then_get [of "''ex.example''" example_conn
      "\<lparr>dname = ''ex.example'', holder = ''H1'', tech = ''H1'', admin = ''H1'', registrar = 5, dcreated = 1\<rparr>"
      "Some ''p5''" None None None None None None]
  by (simp add: example_facts TLD_def)

text \<open>C13. Refused deletions change nothing: a DELETE by a registrar that is not the
  sponsor answers 403 Forbidden, before the secret is checked, and a DELETE of nic.example
  by its own sponsor with the right secret answers 423 Immutable.\<close>

theorem domain_delete_refused:
  assumes "\<not> aborted c"
  shows "(in_tld d \<longrightarrow> keyed dname (domains (work c)) d = Some r \<longrightarrow> u \<noteq> registrar r \<longrightarrow>
           handle_domain d ''DELETE'' None x b (Some u) pw c =
             (Inr (st 403 ''Forbidden'', OResult (R_NotRegistrarOf u d (registrar r))), c)) \<and>
         (keyed dname (domains (work c)) (''nic.'' @ TLD) = Some n \<longrightarrow>
           authentic (work c) (Some (registrar n)) pw \<longrightarrow>
           handle_domain (''nic.'' @ TLD) ''DELETE'' None x b (Some (registrar n)) pw c =
             (Inr (st 423 ''Immutable'', OResult (R_CannotDelete (''nic.'' @ TLD))), c))"
proof (intro conjI impI)
  assume "in_tld d" "keyed dname (domains (work c)) d = Some r" "u \<noteq> registrar r"
  with assms show "handle_domain d ''DELETE'' None x b (Some u) pw c =
    (Inr (st 403 ''Forbidden'', OResult (R_NotRegistrarOf u d (registrar r))), c)"
    unfolding handle_domain_def by (simp add: domain_eval)
next
  assume "keyed dname (domains (work c)) (''nic.'' @ TLD) = Some n" "authentic (work c) (Some (registrar n)) pw"
  with assms show "handle_domain (''nic.'' @ TLD) ''DELETE'' None x b (Some (registrar n)) pw c =
    (Inr (st 423 ''Immutable'', OResult (R_CannotDelete (''nic.'' @ TLD))), c)"
    unfolding handle_domain_def by (simp add: domain_eval delete_domain_def TLD_def lower_def lower_char_def endswith_def)
qed

theorem domain_delete_refused_witness:
  "handle_domain ''ex.example'' ''DELETE'' None None None (Some 6) (Some ''p6'') example_conn =
     (Inr (st 403 ''Forbidden'', OResult (R_NotRegistrarOf 6 ''ex.example'' 5)), example_conn) \<and>
   handle_domain ''nic.example'' ''DELETE'' None None None (Some 5) (Some ''p5'') nic_conn =
     (Inr (st 423 ''Immutable'', OResult (R_CannotDelete ''nic.example'')), nic_conn)"
  using domain_delete_refused [of example_conn "''ex.example''"
      "\<lparr>dname = ''ex.example'', holder = ''H1'', tech = ''H1'', admin = ''H1'', registrar = 5, dcreated = 1\<rparr>"
      6 None None "Some ''p6''"]
    domain_delete_refused [of nic_conn _ _ _ None None "Some ''p5''"
      "\<lparr>dname = ''nic.example'', holder = ''H1'', tech = ''H1'', admin = ''H1'', registrar = 5, dcreated = 0\<rparr>"]
  by (simp add: example_facts TLD_def)

text \<open>C14. A PATCH whose change object names neither contact answers 204 Updated and only commits the transaction.\<close>

theorem domain_patch_nothing:
  assumes "in_tld d" "\<not> aborted c" "authentic (work c) (Some u) pw"
    "d \<in> dom (keyed dname (domains (work c)))" "patch_domain_schema j"
    "jindex j ''change'' = Inr ch" "jget ''tech'' ch = None" "jget ''admin'' ch = None"
  shows "handle_domain d ''PATCH'' None x (Some (Some j)) (Some u) pw c =
     (Inr (st 204 ''Updated'', OResult R_UpdateDone), c\<lparr>committed := work c\<rparr>)"
proof -
  obtain r where r: "keyed dname (domains (work c)) d = Some r" using assms(4) by auto
  show ?thesis
    using assms r unfolding handle_domain_def patch_domain_def
    by (simp add: domain_eval jhas_def split del: if_split)
qed

theorem domain_patch_nothing_witness:
  "handle_domain ''ex.example'' ''PATCH'' None None (Some (Some (JObj [(''change'', JObj [])]))) (Some 6) (Some ''p6'') example_conn =
     (Inr (st 204 ''Updated'', OResult R_UpdateDone), example_conn)"
  using domain_patch_nothing [of "''ex.example''" example_conn 6 "Some ''p6''"
      "JObj [(''change'', JObj [])]" "JObj []" None]
  by (simp add: example_facts patch_domain_schema_def opt_str_field_def)

text \<open>C15. A PATCH by an authenticated registrar that does not sponsor the domain is carried out: 204 Updated and the new technical contact committed (the code's TODO at line 404: no sponsorship check).\<close>

theorem domain_patch_not_sponsor:
  assumes "in_tld d" "\<not> aborted c" "keyed dname (domains (work c)) d = Some r" "u \<noteq> registrar r"
    "authentic (work c) (Some u) pw" "dnames_ok (domains (work c))" "patch_domain_schema j"
    "jindex j ''change'' = Inr ch" "jget ''tech'' ch = Some (JStr t)" "jget ''admin'' ch = None"
  shows "fst (handle_domain d ''PATCH'' None x (Some (Some j)) (Some u) pw c) = Inr (st 204 ''Updated'', OResult R_UpdateDone) \<and>
    keyed dname (domains (committed (snd (handle_domain d ''PATCH'' None x (Some (Some j)) (Some u) pw c)))) d =
      Some (r\<lparr>tech := t\<rparr>)"
  using assms by (simp add: handle_domain_patch_tech domIff keyed_map_update)

theorem domain_patch_not_sponsor_witness:
  "fst (handle_domain ''ex.example'' ''PATCH'' None None (Some (Some (JObj [(''change'', JObj [(''tech'', JStr ''H9'')])])))
      (Some 6) (Some ''p6'') example_conn) = Inr (st 204 ''Updated'', OResult R_UpdateDone) \<and>
   keyed dname (domains (committed (snd (handle_domain ''ex.example'' ''PATCH'' None None
      (Some (Some (JObj [(''change'', JObj [(''tech'', JStr ''H9'')])]))) (Some 6) (Some ''p6'') example_conn)))) ''ex.example'' =
   Some \<lparr>dname = ''ex.example'', holder = ''H1'', tech = ''H9'', admin = ''H1'', registrar = 5, dcreated = 1\<rparr>"
  using domain_patch_not_sponsor [of "''ex.example''" example_conn
      "\<lparr>dname = ''ex.example'', holder = ''H1'', tech = ''H1'', admin = ''H1'', registrar = 5, dcreated = 1\<rparr>"
      6 "Some ''p6''" "JObj [(''change'', JObj [(''tech'', JStr ''H9'')])]" "JObj [(''tech'', JStr ''H9'')]" "''H9''"]
  by (simp add: example_facts dnames_ok_def patch_domain_schema_def opt_str_field_def)

text \<open>C16. The availability operation reports a free name as not registerable (404 with the reason), yet a PUT of that very name creates it: handle_domain never calls registerable.\<close>

theorem domain_put_ignores_registerable:
  assumes "in_tld d" "\<not> aborted c" "registerable d = Inr (False, Some why)" "authentic (work c) (Some u) pw"
    "domain_schema j" "jindex j ''holder'' = Inr (JStr h)" "jindex j ''tech'' = Inr (JStr t)"
    "jindex j ''admin'' = Inr (JStr a)" "length (domains (work c)) < MAX_DOMAINS"
    "d \<notin> dom (keyed dname (domains (work c)))"
  shows "fst (handle_domain d m (Some ''availability'') x b u' pw' c) =
      (if m = ''GET'' then Inr (st 404 ''Not found'', OResult (R_DomainNotFoundInfo d (Some why)))
       else if m = ''HEAD'' then Inr (st 404 ''Not found'', OResult (R_DomainNotFound d))
       else Inr (method_not_supported m, OEmpty)) \<and>
    fst (handle_domain d ''PUT'' None x (Some (Some j)) (Some u) pw c) = Inr (st 201 ''Created'', OResult (R_Created d))"
  using assms
  by (simp add: handle_domain_availability handle_domain_put_created availability_domain_def registry_simps domIff)

theorem domain_put_ignores_registerable_witness:
  "fst (handle_domain ''a.example'' ''GET'' (Some ''availability'') None None None None example_conn) =
     Inr (st 404 ''Not found'', OResult (R_DomainNotFoundInfo ''a.example'' (Some ''Domains must be at least two characters''))) \<and>
   fst (handle_domain ''a.example'' ''PUT'' None None (Some (Some example_body)) (Some 6) (Some ''p6'') example_conn) =
     Inr (st 201 ''Created'', OResult (R_Created ''a.example''))"
  using domain_put_ignores_registerable [of "''a.example''" example_conn "''Domains must be at least two characters''"
      6 "Some ''p6''" example_body "''H2''" "''H2''" "''H2''" "''GET''" None None None None]
  by (simp add: example_facts registerable_def)


text \<open>C30. registerable accepts exactly the names whose first label (the text before the first dot) has at least two characters and does not start with 0.\<close>

theorem registerable_iff:
  "registerable d = Inr (True, None) \<longleftrightarrow>
     (\<exists>l r. d = l @ CHR ''.'' # r \<and> CHR ''.'' \<notin> set l \<and> 2 \<le> length l \<and> hd l \<noteq> CHR ''0'')"
  by (auto simp: registerable_def split_first_Some split_first_None dest: append_sep_unique split: option.split)

theorem registerable_iff_witness:
  "registerable ''ab.example'' = Inr (True, None) \<and> registerable ''0b.example'' \<noteq> Inr (True, None)"
  using registerable_iff [of "''ab.example''"] registerable_iff [of "''0b.example''"]
  by (auto simp: Cons_eq_append_conv)

end
