(* ===== verification/Contact.thy ===== *)
theory Contact
  imports Protocol
begin


text \<open>
  The Contact Lifecycle Engine: \<open>handle_contact\<close> (\<open>registry.py\<close> lines 458--521),
  reached through \<open>/entities/<handle>\<close>. The handle is the string taken from the path;
  the store functions pass it to PostgreSQL, which casts it to the integer column.
  Creation reads the name components of the entity, keeps the last given name and the
  last surname, and stores their concatenation.
\<close>

text \<open>\<open>for component in root\<close>: what Python iterates over. A list gives its
  elements, an object its keys, a string its characters; other values are not
  iterable.\<close>

fun py_iter :: "json \<Rightarrow> exn + json list" where
  "py_iter (JArr cs) = Inr cs"
| "py_iter (JObj kvs) = Inr (map (JStr \<circ> fst) kvs)"
| "py_iter (JStr s) = Inr (map (\<lambda>ch. JStr [ch]) s)"
| "py_iter _ = Inl TypeError"

text \<open>The loop over the name components (lines 485--492): the last \<open>given\<close> and the
  last \<open>surname\<close> win. \<open>given\<close> starts as the empty string and \<open>surname\<close> as
  \<open>None\<close>, which is the decoded JSON \<open>null\<close>.\<close>

fun scan_components :: "json \<Rightarrow> json \<Rightarrow> json list \<Rightarrow> exn + (json \<times> json)" where
  "scan_components g s [] = Inr (g, s)"
| "scan_components g s (c # cs) =
     (case jindex c ''kind'' of
        Inl e \<Rightarrow> Inl e
      | Inr k \<Rightarrow>
        (case (if k = JStr ''given'' then jindex c ''value'' else Inr g) of
           Inl e \<Rightarrow> Inl e
         | Inr g' \<Rightarrow>
           (case jindex c ''kind'' of
              Inl e \<Rightarrow> Inl e
            | Inr k' \<Rightarrow>
              (case (if k' = JStr ''surname'' then jindex c ''value'' else Inr s) of
                 Inl e \<Rightarrow> Inl e
               | Inr s' \<Rightarrow> scan_components g' s' cs))))"

text \<open>\<open>given + " " + surname\<close>: string concatenation, \<open>TypeError\<close> when either
  operand is not a string.\<close>

fun full_name :: "json \<Rightarrow> json \<Rightarrow> exn + string" where
  "full_name (JStr g) (JStr s) = Inr (g @ '' '' @ s)"
| "full_name _ _ = Inl TypeError"

definition put_contact :: "json \<Rightarrow> reply py" where
  "put_contact data =
     bindE (liftE (jindex data ''name'')) (\<lambda>nm.
     bindE (liftE (jindex nm ''components'')) (\<lambda>root.
     bindE (liftE (py_iter root)) (\<lambda>cs.
     bindE (liftE (scan_components (JStr []) JNull cs)) (\<lambda>(given, surname).
     if \<not> py_truthy surname then raiseE (PyException ''No surname???'')
     else bindE (liftE (full_name given surname)) (\<lambda>fullname.
     bindE (store_contact fullname) (\<lambda>_.
     retE (st 201 ''Created'', OResult (R_ContactCreated None nm))))))))"

definition handle_contact :: "string \<Rightarrow> string \<Rightarrow> json option option \<Rightarrow> reply py" where
  "handle_contact contact method body =
     (if method = ''HEAD'' then
        bindE (head_contact contact) (\<lambda>output.
          case output of
            None \<Rightarrow> retE (st 404 ''Not found'', OResult (R_ContactNotFound contact))
          | Some _ \<Rightarrow> retE (st_ok, OResult (R_ContactExists contact)))
      else if method = ''GET'' then
        bindE (info_contact contact) (\<lambda>output.
          case output of
            None \<Rightarrow> retE (st 404 ''Not found'', OResult (R_ContactNotFound contact))
          | Some r \<Rightarrow> retE (st_ok, OContactInfo contact (cname r) (ccreated r)))
      else if method = ''PUT'' then
        (case body of
           None \<Rightarrow> retE (st 400 ''Empty'', OResult R_NoBodyContact)
         | Some input \<Rightarrow>
             (case validate_json input ''contact'' ''put'' of
                Inl e \<Rightarrow>
                  (if e = JSONDecodeError then retE (st 400 ''Invalid'', OResult R_InvalidJsonBodyContact)
                   else raiseE e)
              | Inr data \<Rightarrow>
                  catchE (put_contact data)
                    (\<lambda>e. if e = TooManyContacts then retE (st 400 ''Too many'', OResult R_TooManyContacts)
                         else if e = Conflict then retE (st 500 ''Conflict'', OResult R_InternalConflict)
                         else raiseE e)))
      else if method = ''DELETE'' then
        catchE (bindE (delete_contact contact) (\<lambda>_. retE (st 202 ''Accepted'', OResult (R_Deleted contact))))
          (\<lambda>e. if e = DoesNotExist then retE (st 404 ''Not found'', OResult (R_DoesNotExist contact))
               else if e = Immutable then retE (st 423 ''Immutable'', OResult (R_CannotDelete contact))
               else raiseE e)
      else retE (method_not_supported method, OEmpty))"

text \<open>The reference reading of the component list: the value of the last component of
  each kind, or the initial value when there is none.\<close>

definition comp_value :: "string \<Rightarrow> json \<Rightarrow> json list \<Rightarrow> json" where
  "comp_value k d cs = last (d # map (\<lambda>c. the (jget ''value'' c)) (filter (\<lambda>c. jget ''kind'' c = Some (JStr k)) cs))"

definition example_entity :: "json list \<Rightarrow> json" where
  "example_entity cs = JObj [(''name'', JObj [(''components'', JArr cs)])]"

definition ada :: "json list" where
  "ada = [JObj [(''kind'', JStr ''given''), (''value'', JStr ''Ada'')],
          JObj [(''kind'', JStr ''surname''), (''value'', JStr ''Lovelace'')]]"

definition full_contacts_conn :: conn where
  "full_contacts_conn = (let t = example_tables\<lparr>contacts := replicate MAX_CONTACTS (hd (contacts example_tables))\<rparr>
     in example_conn\<lparr>committed := t, work := t\<rparr>)"

section \<open>Lemmas\<close>

lemma pg_int_one: "pg_int ''1'' = Some 1"
  by (simp add: pg_int_def strip_def signed_def is_space_def is_digit_def digit_val_def)

lemma scan_components_ref:
  "list_all name_component cs \<Longrightarrow>
   scan_components g s cs = Inr (comp_value ''given'' g cs, comp_value ''surname'' s cs)"
proof (induction cs arbitrary: g s)
  case Nil
  then show ?case by (simp add: comp_value_def)
next
  case (Cons c cs)
  then have nc: "name_component c" by simp
  then obtain v where v: "jget ''value'' c = Some (JStr v)"
    by (auto simp: name_component_def str_field_def elim: is_jstr.elims split: option.splits)
  have "jget ''kind'' c = Some (JStr ''given'') \<or> jget ''kind'' c = Some (JStr ''surname'')"
    using nc by (simp add: name_component_def)
  then show ?case using Cons by (auto simp: v comp_value_def registry_simps)
qed

lemmas entity_facts = example_entity_def ada_def entity_schema_def name_component_def str_field_def comp_value_def

lemma handle_contact_keeps:
  "preserves (tinv (on_domains P)) (handle_contact h m b)"
  "preserves (tinv (on_transfers Q)) (handle_contact h m b)"
  "preserves (tinv (on_registrars R)) (handle_contact h m b)"
  unfolding handle_contact_def put_contact_def head_contact_def info_contact_def store_contact_def
    delete_contact_def Let_def
  by (intro preserves_intros)+

lemma frozen_handle_contact: "frozen (handle_contact h m b)"
  unfolding handle_contact_def put_contact_def Let_def by (intro frozen_binds frozen_steps)

lemma handle_contact_codes: "returns code_ok (handle_contact h m b)"
  unfolding handle_contact_def put_contact_def Let_def
  by (intro returns_steps) (simp_all add: codes_simps)

lemma handle_contact_body: "returns (\<lambda>r. \<not> body_missing (snd r)) (handle_contact h m (Some b))"
  unfolding handle_contact_def put_contact_def Let_def option.case
  by (intro returns_steps) simp_all

lemma get_contact_bad_handle:
  "\<not> aborted c \<Longrightarrow> pg_int h = None \<Longrightarrow> handle_contact h ''GET'' b c = (Inl (DbError InvalidTextRepresentation), c\<lparr>aborted := True\<rparr>)"
  unfolding handle_contact_def info_contact_def by (simp add: registry_simps)

text \<open>C17. DELETE /entities/1 removes the registry operator's contact 1 like any other: the guard of delete_contact compares the path string with the integer 1 and is never true.\<close>

theorem contact_one_deletable:
  "\<not> aborted c \<Longrightarrow> 1 \<in> dom (keyed handle (contacts (work c))) \<Longrightarrow>
   handle_contact ''1'' ''DELETE'' b c =
     (Inr (st 202 ''Accepted'', OResult (R_Deleted ''1'')),
      c\<lparr>work := (work c)\<lparr>contacts := filter (\<lambda>r. handle r \<noteq> 1) (contacts (work c))\<rparr>,
        committed := (work c)\<lparr>contacts := filter (\<lambda>r. handle r \<noteq> 1) (contacts (work c))\<rparr>\<rparr>)"
  unfolding handle_contact_def by (simp add: delete_contact_live pg_int_one registry_simps Let_def)

theorem contact_one_deletable_witness:
  "handle_contact ''1'' ''DELETE'' None example_conn =
     (Inr (st 202 ''Accepted'', OResult (R_Deleted ''1'')),
      example_conn\<lparr>work := example_tables\<lparr>contacts := []\<rparr>, committed := example_tables\<lparr>contacts := []\<rparr>\<rparr>)"
  using contact_one_deletable [of example_conn None]
  by (simp add: example_conn_def example_tables_def keyed_def)

text \<open>C18. A PUT of a valid entity whose last given name is g and last surname a non-empty s, below the quota, answers 201 and commits a new contact named g followed by a blank and s under the next value of the handle sequence; the answer carries no handle.\<close>

theorem contact_create:
  assumes "\<not> aborted c" "entity_schema j" "jindex j ''name'' = Inr nm" "jindex nm ''components'' = Inr (JArr cs)"
    "comp_value ''given'' (JStr []) cs = JStr g" "comp_value ''surname'' JNull cs = JStr s" "s \<noteq> []"
    "length (contacts (work c)) < MAX_CONTACTS"
  shows "handle_contact h ''PUT'' (Some (Some j)) c =
    (Inr (st 201 ''Created'', OResult (R_ContactCreated None nm)),
     c\<lparr>work := (work c)\<lparr>contacts := contacts (work c) @ [\<lparr>handle = contact_seq c, cname = g @ '' '' @ s, ccreated = now c\<rparr>]\<rparr>,
       committed := (work c)\<lparr>contacts := contacts (work c) @ [\<lparr>handle = contact_seq c, cname = g @ '' '' @ s, ccreated = now c\<rparr>]\<rparr>,
       contact_seq := contact_seq c + 1\<rparr>)"
proof -
  have "list_all name_component cs"
    using assms(2-4) by (auto simp: entity_schema_def jindex_Inr split: option.splits json.splits)
  then have "scan_components (JStr []) JNull cs = Inr (JStr g, JStr s)"
    using assms(5,6) by (simp add: scan_components_ref)
  then show ?thesis
    using assms unfolding handle_contact_def put_contact_def
    by (simp add: validate_json_def store_contact_new registry_simps split del: if_split)
qed

theorem contact_create_witness:
  "handle_contact ''new'' ''PUT'' (Some (Some (example_entity ada))) example_conn =
    (Inr (st 201 ''Created'', OResult (R_ContactCreated None (JObj [(''components'', JArr ada)]))),
     example_conn\<lparr>work := example_tables\<lparr>contacts := contacts example_tables @ [\<lparr>handle = 2, cname = ''Ada Lovelace'', ccreated = 10\<rparr>]\<rparr>,
       committed := example_tables\<lparr>contacts := contacts example_tables @ [\<lparr>handle = 2, cname = ''Ada Lovelace'', ccreated = 10\<rparr>]\<rparr>,
       contact_seq := 3\<rparr>)"
  using contact_create [of example_conn "example_entity ada" "JObj [(''components'', JArr ada)]" ada "''Ada''" "''Lovelace''" "''new''"]
  by (simp add: entity_facts example_conn_def example_tables_def MAX_CONTACTS_def)

text \<open>C19. A valid entity without a (non-empty) surname makes the handler raise the bare Exception of line 494, which no except clause catches, and changes nothing.\<close>

theorem contact_no_surname:
  assumes "\<not> aborted c" "entity_schema j" "jindex j ''name'' = Inr nm" "jindex nm ''components'' = Inr (JArr cs)"
    "\<not> py_truthy (comp_value ''surname'' JNull cs)"
  shows "handle_contact h ''PUT'' (Some (Some j)) c = (Inl (PyException ''No surname???''), c)"
proof -
  have "list_all name_component cs"
    using assms(2-4) by (auto simp: entity_schema_def jindex_Inr split: option.splits json.splits)
  then show ?thesis
    using assms unfolding handle_contact_def put_contact_def
    by (simp add: validate_json_def scan_components_ref registry_simps split del: if_split)
qed

theorem contact_no_surname_witness:
  "handle_contact ''new'' ''PUT'' (Some (Some (example_entity [hd ada]))) example_conn =
     (Inl (PyException ''No surname???''), example_conn)"
  using contact_no_surname [of example_conn "example_entity [hd ada]" "JObj [(''components'', JArr [hd ada])]" "[hd ada]" "''new''"]
  by (simp add: entity_facts example_conn_def)

text \<open>C20. A body that decodes but violates the entity schema makes the handler raise ValidationError: the contact PUT only catches JSONDecodeError.\<close>

theorem contact_invalid_uncaught:
  "\<not> entity_schema j \<Longrightarrow> handle_contact h ''PUT'' (Some (Some j)) c = (Inl ValidationError, c)"
  unfolding handle_contact_def by (simp add: validate_json_def registry_simps)

theorem contact_invalid_uncaught_witness:
  "handle_contact ''new'' ''PUT'' (Some (Some (JObj []))) example_conn = (Inl ValidationError, example_conn)"
  using contact_invalid_uncaught [of "JObj []" "''new''" example_conn]
  by (simp add: entity_schema_def)

text \<open>C21. GET or HEAD of a handle that is not an integer raises the database error of the cast and leaves the transaction aborted.\<close>

theorem contact_bad_handle:
  "\<not> aborted c \<Longrightarrow> pg_int h = None \<Longrightarrow> m = ''GET'' \<or> m = ''HEAD'' \<Longrightarrow>
   handle_contact h m b c = (Inl (DbError InvalidTextRepresentation), c\<lparr>aborted := True\<rparr>)"
  unfolding handle_contact_def head_contact_def info_contact_def by (auto simp: registry_simps)

theorem contact_bad_handle_witness:
  "handle_contact ''abc'' ''GET'' None example_conn = (Inl (DbError InvalidTextRepresentation), example_conn\<lparr>aborted := True\<rparr>)"
  using contact_bad_handle [of example_conn "''abc''" "''GET''" None]
  by (simp add: example_conn_def pg_int_def strip_def signed_def is_space_def is_digit_def)

text \<open>C22. With MAX_CONTACTS rows in the contacts table, a valid contact PUT answers 400 Too many and changes nothing.\<close>

theorem contact_quota:
  "\<not> aborted c \<Longrightarrow> entity_schema j \<Longrightarrow> jindex j ''name'' = Inr nm \<Longrightarrow> jindex nm ''components'' = Inr (JArr cs) \<Longrightarrow>
   comp_value ''given'' (JStr []) cs = JStr g \<Longrightarrow> comp_value ''surname'' JNull cs = JStr s \<Longrightarrow> s \<noteq> [] \<Longrightarrow>
   MAX_CONTACTS \<le> length (contacts (work c)) \<Longrightarrow>
   handle_contact h ''PUT'' (Some (Some j)) c = (Inr (st 400 ''Too many'', OResult R_TooManyContacts), c)"
  unfolding handle_contact_def put_contact_def
  by (auto simp: validate_json_def store_contact_full registry_simps entity_schema_def jindex_Inr scan_components_ref
      split: option.splits json.splits)

theorem contact_quota_witness:
  "handle_contact ''new'' ''PUT'' (Some (Some (example_entity ada))) full_contacts_conn =
     (Inr (st 400 ''Too many'', OResult R_TooManyContacts), full_contacts_conn)"
  using contact_quota [of full_contacts_conn "example_entity ada" "JObj [(''components'', JArr ada)]" ada "''Ada''" "''Lovelace''" "''new''"]
  by (simp add: entity_facts full_contacts_conn_def example_conn_def example_tables_def MAX_CONTACTS_def Let_def)

end
