(* ===== verification/Router.thy ===== *)
theory Router
  imports Domain Contact
begin

text \<open>
  The Request Router and Protocol Mapper: \<open>dispatch\<close> (\<open>registry.py\<close> lines
  523--599) and \<open>send\<close> (lines 44--62), and the server seen as a machine whose steps
  are requests. A request carries the WSGI environment the code reads: method, path,
  the optional \<open>RPP-Cltrid\<close> and \<open>Authorization\<close> headers, \<open>CONTENT_LENGTH\<close>
  and the body stream. Two library functions are parameters of the model, so that every
  lemma holds whatever they do: \<open>base64.b64decode(...).decode()\<close> (\<open>b64decode\<close>, an
  error or the decoded text) and \<open>json.loads\<close> (\<open>loads\<close>, \<open>None\<close> when it raises
  \<open>JSONDecodeError\<close>). The server transaction id, \<open>random.randint(0, 999999)\<close>, is an
  argument. An exception that leaves \<open>dispatch\<close> is the \<open>Inl\<close> result: the WSGI
  server then answers 500 by itself. The JSON text of the answer and its
  \<open>Content-Length\<close> are not modelled; the response keeps the status, the correlation
  headers, the output dictionary and the message \<open>send\<close> writes to the log.
\<close>

text \<open>A request: the members of the WSGI environment that dispatch reads.\<close>

record request =
  rq_method :: string
  rq_path :: string
  rq_cltrid :: "string option"
  rq_length :: "string option"
  rq_auth :: "string option"
  rq_input :: string

text \<open>What send hands to the server: the status, the headers it builds, the output dictionary;
  and the message it writes to the log on the way (the logger's effect, kept with the answer).\<close>

record response =
  rstatus :: status
  rheaders :: "(string \<times> string) list"
  rbody :: reply_out
  rlogged :: string

text \<open>Python's str() of a natural number.\<close>

function (domintros) nat_str :: "nat \<Rightarrow> string" where
  "nat_str n = (if n < 10 then [char_of (48 + n)] else nat_str (n div 10) @ [char_of (48 + n mod 10)])"
  by pat_completeness auto

termination nat_str
  by (relation "measure id") auto

declare nat_str.simps [simp del]

text \<open>The line send writes to the log (lines 52--57): the server transaction id, or \<open>(None)\<close> when the status carries none.\<close>

definition log_line :: "nat option \<Rightarrow> string" where
  "log_line svtrid = ''Completing transaction '' @ (case svtrid of None \<Rightarrow> ''(None)'' | Some n \<Rightarrow> nat_str n)"

text \<open>\<open>send\<close>: the correlation headers are added when the status carries the ids. The \<open>Content-Length\<close> header, the length of the JSON text, is left out with the serialization itself.\<close>

definition send :: "status \<Rightarrow> string option \<Rightarrow> nat option \<Rightarrow> reply_out \<Rightarrow> response" where
  "send s cltrid svtrid output =
     \<lparr>rstatus = s,
      rheaders = [(''Content-Type'', ''application/rpp+json'')] @
        (case svtrid of None \<Rightarrow> [] | Some n \<Rightarrow> [(''RPP-Svtrid'', nat_str n)]) @
        (case cltrid of None \<Rightarrow> [] | Some t \<Rightarrow> [(''RPP-Cltrid'', t)]),
      rbody = output, rlogged = log_line svtrid\<rparr>"

text \<open>The HTTP status line of send (line 60).\<close>

definition status_line :: "response \<Rightarrow> string" where
  "status_line r = nat_str (code (rstatus r)) @ '' '' @ message (rstatus r)"

text \<open>body.read(n): a negative size reads the whole stream.\<close>

definition py_read :: "int \<Rightarrow> string \<Rightarrow> string" where
  "py_read n s = (if n < 0 then s else take (nat n) s)"

text \<open>int(environ.get('CONTENT_LENGTH', 0)), with 0 when int() raises ValueError.\<close>

definition body_size :: "string option \<Rightarrow> int" where
  "body_size l = (case l of None \<Rightarrow> 0 | Some v \<Rightarrow> (case py_int v of Some n \<Rightarrow> n | None \<Rightarrow> 0))"

text \<open>The Basic authorization header (lines 542--551): user and password, or none; int(user) raises ValueError.\<close>

definition credentials ::
  "(string \<Rightarrow> exn + string) \<Rightarrow> string option \<Rightarrow> exn + (registrar_id option \<times> string option)" where
  "credentials b64decode h =
     (case h of
        None \<Rightarrow> Inr (None, None)
      | Some header \<Rightarrow>
          if header \<noteq> [] \<and> startswith header ''Basic'' then
            (case b64decode (drop 6 header) of
               Inl e \<Rightarrow> Inl e
             | Inr allauth \<Rightarrow>
                 (let auth = split_on CHR '':'' allauth in
                  if length auth = 2 then
                    (case py_int (auth ! 0) of
                       None \<Rightarrow> Inl ValueError
                     | Some u \<Rightarrow> Inr (Some u, Some (auth ! 1)))
                  else Inr (None, None)))
          else Inr (None, None))"

text \<open>The split of the rest of a /domains/ path into name, operation and extra (lines 558--572); Inl is the 'Invalid path syntax' answer.\<close>

definition route_domain :: "string \<Rightarrow> unit + (domain_name \<times> string option \<times> string option)" where
  "route_domain domain =
     (if CHR ''/'' \<in> set domain then
        (let array = split_on CHR ''/'' domain in
         if length array > 3 then Inl ()
         else Inr (array ! 0, if length array > 1 then Some (array ! 1) else None,
                   if length array > 2 then Some (array ! 2) else None))
      else Inr (domain, None, None))"

text \<open>dispatch: the path test, the credentials, and the three routes.\<close>

definition dispatch ::
  "(string \<Rightarrow> exn + string) \<Rightarrow> (string \<Rightarrow> json option) \<Rightarrow> nat \<Rightarrow> request \<Rightarrow> response py" where
  "dispatch b64decode loads svtrid rq =
     (let method = rq_method rq; path = rq_path rq; cltrid = rq_cltrid rq in
      if \<not> startswith path ''/domains/'' \<and> \<not> startswith path ''/entities/'' \<and> \<not> startswith path ''/list-domains'' then
        retE (send (st 400 ''Path must start with /domains, /entities or be /list-domains'') None None OEmpty)
      else
      let body = Some (loads (py_read (body_size (rq_length rq)) (rq_input rq))) in
      bindE (liftE (credentials b64decode (rq_auth rq))) (\<lambda>(user, password).
      if path = ''/list-domains'' then
        (if method = ''GET'' then bindE list_domains (\<lambda>l. retE (send st_ok None None (OList l)))
         else retE (send (st 405 (''Method '' @ method @ '' not supported for /list-domains'')) None None OEmpty))
      else if startswith path ''/domains/'' then
        (let domain = removeprefix path ''/domains/'' in
         if domain = [] then raiseE (PyException ''Empty domain'')
         else case route_domain domain of
           Inl _ \<Rightarrow> retE (send (st 400 ''Invalid path syntax'') None None (OResult (R_InvalidPathSyntax domain)))
         | Inr (d, operation, extra) \<Rightarrow>
             bindE (handle_domain d method operation extra body user password) (\<lambda>(s, output).
             retE (send s cltrid (Some svtrid) output)))
      else if startswith path ''/entities/'' then
        bindE (handle_contact (removeprefix path ''/entities/'') method body) (\<lambda>(s, output).
        retE (send s cltrid (Some svtrid) output))
      else retE (send (st 500 ''Internal error, should not happen'') None None OEmpty)))"

text \<open>'/'.join(parts), the inverse of str.split('/') that the routing lemmas use.\<close>

definition join_on :: "char \<Rightarrow> string list \<Rightarrow> string" where
  "join_on c ps = concat (tl (concat (map (\<lambda>p. [[c], p]) ps)))"

text \<open>A worked-example request without credentials or body.\<close>

definition example_request :: "string \<Rightarrow> string \<Rightarrow> request" where
  "example_request m p = \<lparr>rq_method = m, rq_path = p, rq_cltrid = Some ''c1'', rq_length = None,
                          rq_auth = None, rq_input = []\<rparr>"

fun run_requests ::
  "(string \<Rightarrow> exn + string) \<Rightarrow> (string \<Rightarrow> json option) \<Rightarrow> (nat \<times> request) list \<Rightarrow> conn \<Rightarrow> conn" where
  "run_requests b64 loads [] c = c"
| "run_requests b64 loads ((sv, rq) # rqs) c = run_requests b64 loads rqs (snd (dispatch b64 loads sv rq c))"

inductive reachable :: "(string \<Rightarrow> exn + string) \<Rightarrow> (string \<Rightarrow> json option) \<Rightarrow> conn \<Rightarrow> conn \<Rightarrow> bool"
  for b64 loads c0 where
  reach_init: "reachable b64 loads c0 c0"
| reach_step: "reachable b64 loads c0 c \<Longrightarrow> reachable b64 loads c0 (snd (dispatch b64 loads sv rq c))"

definition registry_inv :: "registrar_row list \<Rightarrow> tables \<Rightarrow> bool" where
  "registry_inv R t \<longleftrightarrow> dnames_ok (domains t) \<and> pend_ok (transfers t) \<and>
     has_domain (''nic.'' @ TLD) (domains t) \<and> registrars t = R"

text \<open>The worked end-to-end requests of the specification (section 8): the body text B decodes to a creation body, and the Basic header carries the credentials in clear (the decoder is the identity).\<close>

definition e2e_loads :: "string \<Rightarrow> json option" where
  "e2e_loads s = (if s = ''B'' then Some example_body else None)"

definition e2e_request :: "string \<Rightarrow> string \<Rightarrow> string option \<Rightarrow> request" where
  "e2e_request m p a = \<lparr>rq_method = m, rq_path = p, rq_cltrid = None, rq_length = Some ''1'',
                          rq_auth = a, rq_input = ''B''\<rparr>"

text \<open>The registry after registrar 5 created new.example, and after the transfer of ex.example to 6 was approved.\<close>

definition e2e_conn :: conn where
  "e2e_conn = example_conn\<lparr>work := example_tables\<lparr>domains := domains example_tables @ [new_domain_row example_conn ''new.example'' ''H2'' ''H2'' ''H2'' 5]\<rparr>,
       committed := example_tables\<lparr>domains := domains example_tables @ [new_domain_row example_conn ''new.example'' ''H2'' ''H2'' ''H2'' 5]\<rparr>\<rparr>"

definition approved_conn :: conn where
  "approved_conn =
     (let w = (work example_pending)\<lparr>transfers := [example_transfer\<lparr>completed := True\<rparr>],
                domains := [example_row\<lparr>registrar := 6\<rparr>]\<rparr>
      in example_pending\<lparr>work := w, committed := w\<rparr>)"

section \<open>Lemmas\<close>

subsection \<open>Parsing\<close>

lemma split_on_no_sep: "c \<notin> set p \<Longrightarrow> split_on c p = [p]"
  by (induction p) auto

lemma split_on_append_sep: "c \<notin> set p \<Longrightarrow> split_on c (p @ c # r) = p # split_on c r"
  by (induction p) auto

lemma join_on_Cons: "ps \<noteq> [] \<Longrightarrow> join_on c (p # ps) = p @ c # join_on c ps"
  by (cases ps) (simp_all add: join_on_def)

lemma join_on_single [simp]: "join_on c [p] = p"
  by (simp add: join_on_def)

lemma split_on_join: "\<forall>p\<in>set ps. c \<notin> set p \<Longrightarrow> ps \<noteq> [] \<Longrightarrow> split_on c (join_on c ps) = ps"
proof (induction ps)
  case Nil
  then show ?case by simp
next
  case (Cons p ps)
  then show ?case
    by (cases "ps = []") (simp_all add: split_on_no_sep join_on_Cons split_on_append_sep)
qed

lemma route_domain_path:
  "CHR ''/'' \<notin> set d \<Longrightarrow> CHR ''/'' \<notin> set op \<Longrightarrow> CHR ''/'' \<notin> set x \<Longrightarrow>
   route_domain (join_on CHR ''/'' [d, op, x]) = Inr (d, Some op, Some x)"
  using split_on_join [of "[d, op, x]" "CHR ''/''"]
  by (simp add: route_domain_def join_on_def Let_def)

lemma startswith_append: "startswith (p @ r) p"
  by (simp add: startswith_def)

lemma removeprefix_append: "removeprefix (p @ r) p = r"
  by (simp add: removeprefix_def startswith_append)

lemma join_on_domain_path:
  "join_on CHR ''/'' [d, op, x] = d @ CHR ''/'' # op @ CHR ''/'' # x"
  by (simp add: join_on_def)

subsection \<open>Routing\<close>

lemma bind_res_send [simp]:
  "bind_res r (\<lambda>(s, output). retE (g s output)) = (map_sum id (\<lambda>(s, output). g s output) (fst r), snd r)"
  by (cases r; cases "fst r") (auto simp: retE_def)

lemma path_domains:
  assumes "startswith p ''/domains/''"
  shows "\<not> startswith p ''/entities/''" "\<not> startswith p ''/list-domains''" "p \<noteq> ''/list-domains''"
  using assms by (auto simp: startswith_def dest: arg_cong [where f = "take 9"])

lemma path_list_domains:
  assumes "startswith p ''/list-domains''"
  shows "\<not> startswith p ''/domains/''" "\<not> startswith p ''/entities/''"
  using assms by (auto simp: startswith_def dest: arg_cong [where f = "take 9"] arg_cong [where f = "take 10"])

lemma path_entities:
  assumes "startswith p ''/entities/''"
  shows "\<not> startswith p ''/domains/''" "\<not> startswith p ''/list-domains''" "p \<noteq> ''/list-domains''"
  using assms by (auto simp: startswith_def dest: arg_cong [where f = "take 9"] arg_cong [where f = "take 10"])

lemma dispatch_domain:
  assumes "startswith (rq_path rq) ''/domains/''" "removeprefix (rq_path rq) ''/domains/'' = r" "r \<noteq> []"
    "credentials b64 (rq_auth rq) = Inr (u, pw)" "route_domain r = Inr (d, op, x)"
  shows "dispatch b64 loads sv rq c =
    (map_sum id (\<lambda>(s, output). send s (rq_cltrid rq) (Some sv) output)
       (fst (handle_domain d (rq_method rq) op x (Some (loads (py_read (body_size (rq_length rq)) (rq_input rq)))) u pw c)),
     snd (handle_domain d (rq_method rq) op x (Some (loads (py_read (body_size (rq_length rq)) (rq_input rq)))) u pw c))"
  using assms path_domains [OF assms(1)] unfolding dispatch_def by (simp add: registry_simps Let_def)

lemma dispatch_entities:
  assumes "startswith (rq_path rq) ''/entities/''" "credentials b64 (rq_auth rq) = Inr cr"
  shows "dispatch b64 loads sv rq c =
    (map_sum id (\<lambda>(s, output). send s (rq_cltrid rq) (Some sv) output)
       (fst (handle_contact (removeprefix (rq_path rq) ''/entities/'') (rq_method rq) (Some (loads (py_read (body_size (rq_length rq)) (rq_input rq)))) c)),
     snd (handle_contact (removeprefix (rq_path rq) ''/entities/'') (rq_method rq) (Some (loads (py_read (body_size (rq_length rq)) (rq_input rq)))) c))"
  using assms path_entities [OF assms(1)] unfolding dispatch_def by (simp add: registry_simps Let_def split: prod.split)

subsection \<open>The server as a machine\<close>

lemma frozen_dispatch: "frozen (dispatch b64 loads sv rq)"
  unfolding dispatch_def Let_def by (intro frozen_binds frozen_steps frozen_handle_domain frozen_handle_contact)

lemma run_requests_frozen: "aborted c \<Longrightarrow> run_requests b64 loads rqs c = c"
  using frozen_dispatch by (induction rqs) (auto simp: frozen_def)

lemma preserves_dispatch:
  assumes "\<And>d m op x b u pw. preserves I (handle_domain d m op x b u pw)" "\<And>h m b. preserves I (handle_contact h m b)"
    "preserves I list_domains"
  shows "preserves I (dispatch b64 loads sv rq)"
  unfolding dispatch_def Let_def by (intro preserves_intros assms)

lemma registry_inv_conj:
  "registry_inv R = (\<lambda>t. on_domains dnames_ok t \<and> on_transfers pend_ok t \<and>
     on_domains (has_domain (''nic.'' @ TLD)) t \<and> on_registrars (\<lambda>rs. rs = R) t)"
  by (auto simp: fun_eq_iff registry_inv_def on_domains_def on_transfers_def on_registrars_def)

lemma dispatch_registry_inv: "preserves (tinv (registry_inv R)) (dispatch b64 loads sv rq)"
  unfolding registry_inv_conj
  by (intro preserves_tinv_conj preserves_dispatch handle_domain_keeps handle_contact_keeps preserves_list_domains)

subsection \<open>The worked scenarios\<close>

lemma e2e_read: "py_read (body_size (Some ''1'')) ''B'' = ''B''"
  by (simp add: body_size_def py_read_def py_int_def py_strip_def py_space_def strip_def signed_def is_space_def is_digit_def digit_val_def)

lemma e2e_credentials:
  "credentials Inr (Some ''Basic 5:p5'') = Inr (Some 5, Some ''p5'')"
  "credentials Inr (Some ''Basic 6:p6'') = Inr (Some 6, Some ''p6'')"
  "credentials Inr None = Inr (None, None)"
  by (simp_all add: credentials_def startswith_def py_int_def py_strip_def py_space_def strip_def signed_def is_space_def is_digit_def digit_val_def)

lemma e2e_route: "route_domain ''new.example'' = Inr (''new.example'', None, None)"
  by (simp add: route_domain_def)

lemma e2e_dispatch:
  "credentials Inr a = Inr (u, pw) \<Longrightarrow>
   dispatch Inr e2e_loads sv (e2e_request m ''/domains/new.example'' a) c =
    (map_sum id (\<lambda>(s, output). send s None (Some sv) output)
       (fst (handle_domain ''new.example'' m None None (Some (Some example_body)) u pw c)),
     snd (handle_domain ''new.example'' m None None (Some (Some example_body)) u pw c))"
  by (simp add: dispatch_domain [where r = "''new.example''"] startswith_def removeprefix_def e2e_request_def
      e2e_route e2e_read e2e_loads_def)

lemma e2e_put:
  "handle_domain ''new.example'' ''PUT'' None None (Some (Some example_body)) (Some 5) (Some ''p5'') example_conn =
    (Inr (st 201 ''Created'', OResult (R_Created ''new.example'')), e2e_conn)"
  using handle_domain_put_created [of "''new.example''" example_conn 5 "Some ''p5''" example_body "''H2''" "''H2''" "''H2''" None]
  by (simp add: example_facts e2e_conn_def in_tld_def lower_def lower_char_def endswith_def TLD_def)

lemma e2e_dispatch_path:
  "credentials Inr a = Inr (u, pw) \<Longrightarrow> r \<noteq> [] \<Longrightarrow> route_domain r = Inr (d, op, x) \<Longrightarrow>
   dispatch Inr e2e_loads sv (e2e_request m (''/domains/'' @ r) a) c =
    (map_sum id (\<lambda>(s, output). send s None (Some sv) output)
       (fst (handle_domain d m op x (Some (Some example_body)) u pw c)),
     snd (handle_domain d m op x (Some (Some example_body)) u pw c))"
proof -
  assume a: "credentials Inr a = Inr (u, pw)" "r \<noteq> []" "route_domain r = Inr (d, op, x)"
  have s: "startswith (rq_path (e2e_request m (''/domains/'' @ r) a)) ''/domains/''"
    "removeprefix (rq_path (e2e_request m (''/domains/'' @ r) a)) ''/domains/'' = r"
    "credentials Inr (rq_auth (e2e_request m (''/domains/'' @ r) a)) = Inr (u, pw)"
    using a(1) by (simp_all only: e2e_request_def request.select_convs startswith_append removeprefix_append)
  show ?thesis
    by (subst dispatch_domain [OF s(1,2) a(2) s(3) a(3)]) (simp add: e2e_request_def e2e_read e2e_loads_def)
qed

lemma e2e_transfer_routes:
  "route_domain ''ex.example/transfer'' = Inr (''ex.example'', Some ''transfer'', None)"
  "route_domain ''ex.example/transfer/approval'' = Inr (''ex.example'', Some ''transfer'', Some ''approval'')"
  "route_domain ''ex.example'' = Inr (''ex.example'', None, None)"
  by (simp_all add: route_domain_def)

lemma e2e_dispatch_transfer:
  "credentials Inr a = Inr (u, pw) \<Longrightarrow> r \<noteq> [] \<Longrightarrow> route_domain r = Inr (''ex.example'', Some ''transfer'', x) \<Longrightarrow>
   dispatch Inr e2e_loads sv (e2e_request m (''/domains/'' @ r) a) c =
    (map_sum id (\<lambda>(s, output). send s None (Some sv) output) (fst (transfer_domain ''ex.example'' m x u pw c)),
     snd (transfer_domain ''ex.example'' m x u pw c))"
proof -
  assume a: "credentials Inr a = Inr (u, pw)" "r \<noteq> []" "route_domain r = Inr (''ex.example'', Some ''transfer'', x)"
  show ?thesis by (simp only: e2e_dispatch_path [OF a] handle_domain_transfer [OF example_in_tld(2)])
qed

lemma e2e_transfer_start:
  "transfer_domain ''ex.example'' ''POST'' None (Some 6) (Some ''p6'') example_conn =
      (Inr (st_ok, OResult (R_TransferStarted ''ex.example'' 6)), example_pending)"
proof -
  have "live example_conn 6 (Some ''p6'') ''ex.example'' example_row"
    by (simp add: live_def authentic_def keyed_def example_conn_def example_tables_def example_row_def)
  then show ?thesis
    by (simp add: transfer_request_new example_row_def example_conn_def example_tables_def example_pending_def
        example_transfer_def Let_def)
qed

lemma e2e_approve:
  "transfer_domain ''ex.example'' ''POST'' (Some ''approval'') (Some 5) (Some ''p5'') example_pending =
      (Inr (st_ok, OResult (R_Approved ''ex.example'')), approved_conn)"
  using transfer_approve [OF live_example_pending _ example_pending_find example_pending_invs]
  by (simp add: example_row_def approved_conn_def example_pending_def example_conn_def example_tables_def
      example_transfer_def pending_def Let_def)

lemma approved_conn_row:
  "keyed dname (domains (work approved_conn)) ''ex.example'' = Some (example_row\<lparr>registrar := 6\<rparr>)"
  "\<not> aborted approved_conn"
  by (simp_all add: approved_conn_def example_pending_def example_conn_def example_row_def keyed_def Let_def)

lemma returns_send:
  "returns code_ok m \<Longrightarrow>
   returns (\<lambda>r. code (rstatus r) \<in> spec_codes) (bindE m (\<lambda>(s, output). retE (send s cl sv output)))"
  by (rule returns_bindE_post [where Q = code_ok]) (auto intro!: returns_retE simp: send_def)

lemma returns_send_post:
  "returns Q m \<Longrightarrow> (\<And>s output. Q (s, output) \<Longrightarrow> P (send s cl sv output)) \<Longrightarrow>
   returns P (bindE m (\<lambda>(s, output). retE (send s cl sv output)))"
  by (rule returns_bindE_post [where Q = Q]) (auto intro!: returns_retE)

subsection \<open>Claims\<close>

text \<open>C23. A request on /domains/<d>/<op>/<x>, with no slash inside the three parts, runs handle_domain on d with operation op and extra x, the body read from the request and the credentials of the header, and sends its status and output with the client's and the server's transaction ids.\<close>

theorem router_domain_path:
  assumes "d \<noteq> []" "CHR ''/'' \<notin> set d" "CHR ''/'' \<notin> set op" "CHR ''/'' \<notin> set x"
    "rq_path rq = ''/domains/'' @ join_on CHR ''/'' [d, op, x]" "credentials b64 (rq_auth rq) = Inr (u, pw)"
  shows "dispatch b64 loads sv rq c =
    (map_sum id (\<lambda>(s, output). send s (rq_cltrid rq) (Some sv) output)
       (fst (handle_domain d (rq_method rq) (Some op) (Some x) (Some (loads (py_read (body_size (rq_length rq)) (rq_input rq)))) u pw c)),
     snd (handle_domain d (rq_method rq) (Some op) (Some x) (Some (loads (py_read (body_size (rq_length rq)) (rq_input rq)))) u pw c))"
proof (rule dispatch_domain)
  show "startswith (rq_path rq) ''/domains/''" "removeprefix (rq_path rq) ''/domains/'' = join_on CHR ''/'' [d, op, x]"
    using assms(5) by (simp_all only: startswith_append removeprefix_append)
  show "join_on CHR ''/'' [d, op, x] \<noteq> []" using assms(1) by (simp add: join_on_domain_path)
  show "route_domain (join_on CHR ''/'' [d, op, x]) = Inr (d, Some op, Some x)"
    using assms(2-4) by (rule route_domain_path)
qed (use assms(6) in simp)

theorem router_domain_path_witness:
  "dispatch (\<lambda>_. Inl ValueError) (\<lambda>_. None) 7 (example_request ''GET'' ''/domains/ex.example/transfer/approval'') example_conn =
    (map_sum id (\<lambda>(s, output). send s (Some ''c1'') (Some 7) output)
       (fst (handle_domain ''ex.example'' ''GET'' (Some ''transfer'') (Some ''approval'') (Some None) None None example_conn)),
     snd (handle_domain ''ex.example'' ''GET'' (Some ''transfer'') (Some ''approval'') (Some None) None None example_conn))"
  using router_domain_path [of "''ex.example''" "''transfer''" "''approval''"
      "example_request ''GET'' ''/domains/ex.example/transfer/approval''" "\<lambda>_. Inl ValueError" None None "\<lambda>_. None" 7 example_conn]
  by (simp add: example_request_def join_on_def credentials_def body_size_def py_read_def)

text \<open>C24. Two malformed paths are not answered with the 400 of the path grammar: a path that
  starts with /list-domains without being /list-domains (such as /list-domainsX) is answered
  500 'Internal error, should not happen', and the path /domains/ makes dispatch raise the
  bare exception 'Empty domain'. Neither changes the connection.\<close>

theorem router_malformed_paths:
  assumes "credentials b64 (rq_auth rq) = Inr cr"
  shows "(startswith (rq_path rq) ''/list-domains'' \<and> rq_path rq \<noteq> ''/list-domains'' \<longrightarrow>
      dispatch b64 loads sv rq c = (Inr (send (st 500 ''Internal error, should not happen'') None None OEmpty), c)) \<and>
    (rq_path rq = ''/domains/'' \<longrightarrow> dispatch b64 loads sv rq c = (Inl (PyException ''Empty domain''), c))"
proof (intro conjI impI)
  assume p: "startswith (rq_path rq) ''/list-domains'' \<and> rq_path rq \<noteq> ''/list-domains''"
  then show "dispatch b64 loads sv rq c = (Inr (send (st 500 ''Internal error, should not happen'') None None OEmpty), c)"
    using assms path_list_domains [of "rq_path rq"] unfolding dispatch_def
    by (simp add: registry_simps Let_def split: prod.split)
next
  assume "rq_path rq = ''/domains/''"
  then show "dispatch b64 loads sv rq c = (Inl (PyException ''Empty domain''), c)"
    using assms unfolding dispatch_def
    by (simp add: registry_simps Let_def startswith_def removeprefix_def split: prod.split)
qed

theorem router_malformed_paths_witness:
  "dispatch (\<lambda>_. Inl ValueError) (\<lambda>_. None) 7 (example_request ''GET'' ''/list-domainsX'') example_conn =
     (Inr (send (st 500 ''Internal error, should not happen'') None None OEmpty), example_conn) \<and>
   dispatch (\<lambda>_. Inl ValueError) (\<lambda>_. None) 7 (example_request ''PUT'' ''/domains/'') example_conn =
     (Inl (PyException ''Empty domain''), example_conn)"
  using router_malformed_paths [of "\<lambda>_. Inl ValueError" "example_request ''GET'' ''/list-domainsX''" "(None, None)"
      "\<lambda>_. None" 7 example_conn]
    router_malformed_paths [of "\<lambda>_. Inl ValueError" "example_request ''PUT'' ''/domains/''" "(None, None)"
      "\<lambda>_. None" 7 example_conn]
  by (simp add: example_request_def credentials_def startswith_def)

text \<open>C25. A Basic authorization header whose user part is not an integer makes dispatch raise ValueError on every routed path, instead of treating the request as unauthenticated.\<close>

theorem router_bad_user:
  assumes "startswith (rq_path rq) ''/domains/'' \<or> startswith (rq_path rq) ''/entities/'' \<or> startswith (rq_path rq) ''/list-domains''"
    "rq_auth rq = Some (''Basic '' @ enc)" "b64 enc = Inr (user @ CHR '':'' # pw)"
    "CHR '':'' \<notin> set user" "CHR '':'' \<notin> set pw" "py_int user = None"
  shows "dispatch b64 loads sv rq c = (Inl ValueError, c)"
proof -
  have "split_on CHR '':'' (user @ CHR '':'' # pw) = [user, pw]"
    using assms(4,5) by (simp add: split_on_append_sep split_on_no_sep)
  then have "credentials b64 (rq_auth rq) = Inl ValueError"
    using assms(2-6) by (simp add: credentials_def startswith_def)
  then show ?thesis
    using assms(1) unfolding dispatch_def by (auto simp: registry_simps Let_def)
qed

theorem router_bad_user_witness:
  "dispatch (\<lambda>_. Inr ''bob:secret'') (\<lambda>_. None) 7
     ((example_request ''GET'' ''/domains/ex.example'')\<lparr>rq_auth := Some ''Basic Ym9iOnNlY3JldA==''\<rparr>) example_conn =
   (Inl ValueError, example_conn)"
  using router_bad_user [of "(example_request ''GET'' ''/domains/ex.example'')\<lparr>rq_auth := Some ''Basic Ym9iOnNlY3JldA==''\<rparr>"
      "''Ym9iOnNlY3JldA==''" "\<lambda>_. Inr ''bob:secret''" "''bob''" "''secret''" "\<lambda>_. None" 7 example_conn]
  by (simp add: example_request_def startswith_def py_int_def py_strip_def py_space_def strip_def signed_def is_space_def is_digit_def)

text \<open>C26. Every answer dispatch sends, whatever the request, carries one of the status codes
  the specification lists (section 6): 200, 201, 202, 204, 400, 401, 403, 404, 405, 412, 423
  or 500.\<close>

theorem dispatch_codes: "returns (\<lambda>r. code (rstatus r) \<in> spec_codes) (dispatch b64 loads sv rq)"
  unfolding dispatch_def Let_def
  by (intro returns_send handle_domain_codes handle_contact_codes returns_steps) (simp_all add: codes_simps send_def)

theorem dispatch_codes_witness:
  "(case dispatch Inr e2e_loads 1 (e2e_request ''GET'' ''/list-domains'' None) example_conn of
      (Inr r, _) \<Rightarrow> code (rstatus r) \<in> spec_codes | (Inl _, _) \<Rightarrow> True)"
  using dispatch_codes [of Inr e2e_loads 1 "e2e_request ''GET'' ''/list-domains'' None"]
  by (auto simp: returns_def split: prod.split sum.split)

text \<open>C34. No answer of dispatch says that the JSON body is missing: dispatch always hands
  the handlers a body (the result of \<open>json.loads\<close> on the text read, which a request without
  body makes the empty text), so the 400 'Empty' branches of the PUT and PATCH handlers of
  domains and contacts are unreachable.\<close>

theorem dispatch_never_no_body: "returns (\<lambda>r. \<not> body_missing (rbody r)) (dispatch b64 loads sv rq)"
  unfolding dispatch_def Let_def
  by (intro returns_send_post [OF handle_domain_body] returns_send_post [OF handle_contact_body] returns_steps)
    (simp_all add: send_def)

theorem dispatch_never_no_body_witness:
  "(case dispatch Inr e2e_loads 1 (e2e_request ''PUT'' ''/entities/7'' None) example_conn of
      (Inr r, _) \<Rightarrow> \<not> body_missing (rbody r) | (Inl _, _) \<Rightarrow> True)"
  using dispatch_never_no_body [of Inr e2e_loads 1 "e2e_request ''PUT'' ''/entities/7'' None"]
  by (auto simp: returns_def split: prod.split sum.split)

text \<open>C27. A path outside the three prefixes is answered 400, without a transaction id and without touching the connection.\<close>

theorem router_unknown_path:
  "\<not> startswith (rq_path rq) ''/domains/'' \<Longrightarrow> \<not> startswith (rq_path rq) ''/entities/'' \<Longrightarrow>
   \<not> startswith (rq_path rq) ''/list-domains'' \<Longrightarrow>
   dispatch b64 loads sv rq c =
     (Inr (send (st 400 ''Path must start with /domains, /entities or be /list-domains'') None None OEmpty), c)"
  unfolding dispatch_def by (simp add: registry_simps)

theorem router_unknown_path_witness:
  "dispatch (\<lambda>_. Inl ValueError) (\<lambda>_. None) 7 (example_request ''GET'' ''/domain/ex.example'') example_conn =
     (Inr (send (st 400 ''Path must start with /domains, /entities or be /list-domains'') None None OEmpty), example_conn)"
  using router_unknown_path [of "example_request ''GET'' ''/domain/ex.example''" "\<lambda>_. Inl ValueError" "\<lambda>_. None" 7 example_conn]
  by (simp add: example_request_def startswith_def)

text \<open>C28. Along any sequence of requests, whatever the decoders do, the registry keeps unique domain names, at most one pending transfer per domain, nic.example registered and the registrars table unchanged, in the committed and in the working tables.\<close>

theorem registry_reachable_inv:
  assumes "tinv (registry_inv R) c0" "reachable b64 loads c0 c"
  shows "tinv (registry_inv R) c"
  using assms(2)
proof induction
  case reach_init
  show ?case by (fact assms(1))
next
  case (reach_step c sv rq)
  then show ?case using dispatch_registry_inv by (simp add: preserves_def)
qed

theorem registry_reachable_inv_witness:
  "tinv (registry_inv (registrars example_tables))
     (snd (dispatch (\<lambda>_. Inl ValueError) (\<lambda>_. None) 1 (example_request ''DELETE'' ''/domains/nic.example'') nic_conn))"
proof -
  have h: "tinv (registry_inv (registrars example_tables)) nic_conn"
    by (simp add: tinv_def registry_inv_def dnames_ok_def pend_ok_def has_domain_def nic_conn_def
        example_conn_def example_tables_def TLD_def Let_def)
  show ?thesis
    using registry_reachable_inv [OF h reachable.reach_step [OF reachable.reach_init]] .
qed

text \<open>C29. A GET of a non-integer contact handle aborts the transaction; from then on no request of any kind changes the connection, so the server refuses every statement until it is restarted.\<close>

theorem server_wedged:
  assumes "\<not> aborted c" "pg_int h = None" "rq_method rq = ''GET''" "rq_path rq = ''/entities/'' @ h"
    "credentials b64 (rq_auth rq) = Inr cr"
  shows "aborted (snd (dispatch b64 loads sv rq c)) \<and>
    run_requests b64 loads rqs (snd (dispatch b64 loads sv rq c)) = snd (dispatch b64 loads sv rq c)"
proof -
  have p: "startswith (rq_path rq) ''/entities/''" "removeprefix (rq_path rq) ''/entities/'' = h"
    using assms(4) by (simp_all only: startswith_append removeprefix_append)
  have "snd (dispatch b64 loads sv rq c) = c\<lparr>aborted := True\<rparr>"
    using assms(1-3) by (simp add: dispatch_entities [OF p(1) assms(5)] p(2) get_contact_bad_handle)
  then show ?thesis by (simp add: run_requests_frozen)
qed

theorem server_wedged_witness:
  "aborted (snd (dispatch (\<lambda>_. Inl ValueError) (\<lambda>_. None) 3 (example_request ''GET'' ''/entities/abc'') example_conn)) \<and>
   run_requests (\<lambda>_. Inl ValueError) (\<lambda>_. None) [(4, example_request ''DELETE'' ''/entities/1'')]
     (snd (dispatch (\<lambda>_. Inl ValueError) (\<lambda>_. None) 3 (example_request ''GET'' ''/entities/abc'') example_conn)) =
   snd (dispatch (\<lambda>_. Inl ValueError) (\<lambda>_. None) 3 (example_request ''GET'' ''/entities/abc'') example_conn)"
  using server_wedged [of example_conn "''abc''" "example_request ''GET'' ''/entities/abc''" "\<lambda>_. Inl ValueError" "(None, None)"
      "\<lambda>_. None" 3 "[(4, example_request ''DELETE'' ''/entities/1'')]"]
  by (simp add: example_conn_def example_request_def credentials_def pg_int_def strip_def signed_def is_space_def is_digit_def)

text \<open>C31. End to end (specification, section 8): PUT /domains/new.example by registrar 5 answers 201, a GET then shows registrar 5 with the stored contacts, and a DELETE by registrar 6 answers 403.\<close>

theorem e2e_create_read_delete:
  "dispatch Inr e2e_loads 1 (e2e_request ''PUT'' ''/domains/new.example'' (Some ''Basic 5:p5'')) example_conn =
     (Inr (send (st 201 ''Created'') None (Some 1) (OResult (R_Created ''new.example''))), e2e_conn) \<and>
   fst (dispatch Inr e2e_loads 2 (e2e_request ''GET'' ''/domains/new.example'' None) e2e_conn) =
     Inr (send st_ok None (Some 2) (ODomainInfo ''new.example'' ''H2'' ''H2'' ''H2'' 5 10)) \<and>
   fst (dispatch Inr e2e_loads 3 (e2e_request ''DELETE'' ''/domains/new.example'' (Some ''Basic 6:p6'')) e2e_conn) =
     Inr (send (st 403 ''Forbidden'') None (Some 3) (OResult (R_NotRegistrarOf 6 ''new.example'' 5)))"
proof -
  have t: "in_tld ''new.example''"
    by (simp add: in_tld_def lower_def lower_char_def endswith_def TLD_def)
  have k: "keyed dname (domains (work e2e_conn)) ''new.example'' = Some (new_domain_row example_conn ''new.example'' ''H2'' ''H2'' ''H2'' 5)"
    by (simp add: e2e_conn_def example_tables_def keyed_def new_domain_row_def)
  have a: "\<not> aborted e2e_conn" by (simp add: e2e_conn_def example_conn_def)
  have n: "now example_conn = 10" by (simp add: example_conn_def)
  have d: "handle_domain ''new.example'' ''DELETE'' None None (Some (Some example_body)) (Some 6) (Some ''p6'') e2e_conn =
      (Inr (st 403 ''Forbidden'', OResult (R_NotRegistrarOf 6 ''new.example'' 5)), e2e_conn)"
    using t a k unfolding handle_domain_def by (simp add: registry_simps in_tld_def new_domain_row_def Let_def)
  show ?thesis
    using handle_domain_get [OF t a]
    by (simp add: e2e_dispatch e2e_credentials e2e_put d k new_domain_row_def n)
qed

text \<open>C32. End to end (specification, section 8): a transfer requested by registrar 6 and approved by registrar 5 answers 200 twice, and a GET then shows registrar 6 as sponsor.\<close>

theorem e2e_transfer_approval:
  "dispatch Inr e2e_loads 1 (e2e_request ''POST'' ''/domains/ex.example/transfer'' (Some ''Basic 6:p6'')) example_conn =
     (Inr (send st_ok None (Some 1) (OResult (R_TransferStarted ''ex.example'' 6))), example_pending) \<and>
   dispatch Inr e2e_loads 2 (e2e_request ''POST'' ''/domains/ex.example/transfer/approval'' (Some ''Basic 5:p5'')) example_pending =
     (Inr (send st_ok None (Some 2) (OResult (R_Approved ''ex.example''))), approved_conn) \<and>
   fst (dispatch Inr e2e_loads 3 (e2e_request ''GET'' ''/domains/ex.example'' None) approved_conn) =
     Inr (send st_ok None (Some 3) (ODomainInfo ''ex.example'' ''H1'' ''H1'' ''H1'' 6 1))"
proof -
  have "dispatch Inr e2e_loads 1 (e2e_request ''POST'' (''/domains/'' @ ''ex.example/transfer'') (Some ''Basic 6:p6'')) example_conn =
     (Inr (send st_ok None (Some 1) (OResult (R_TransferStarted ''ex.example'' 6))), example_pending)"
    by (simp add: e2e_dispatch_transfer [OF e2e_credentials(2) _ e2e_transfer_routes(1)] e2e_transfer_start del: append_Cons)
  moreover have "dispatch Inr e2e_loads 2 (e2e_request ''POST'' (''/domains/'' @ ''ex.example/transfer/approval'') (Some ''Basic 5:p5'')) example_pending =
     (Inr (send st_ok None (Some 2) (OResult (R_Approved ''ex.example''))), approved_conn)"
    by (simp add: e2e_dispatch_transfer [OF e2e_credentials(1) _ e2e_transfer_routes(2)] e2e_approve del: append_Cons)
  moreover have "fst (dispatch Inr e2e_loads 3 (e2e_request ''GET'' (''/domains/'' @ ''ex.example'') None) approved_conn) =
     Inr (send st_ok None (Some 3) (ODomainInfo ''ex.example'' ''H1'' ''H1'' ''H1'' 6 1))"
    using handle_domain_get [OF example_in_tld(2) approved_conn_row(2)]
    by (simp add: e2e_dispatch_path [OF e2e_credentials(3) _ e2e_transfer_routes(3)] approved_conn_row(1) example_row_def
        del: append_Cons)
  ultimately show ?thesis by simp
qed

end
