(* ===== verification/Server.thy ===== *)
theory Server
  imports Router
begin

text \<open>
  The start of the server and its request loop. When \<open>test-server.py\<close> imports
  \<open>registry\<close>, the module's top level runs once: it opens its log file (lines 21,
  601--610), connects to the database with autocommit off (lines 613--616), writes
  "Server starts" to the log (line 617) and reads its three schema files (lines 619--625).
  The script then binds its port, sets the banner of the server's answers and serves the
  requests one after another on the module's single connection (test-server.py lines 8--15).
  Every step of the start-up can fail; a failure stops it there with the exception, and the
  log keeps what the earlier steps wrote. The world outside the process (writable paths,
  files, the database, free ports) is a record, \<open>world\<close>; the running server is the
  connection, the log records written by this process (level and message) and the schema
  documents read.
\<close>

section \<open>World and server state\<close>

text \<open>What the start-up finds outside the process: the paths the log handler can open for
  appending, the readable files and their text, the database each connection string reaches
  (its state, \<open>None\<close> when the connection is refused) and the free TCP ports.\<close>

record world =
  w_writable :: "string \<Rightarrow> bool"
  w_files :: "string \<Rightarrow> string option"
  w_database :: "string \<Rightarrow> conn option"
  w_port_free :: "nat \<Rightarrow> bool"

text \<open>A log record: level name and message; the formatter's time stamp is left out.\<close>

type_synonym log_record = "string \<times> string"

record server =
  sconn :: conn
  slog :: "log_record list"
  sschemas :: "json \<times> json \<times> json"

section \<open>The module's top level\<close>

text \<open>The log file (lines 21 and 604).\<close>

definition LOGFILENAME :: string where
  "LOGFILENAME = ''rpp.log''"

definition loggingstr :: string where
  "loggingstr = ''/home/stephane/tmp/'' @ LOGFILENAME"

text \<open>\<open>logging.FileHandler(loggingstr)\<close> opens the file for appending when it is created;
  a path that cannot be opened raises \<open>OSError\<close> (\<open>FileNotFoundError\<close>,
  \<open>PermissionError\<close>). The logger's level and formatter (lines 603, 606--609) do not fail.\<close>

definition file_handler :: "world \<Rightarrow> exn + unit" where
  "file_handler w = (if w_writable w loggingstr then Inr () else Inl (OSError loggingstr))"

text \<open>\<open>psycopg2.connect(dsn)\<close> and \<open>set_session(autocommit=False, ...)\<close> (lines
  613--615): a refused connection raises \<open>OperationalError\<close>; a new session has no
  transaction open yet, so its working tables are the committed ones and it is not aborted.\<close>

definition connect :: "world \<Rightarrow> string \<Rightarrow> exn + conn" where
  "connect w dsn =
     (case w_database w dsn of
        None \<Rightarrow> Inl (DbError OperationalError)
      | Some c \<Rightarrow> Inr (c\<lparr>work := committed c, aborted := False\<rparr>))"

text \<open>\<open>INPUT = open(name); json.load(INPUT)\<close> (lines 620--625): a missing file raises
  \<open>OSError\<close> (\<open>FileNotFoundError\<close>), a text that does not decode \<open>JSONDecodeError\<close>.\<close>

definition json_load :: "(string \<Rightarrow> json option) \<Rightarrow> world \<Rightarrow> string \<Rightarrow> exn + json" where
  "json_load loads w name =
     (case w_files w name of
        None \<Rightarrow> Inl (OSError name)
      | Some text \<Rightarrow> (case loads text of None \<Rightarrow> Inl JSONDecodeError | Some j \<Rightarrow> Inr j))"

text \<open>The top level of \<open>registry.py\<close> as it runs at import (lines 601--625): the result
  and the records written to the log until the end or the first exception.\<close>

definition module_init :: "(string \<Rightarrow> json option) \<Rightarrow> world \<Rightarrow> (exn + server) \<times> log_record list" where
  "module_init loads w =
     (case file_handler w of
        Inl e \<Rightarrow> (Inl e, [])
      | Inr _ \<Rightarrow>
     (case connect w ''dbname=registry'' of
        Inl e \<Rightarrow> (Inl e, [])
      | Inr c \<Rightarrow>
     (let log = [(''INFO'', ''Server starts'')] in
     (case json_load loads w ''domain-schema.json'' of
        Inl e \<Rightarrow> (Inl e, log)
      | Inr ds \<Rightarrow>
     (case json_load loads w ''patch-domain-schema.json'' of
        Inl e \<Rightarrow> (Inl e, log)
      | Inr ps \<Rightarrow>
     (case json_load loads w ''entity-schema.json'' of
        Inl e \<Rightarrow> (Inl e, log)
      | Inr es \<Rightarrow> (Inr \<lparr>sconn = c, slog = log, sschemas = (ds, ps, es)\<rparr>, log)))))))"

section \<open>The server script (test-server.py)\<close>

definition port :: nat where
  "port = 8080"

definition VERSION :: string where
  "VERSION = ''0.0''"

text \<open>The banner of the answers (line 12): \<open>sys.version.split()[0]\<close> is the first
  blank-separated word of the interpreter's version text.\<close>

definition server_software :: "string \<Rightarrow> string" where
  "server_software pyversion =
     ''RPP-Afnic/'' @ VERSION @ '' CPython/'' @ takeWhile (\<lambda>ch. \<not> py_space ch) (dropWhile py_space pyversion)"

text \<open>\<open>serve_forever()\<close> (line 15): the requests one after another on the module's
  connection; an answered request appends the record \<open>send\<close> logged, a request whose
  \<open>dispatch\<close> raises appends none (the WSGI server reports it on its own stream).\<close>

fun serve ::
  "(string \<Rightarrow> exn + string) \<Rightarrow> (string \<Rightarrow> json option) \<Rightarrow> (nat \<times> request) list \<Rightarrow> server \<Rightarrow> server" where
  "serve b64 loads [] s = s"
| "serve b64 loads ((sv, rq) # rqs) s =
     (let (r, c) = dispatch b64 loads sv rq (sconn s) in
      serve b64 loads rqs
        (s\<lparr>sconn := c, slog := slog s @ (case r of Inl _ \<Rightarrow> [] | Inr a \<Rightarrow> [(''INFO'', rlogged a)])\<rparr>))"

text \<open>The script (lines 6--15): import the module, bind the port (\<open>make_server\<close> raises
  \<open>OSError\<close> when it is taken), set the banner and serve. The result is the banner and the
  server after the requests given, or the exception, with the log.\<close>

definition test_server ::
  "(string \<Rightarrow> exn + string) \<Rightarrow> (string \<Rightarrow> json option) \<Rightarrow> world \<Rightarrow> string \<Rightarrow> (nat \<times> request) list \<Rightarrow>
   (exn + string \<times> server) \<times> log_record list" where
  "test_server b64 loads w pyversion rqs =
     (case module_init loads w of
        (Inl e, log) \<Rightarrow> (Inl e, log)
      | (Inr s, log) \<Rightarrow>
          if \<not> w_port_free w port then (Inl (OSError ''Address already in use''), log)
          else (let s' = serve b64 loads rqs s in (Inr (server_software pyversion, s'), slog s')))"

text \<open>A worked-example world: the log directory exists, the three schema files hold the
  texts D, P and E, the database is the example registry and port 8080 is free.\<close>

definition example_world :: world where
  "example_world =
     \<lparr>w_writable = (\<lambda>p. p = loggingstr),
      w_files = [''domain-schema.json'' \<mapsto> ''D'', ''patch-domain-schema.json'' \<mapsto> ''P'', ''entity-schema.json'' \<mapsto> ''E''],
      w_database = [''dbname=registry'' \<mapsto> example_conn],
      w_port_free = (\<lambda>p. p = port)\<rparr>"

definition schema_loads :: "string \<Rightarrow> json option" where
  "schema_loads t = (if t \<in> {''D'', ''P'', ''E''} then Some (JObj [(''title'', JStr t)]) else None)"

section \<open>Lemmas\<close>

lemma dispatch_logged:
  "returns (\<lambda>r. startswith (rlogged r) ''Completing transaction '') (dispatch b64 loads sv rq)"
  unfolding dispatch_def Let_def
  by (intro returns_send_post [OF returns_True] returns_steps) (simp_all add: send_def log_line_def startswith_def)

lemma serve_conn: "sconn (serve b64 loads rqs s) = run_requests b64 loads rqs (sconn s) \<and> sschemas (serve b64 loads rqs s) = sschemas s"
  by (induction b64 loads rqs s rule: serve.induct) (simp_all add: Let_def split_def)

lemma serve_log:
  "\<exists>new. slog (serve b64 loads rqs s) = slog s @ new \<and> length new \<le> length rqs \<and>
     (\<forall>(l, m)\<in>set new. l = ''INFO'' \<and> startswith m ''Completing transaction '')"
proof (induction rqs arbitrary: s)
  case Nil
  then show ?case by simp
next
  case (Cons q rqs)
  obtain sv rq where q: "q = (sv, rq)" by (cases q)
  obtain r c where d: "dispatch b64 loads sv rq (sconn s) = (r, c)" by (cases "dispatch b64 loads sv rq (sconn s)")
  define add where "add = (case r of Inl _ \<Rightarrow> [] | Inr a \<Rightarrow> [(''INFO'', rlogged a)])"
  have add: "length add \<le> 1 \<and> (\<forall>(l, m)\<in>set add. l = ''INFO'' \<and> startswith m ''Completing transaction '')"
    using dispatch_logged [of b64 loads sv rq] d by (auto simp: add_def returns_def split: sum.split)
  obtain new where "slog (serve b64 loads rqs (s\<lparr>sconn := c, slog := slog s @ add\<rparr>)) = (slog s @ add) @ new"
    "length new \<le> length rqs" "\<forall>(l, m)\<in>set new. l = ''INFO'' \<and> startswith m ''Completing transaction ''"
    using Cons.IH [of "s\<lparr>sconn := c, slog := slog s @ add\<rparr>"] by auto
  then show ?case using add q d
    by (intro exI [of _ "add @ new"]) (auto simp: add_def)
qed


lemma json_load_error: "json_load loads w n = Inl e \<Longrightarrow> e = JSONDecodeError \<or> e = OSError n"
  by (auto simp: json_load_def split: option.splits)

section \<open>Claims\<close>

text \<open>C35. The start-up stops at its first failing step. A log path that cannot be opened (the
  module hard-codes \<open>/home/stephane/tmp/\<close>) raises \<open>OSError\<close> before anything is
  logged or connected; a refused database connection raises \<open>OperationalError\<close> with
  nothing logged; every later failure (a schema file missing or not JSON, the port taken)
  comes after "Server starts" was written, so the log announces a start that did not happen.\<close>

theorem server_start_failures:
  "(\<not> w_writable w loggingstr \<longrightarrow> test_server b64 loads w v rqs = (Inl (OSError loggingstr), [])) \<and>
   (w_writable w loggingstr \<longrightarrow> w_database w ''dbname=registry'' = None \<longrightarrow>
      test_server b64 loads w v rqs = (Inl (DbError OperationalError), [])) \<and>
   (w_writable w loggingstr \<longrightarrow> w_database w ''dbname=registry'' \<noteq> None \<longrightarrow>
      fst (test_server b64 loads w v rqs) = Inl e \<longrightarrow>
      snd (test_server b64 loads w v rqs) = [(''INFO'', ''Server starts'')] \<and>
      (e = JSONDecodeError \<or>
       e \<in> OSError ` {''domain-schema.json'', ''patch-domain-schema.json'', ''entity-schema.json'', ''Address already in use''}))"
  unfolding test_server_def module_init_def Let_def
  by (auto simp: file_handler_def connect_def dest!: json_load_error split: sum.splits option.splits if_splits)

theorem server_start_failures_witness:
  "test_server Inr schema_loads (example_world\<lparr>w_writable := \<lambda>_. False\<rparr>) ''3.11'' [] = (Inl (OSError loggingstr), []) \<and>
   test_server Inr schema_loads (example_world\<lparr>w_database := Map.empty\<rparr>) ''3.11'' [] = (Inl (DbError OperationalError), []) \<and>
   snd (test_server Inr schema_loads (example_world\<lparr>w_port_free := \<lambda>_. False\<rparr>) ''3.11'' []) = [(''INFO'', ''Server starts'')]"
proof -
  have "fst (test_server Inr schema_loads (example_world\<lparr>w_port_free := \<lambda>_. False\<rparr>) ''3.11'' []) =
    Inl (OSError ''Address already in use'')"
    by (simp add: test_server_def module_init_def file_handler_def connect_def json_load_def example_world_def schema_loads_def Let_def)
  then show ?thesis
    using server_start_failures [of "example_world\<lparr>w_writable := \<lambda>_. False\<rparr>" Inr schema_loads "''3.11''" "[]"]
      server_start_failures [of "example_world\<lparr>w_database := Map.empty\<rparr>" Inr schema_loads "''3.11''" "[]"]
      server_start_failures [of "example_world\<lparr>w_port_free := \<lambda>_. False\<rparr>" Inr schema_loads "''3.11''" "[]"
        "OSError ''Address already in use''"]
    by (simp add: example_world_def)
qed

text \<open>C36. In a world where every start-up step succeeds, the script serves: its answers carry
  the banner \<open>RPP-Afnic/0.0 CPython/<version>\<close>, the connection after the requests is the one
  the request loop \<open>run_requests\<close> computes from the fresh session, the schema documents
  are those read from the three files, and the log is "Server starts" followed by at most
  one "Completing transaction" record per request.\<close>

theorem server_start_serves:
  assumes "w_writable w loggingstr" "w_database w ''dbname=registry'' = Some c0"
    "w_files w ''domain-schema.json'' = Some t1" "loads t1 = Some ds"
    "w_files w ''patch-domain-schema.json'' = Some t2" "loads t2 = Some ps"
    "w_files w ''entity-schema.json'' = Some t3" "loads t3 = Some es"
    "w_port_free w port"
  shows "\<exists>s. test_server b64 loads w v rqs = (Inr (server_software v, s), slog s) \<and>
     sconn s = run_requests b64 loads rqs (c0\<lparr>work := committed c0, aborted := False\<rparr>) \<and>
     sschemas s = (ds, ps, es) \<and>
     (\<exists>new. slog s = (''INFO'', ''Server starts'') # new \<and> length new \<le> length rqs \<and>
        (\<forall>(l, m)\<in>set new. l = ''INFO'' \<and> startswith m ''Completing transaction ''))"
proof -
  let ?s0 = "\<lparr>sconn = c0\<lparr>work := committed c0, aborted := False\<rparr>, slog = [(''INFO'', ''Server starts'')],
              sschemas = (ds, ps, es)\<rparr>"
  have "module_init loads w = (Inr ?s0, [(''INFO'', ''Server starts'')])"
    using assms by (simp add: module_init_def file_handler_def connect_def json_load_def Let_def)
  then have "test_server b64 loads w v rqs = (Inr (server_software v, serve b64 loads rqs ?s0), slog (serve b64 loads rqs ?s0))"
    using assms by (simp add: test_server_def Let_def)
  then show ?thesis using serve_conn [of b64 loads rqs ?s0] serve_log [of b64 loads rqs ?s0] by auto
qed

theorem server_start_serves_witness:
  "\<exists>s. test_server Inr schema_loads example_world ''3.11.2 (main)'' [] =
       (Inr (''RPP-Afnic/0.0 CPython/3.11.2'', s), slog s) \<and>
     sconn s = example_conn \<and>
     sschemas s = (JObj [(''title'', JStr ''D'')], JObj [(''title'', JStr ''P'')], JObj [(''title'', JStr ''E'')])"
proof -
  have "example_conn\<lparr>work := committed example_conn, aborted := False\<rparr> = example_conn"
    by (simp add: example_conn_def)
  moreover have "server_software ''3.11.2 (main)'' = ''RPP-Afnic/0.0 CPython/3.11.2''"
    by (simp add: server_software_def VERSION_def py_space_def is_space_def)
  ultimately show ?thesis
    using server_start_serves [of example_world example_conn "''D''" schema_loads "JObj [(''title'', JStr ''D'')]"
        "''P''" "JObj [(''title'', JStr ''P'')]" "''E''" "JObj [(''title'', JStr ''E'')]" Inr "''3.11.2 (main)''" "[]"]
    by (auto simp: example_world_def schema_loads_def)
qed

text \<open>C37. The log record of every answer names the transaction the answer carries: its
  message is "Completing transaction" followed by the value of the \<open>RPP-Svtrid\<close> header,
  or "(None)" when the answer has none.\<close>

theorem dispatch_log_header:
  "returns (\<lambda>r. rlogged r = ''Completing transaction '' @
     (case map_of (rheaders r) ''RPP-Svtrid'' of None \<Rightarrow> ''(None)'' | Some t \<Rightarrow> t)) (dispatch b64 loads sv rq)"
  unfolding dispatch_def Let_def
  by (intro returns_send_post [OF returns_True] returns_steps) (simp_all add: send_def log_line_def split: option.split)

theorem dispatch_log_header_witness:
  "(case dispatch Inr e2e_loads 7 (e2e_request ''GET'' ''/domains/ex.example'' None) example_conn of
      (Inr r, _) \<Rightarrow> rlogged r = ''Completing transaction '' @
                      (case map_of (rheaders r) ''RPP-Svtrid'' of None \<Rightarrow> ''(None)'' | Some t \<Rightarrow> t)
    | (Inl _, _) \<Rightarrow> True)"
  using dispatch_log_header [of Inr e2e_loads 7 "e2e_request ''GET'' ''/domains/ex.example'' None"]
  by (auto simp: returns_def split: prod.split sum.split)

end
