(* ===== verification/Spec2Isabelle.thy ===== *)
theory Spec2Isabelle
  imports Server
begin

text \<open>
  \<^bold>\<open>Verification development of the RPP registry server (RPP-Afnic).\<close>

  The program is one Python module, \<open>src/registry.py\<close>, served by
  \<open>src/test-server.py\<close> (wsgiref's \<open>serve_forever\<close> calling \<open>registry.dispatch\<close>
  for each request). All requests share one PostgreSQL connection with autocommit off:
  the store functions of the module send SQL statements on it and commit or roll back.
  \<open>dispatch\<close> routes a request by its path to \<open>handle_domain\<close> (which calls
  \<open>transfer_domain\<close>, \<open>availability_domain\<close> and \<open>patch_domain\<close>) or to
  \<open>handle_contact\<close>, or answers \<open>/list-domains\<close> itself; \<open>send\<close> turns the
  handler's (status, output) pair into the HTTP answer.

  \<^bold>\<open>Theories and correspondence to the code.\<close>
  \<^item> \<open>Prelude\<close>: the basic types (registrar ids and contact handles are \<open>int\<close>,
    names are strings), the exceptions the module raises or lets escape (\<open>exn\<close>,
    lines 23--37, plus the driver's, the JSON and the built-in errors), Python's
    string helpers (\<open>startswith\<close>, \<open>endswith\<close>, \<open>split\<close>, \<open>lower\<close>,
    \<open>removeprefix\<close>), Python's \<open>int()\<close> (\<open>py_int\<close>) and PostgreSQL's integer
    input (\<open>pg_int\<close>), and tables as row lists with their keyed map view \<open>keyed\<close>.
  \<^item> \<open>Json\<close>: decoded JSON values, dictionary lookup with Python's last-key-wins
    semantics (\<open>jget\<close>, \<open>jindex\<close>), truth values, the three schemas (written from
    the specification, since the schema files are not in the repository) and
    \<open>validate_json\<close> (lines 200--217).
  \<^item> \<open>Store\<close>: the connection (\<open>conn\<close>: committed tables, the open transaction's
    working tables, the aborted flag of PostgreSQL, the two sequences, the transaction
    time), the error-and-state monad \<open>'a py\<close> in which every function of the module is
    written (\<open>retE\<close>, \<open>raiseE\<close>, \<open>bindE\<close>, \<open>catchE\<close> for \<open>try/except\<close>), every SQL
    statement the module sends (\<open>sel_domain\<close>, \<open>ins_domain\<close>, \<open>upd_domain\<close>, ...;
    \<open>execute\<close> refuses statements on an aborted transaction and aborts it on an error)
    and the store functions \<open>head_domain\<close> \<dots> \<open>auth_registrar\<close> (lines 65--187).
  \<^item> \<open>Protocol\<close>: the status dictionary and the output dictionaries, one constructor
    per format string of the \<open>result\<close> member.
  \<^item> \<open>Domain_Transfer\<close>: \<open>transfer_domain\<close> (lines 243--316) and the abstract transfer
    machine \<open>xfer_step\<close> over the sponsor and pending-winner maps, its steps labelled by
    the action (\<open>xact\<close>) that \<open>req_action\<close> reads off a request.
  \<^item> \<open>Domain\<close>: \<open>registerable\<close>, \<open>availability_domain\<close>, \<open>patch_domain\<close>, the
    creation part of the \<open>PUT\<close> branch (\<open>create_domain\<close>) and \<open>handle_domain\<close>
    (lines 110--129, 190--241, 318--456).
  \<^item> \<open>Contact\<close>: \<open>handle_contact\<close> (lines 458--521) with the loop over name
    components (\<open>scan_components\<close>) and the creation path (\<open>put_contact\<close>).
  \<^item> \<open>Router\<close>: \<open>send\<close> (lines 44--62, with the record it logs, \<open>log_line\<close>),
    the header and path parsing (\<open>credentials\<close>, \<open>route_domain\<close>), \<open>dispatch\<close>
    (lines 523--599), and the server as a machine: \<open>run_requests\<close> runs a list of
    requests, \<open>reachable\<close> is the inductive set of connections reachable from a start
    connection.
  \<^item> \<open>Server\<close>: the module's top level (lines 21, 601--625: \<open>file_handler\<close> for the
    log file, \<open>connect\<close> for the database session, \<open>json_load\<close> for each schema file,
    composed in \<open>module_init\<close>) and the script \<open>test-server.py\<close> (\<open>test_server\<close>:
    the port, the banner \<open>server_software\<close>, and \<open>serve\<close> for \<open>serve_forever\<close>),
    over a \<open>world\<close> record of writable paths, files, databases and free ports.

  Each operation is one definition whose branches follow the code's conditions and early
  returns; every \<open>raise\<close>, every exception that escapes a handler and every error of the
  driver is an \<open>Inl\<close> value of the monad, and the state the code leaves behind (with or
  without commit or rollback) is the second component.

  \<^bold>\<open>What is proved.\<close> The claims C1--C37 of the manifest, each preceded by its text:
  \<^item> Transfers (C1--C6, C33): every transfer call on a clean connection either leaves the
    sponsor and pending views alone or performs the step of the abstract machine that the
    request's action names, an approval moving the domain to the winner (refinement, C1);
    at most one pending transfer per domain (C2); approval, repeated requests, rejection
    and cancellation behave as the specification's section 8 says (C3--C5), and decisions
    by the wrong registrar are refused (C6). C33 shows the two error exits of a decision:
    the 500 of approval that leaves its first update in the open transaction without
    rollback, and the 404 an unknown action receives when nothing is pending.
  \<^item> Domains (C7--C16, C30): create then read, create twice (412, state kept), quota,
    delete then read, refused deletions (403 before the secret, 423 for \<open>nic.example\<close>),
    empty patch; \<open>nic.example\<close> is never removed (C10) and names stay unique with at most
    one pending transfer (C11). C15 and C16 record divergences from the specification:
    \<open>PATCH\<close> has no ownership check, and \<open>PUT\<close> never consults \<open>registerable\<close>. C30
    characterises \<open>registerable\<close> exactly.
  \<^item> Contacts (C17--C22): contact 1 is deletable (the guard compares a string with an
    integer), creation stores the last given name and surname and reports no handle,
    a missing surname and a schema violation escape the handler, a non-integer handle
    aborts the transaction, quota.
  \<^item> Router (C23--C29, C31, C32, C34): the path of a domain request is parsed back into
    its parts and routed to \<open>handle_domain\<close> (C23); the malformed paths
    \<open>/list-domainsX\<close> and \<open>/domains/\<close> (C24) and a non-numeric Basic user (C25) are
    answered with 500 or an escaping exception instead of the specification's 400 or
    "unauthenticated"; every answer carries a status code of the specification's list
    (C26, a typing property proved with the postcondition predicate \<open>returns\<close>), and none
    is one of the handlers' "no JSON body" answers, which \<open>dispatch\<close> cannot reach (C34);
    a path outside the three prefixes is answered 400 (C27); along every sequence of
    requests the registry invariant holds (C28); and once a request aborts the
    transaction, no later request changes anything (C29), so the server is wedged until
    restarted. The two end-to-end scenarios of the specification's section 8 run through
    \<open>dispatch\<close> with the answers it promises (C31, C32).
  \<^item> Server (C35--C37): the start-up stops at its first failing step, and every failure
    after the database connection leaves "Server starts" in the log (C35); when every
    step succeeds the script serves, its connection follows \<open>run_requests\<close> from the
    fresh session and its log is "Server starts" then at most one record per request
    (C36, the composition of start-up, request loop and logging); the log record of each
    answer names the transaction of its \<open>RPP-Svtrid\<close> header (C37).

  Invariants are proved compositionally: \<open>preserves I m\<close> says that \<open>m\<close> keeps \<open>I\<close>
  whatever it returns or raises, and the rules of \<open>preserves_intros\<close> take it through
  \<open>bindE\<close>, \<open>catchE\<close>, conditionals and statements, so that a handler's invariant
  proof is one application of them to the unfolded handler. \<open>frozen\<close> and
  \<open>blocked\<close> do the same for computations started on an aborted transaction.

  \<^bold>\<open>Modelling choices and bounds.\<close> There are no loops that may not end: the only
  loops are over finite lists (rows, components), modelled by structural recursion, so
  no fuel is needed; the one recursion on a computed argument, the decimal printer
  \<open>nat_str\<close>, is a \<open>function\<close> with a measure termination proof. Integers are
  unbounded as in Python; registrar ids and handles are \<open>int\<close>. Quotas use the module's constants \<open>MAX_DOMAINS = MAX_CONTACTS = 5000\<close>.
  The JSON decoder and the base64 decoder are parameters of \<open>dispatch\<close>, so the router
  lemmas hold for any of their behaviours; the server transaction id is an argument.
  \<open>serve_forever\<close> does not return: \<open>serve\<close> and \<open>run_requests\<close> run any
  finite sequence of requests, so what is proved of them holds of every prefix of the
  server's run. The world of the start-up is a record of functions, so the start-up
  lemmas hold for every file system, database and port state.

  \<^bold>\<open>Not modelled.\<close> The JSON serialization of answers (\<open>json.dumps\<close> with
  \<open>serialize_others\<close>, lines 38--42) and the \<open>Content-Length\<close> header: the output
  dictionaries keep the information of the \<open>result\<close> sentences but not their formatted
  text, and the time stamps are abstract numbers, so the ISO text of a date is left out; the
  log formatter's layout and time stamp (lines 603, 606--609), the log keeping level and
  message; the console print of \<open>test-server.py\<close> line 13 and its socket layer beyond
  the binding of the port; the content of the schema documents read at start-up (they are
  not in the repository: validation uses predicates written from the specification, and the
  documents read are kept in the server state); the type of the contacts' handle column
  (the SQL schema is not in the repository: \<open>pg_int\<close> accepts every decimal integer, as a
  \<open>bigint\<close> or \<open>numeric\<close> column would, where an \<open>integer\<close> column would also refuse
  values beyond 32 bits); concurrency between several server
  processes on the same database (one connection is modelled, as the code has);
  PostgreSQL's isolation beyond the one transaction of the connection.
\<close>

end
